theory Spec2Isabelle
  imports Main "HOL-Library.Word" "HOL-Library.AList"
begin

section \<open>Data model of the style sheet (xmlStyle.go)\<close>

text \<open>
  Go's \<open>int\<close> is modelled as \<open>int\<close>: the only arithmetic the modelled functions do on it
  is \<open>Count++\<close> and \<open>numFmtId++\<close>, and the comparisons with table bounds.  A \<open>float64\<close> is
  only carried around by these functions (never computed with), so it is kept as its
  64-bit pattern.  A Go pointer (\<open>*int\<close>, \<open>*xlsxVal\<close>, \<open>*xlsxColors\<close>, ...) is an
  \<open>option\<close>, \<open>None\<close> being \<open>nil\<close>; the modelled code never compares two non-nil pointers
  by address without also comparing what they point to.  A Go map is an association list
  (a Go map is finite), looked up with \<open>map_of\<close>.
\<close>

type_synonym float64 = "64 word"

datatype error =
    Panic
  | RowNotFoundError string string
  | Errorf string
  | WrongType
  | DecodeError

record xlsxVal =
  Val :: string

record xlsxColor =
  RGB :: string
  Theme :: "int option"
  Tint :: float64
  Indexed :: "int option"

record xlsxFont =
  Sz :: xlsxVal
  Name :: xlsxVal
  Family :: xlsxVal
  Charset :: xlsxVal
  Color :: xlsxColor
  B :: "xlsxVal option"
  I :: "xlsxVal option"
  U :: "xlsxVal option"
  Scheme :: "xlsxVal option"
  Strike :: "xlsxVal option"

record xlsxFonts =
  Count :: int
  Font :: "xlsxFont list"

record xlsxPatternFill =
  PatternType :: string
  FgColor :: xlsxColor
  BgColor :: xlsxColor

record xlsxFill =
  PatternFill :: xlsxPatternFill

record xlsxFills =
  Count :: int
  Fill :: "xlsxFill list"

record xlsxLine =
  Style :: string
  Color :: xlsxColor

record xlsxBorder =
  Left :: xlsxLine
  Right :: xlsxLine
  Top :: xlsxLine
  Bottom :: xlsxLine

record xlsxBorders =
  Count :: int
  Border :: "xlsxBorder list"

record xlsxAlignment =
  Horizontal :: string
  Indent :: int
  ShrinkToFit :: bool
  TextRotation :: int
  Vertical :: string
  WrapText :: bool

record xlsxXf =
  ApplyAlignment :: bool
  ApplyBorder :: bool
  ApplyFont :: bool
  ApplyFill :: bool
  ApplyNumberFormat :: bool
  ApplyProtection :: bool
  BorderId :: int
  FillId :: int
  FontId :: int
  NumFmtId :: int
  XfId :: "int option"
  Alignment :: xlsxAlignment

record xlsxCellStyleXfs =
  Count :: int
  Xf :: "xlsxXf list"

record xlsxCellXfs =
  Count :: int
  Xf :: "xlsxXf list"

record xlsxNumFmt =
  NumFmtId :: int
  FormatCode :: string

record xlsxNumFmts =
  Count :: int
  NumFmt :: "xlsxNumFmt list"

record xlsxCellStyle =
  BuiltInId :: "int option"
  CustomBuiltIn :: "bool option"
  Hidden :: "bool option"
  ILevel :: "bool option"
  Name :: string
  XfId :: int

record xlsxCellStyles =
  Count :: int
  CellStyle :: "xlsxCellStyle list"

record xlsxDXFs =
  Count :: int

record xlsxRgbColor =
  Rgb :: string

text \<open>
  \<open>IndexedColors\<close> is tested against \<open>nil\<close> by \<open>indexedColor\<close>, so the nil slice
  (\<open>None\<close>) and the empty slice are kept apart.
\<close>

record xlsxColors =
  IndexedColors :: "xlsxRgbColor list option"
  MruColors :: "xlsxColor list"

text \<open>
  The resolved style.  The declaration of \<open>Style\<close> (and of its parts \<open>Border\<close>, \<open>Fill\<close>,
  \<open>Font\<close>, \<open>Alignment\<close>) is not among the source files; the fields are those that
  \<open>populateStyleFromXf\<close> and \<open>getStyle\<close> assign and the test file reads.
\<close>

record Border =
  Left :: string
  LeftColor :: string
  Right :: string
  RightColor :: string
  Top :: string
  TopColor :: string
  Bottom :: string
  BottomColor :: string

record Fill =
  PatternType :: string
  BgColor :: string
  FgColor :: string

record Font =
  Size :: float64
  Name :: string
  Family :: int
  Charset :: int
  Color :: string
  Bold :: bool
  Italic :: bool
  Underline :: bool
  Strike :: bool

record Alignment =
  Horizontal :: string
  Indent :: int
  ShrinkToFit :: bool
  TextRotation :: int
  Vertical :: string
  WrapText :: bool

record Style =
  Border :: Border
  Fill :: Fill
  Font :: Font
  ApplyBorder :: bool
  ApplyFill :: bool
  ApplyFont :: bool
  ApplyAlignment :: bool
  Alignment :: Alignment
  NamedStyleIndex :: "int option"

text \<open>
  Modelled from the spec: the type \<open>theme\<close> is declared in none of the source files; the
  specification describes it as an ordered palette of base colours addressed by index.
\<close>

record theme =
  colors :: "string list"

text \<open>
  The style sheet.  \<open>styleCache\<close> is \<open>None\<close> for the nil map of a zero-value struct, on
  which a read misses and a write panics.  The field \<open>parsedNumFmtTable\<close> is touched by
  none of the functions modelled here and is left out.
\<close>

record xlsxStyleSheet =
  Fonts :: xlsxFonts
  Fills :: xlsxFills
  Borders :: xlsxBorders
  Colors :: "xlsxColors option"
  CellStyles :: "xlsxCellStyles option"
  CellStyleXfs :: "xlsxCellStyleXfs option"
  CellXfs :: xlsxCellXfs
  NumFmts :: "xlsxNumFmts option"
  DXfs :: xlsxDXFs
  theme :: "theme option"
  styleCache :: "(int \<times> Style) list option"
  numFmtRefTable :: "(int \<times> xlsxNumFmt) list"

section \<open>Equality of style primitives\<close>

definition xlsxVal_Equals :: "xlsxVal \<Rightarrow> xlsxVal \<Rightarrow> bool" where
  "xlsxVal_Equals val other \<longleftrightarrow> Val val = Val other"

definition xlsxColor_Equals :: "xlsxColor \<Rightarrow> xlsxColor \<Rightarrow> bool" where
  "xlsxColor_Equals color other \<longleftrightarrow> RGB color = RGB other"

definition xlsxFont_Equals :: "xlsxFont \<Rightarrow> xlsxFont \<Rightarrow> bool" where
  "xlsxFont_Equals font other =
     (if (B font = None \<and> B other \<noteq> None) \<or> (B font \<noteq> None \<and> B other = None) then False
      else if (I font = None \<and> I other \<noteq> None) \<or> (I font \<noteq> None \<and> I other = None) then False
      else if (U font = None \<and> U other \<noteq> None) \<or> (U font \<noteq> None \<and> U other = None) then False
      else xlsxVal_Equals (Sz font) (Sz other) \<and> xlsxVal_Equals (xlsxFont.Name font) (xlsxFont.Name other)
         \<and> xlsxVal_Equals (xlsxFont.Family font) (xlsxFont.Family other)
         \<and> xlsxVal_Equals (xlsxFont.Charset font) (xlsxFont.Charset other)
         \<and> xlsxColor_Equals (xlsxFont.Color font) (xlsxFont.Color other))"

definition xlsxPatternFill_Equals :: "xlsxPatternFill \<Rightarrow> xlsxPatternFill \<Rightarrow> bool" where
  "xlsxPatternFill_Equals patternFill other \<longleftrightarrow>
     xlsxPatternFill.PatternType patternFill = xlsxPatternFill.PatternType other
     \<and> xlsxColor_Equals (xlsxPatternFill.FgColor patternFill) (xlsxPatternFill.FgColor other)
     \<and> xlsxColor_Equals (xlsxPatternFill.BgColor patternFill) (xlsxPatternFill.BgColor other)"

definition xlsxFill_Equals :: "xlsxFill \<Rightarrow> xlsxFill \<Rightarrow> bool" where
  "xlsxFill_Equals fill other \<longleftrightarrow> xlsxPatternFill_Equals (PatternFill fill) (PatternFill other)"

definition xlsxLine_Equals :: "xlsxLine \<Rightarrow> xlsxLine \<Rightarrow> bool" where
  "xlsxLine_Equals line other \<longleftrightarrow>
     xlsxLine.Style line = xlsxLine.Style other
     \<and> xlsxColor_Equals (xlsxLine.Color line) (xlsxLine.Color other)"

definition xlsxBorder_Equals :: "xlsxBorder \<Rightarrow> xlsxBorder \<Rightarrow> bool" where
  "xlsxBorder_Equals border other \<longleftrightarrow>
     xlsxLine_Equals (xlsxBorder.Left border) (xlsxBorder.Left other)
     \<and> xlsxLine_Equals (xlsxBorder.Right border) (xlsxBorder.Right other)
     \<and> xlsxLine_Equals (xlsxBorder.Top border) (xlsxBorder.Top other)
     \<and> xlsxLine_Equals (xlsxBorder.Bottom border) (xlsxBorder.Bottom other)"

definition xlsxAlignment_Equals :: "xlsxAlignment \<Rightarrow> xlsxAlignment \<Rightarrow> bool" where
  "xlsxAlignment_Equals alignment other \<longleftrightarrow>
     xlsxAlignment.Horizontal alignment = xlsxAlignment.Horizontal other
     \<and> xlsxAlignment.Indent alignment = xlsxAlignment.Indent other
     \<and> xlsxAlignment.ShrinkToFit alignment = xlsxAlignment.ShrinkToFit other
     \<and> xlsxAlignment.TextRotation alignment = xlsxAlignment.TextRotation other
     \<and> xlsxAlignment.Vertical alignment = xlsxAlignment.Vertical other
     \<and> xlsxAlignment.WrapText alignment = xlsxAlignment.WrapText other"

text \<open>
  In \<open>xlsxXf.Equals\<close> the two \<open>XfId\<close> pointers are equal when they are the same pointer
  or both non-nil with equal targets: on values, when the two options are equal.
\<close>

definition xlsxXf_Equals :: "xlsxXf \<Rightarrow> xlsxXf \<Rightarrow> bool" where
  "xlsxXf_Equals xf other \<longleftrightarrow>
     xlsxXf.ApplyAlignment xf = xlsxXf.ApplyAlignment other
     \<and> xlsxXf.ApplyBorder xf = xlsxXf.ApplyBorder other
     \<and> xlsxXf.ApplyFont xf = xlsxXf.ApplyFont other
     \<and> xlsxXf.ApplyFill xf = xlsxXf.ApplyFill other
     \<and> ApplyProtection xf = ApplyProtection other
     \<and> BorderId xf = BorderId other
     \<and> FillId xf = FillId other
     \<and> FontId xf = FontId other
     \<and> xlsxXf.NumFmtId xf = xlsxXf.NumFmtId other
     \<and> (xlsxXf.XfId xf = xlsxXf.XfId other
         \<or> ((xlsxXf.XfId xf \<noteq> None \<and> xlsxXf.XfId other \<noteq> None)
             \<and> the (xlsxXf.XfId xf) = the (xlsxXf.XfId other)))
     \<and> xlsxAlignment_Equals (xlsxXf.Alignment xf) (xlsxXf.Alignment other)"

section \<open>Interning: the add functions\<close>

text \<open>
  \<open>for index, x = range xs { if p x { return index } }\<close>: the first index, counted from
  \<open>index\<close>, whose element satisfies \<open>p\<close>.
\<close>

fun rangeFind :: "('a \<Rightarrow> bool) \<Rightarrow> 'a list \<Rightarrow> int \<Rightarrow> int option" where
  "rangeFind p [] index = None"
| "rangeFind p (x # xs) index = (if p x then Some index else rangeFind p xs (index + 1))"

definition addFont :: "xlsxStyleSheet \<Rightarrow> xlsxFont \<Rightarrow> int \<times> xlsxStyleSheet" where
  "addFont styles xFont =
     (if Val (xlsxFont.Name xFont) = '''' then (0, styles)
      else case rangeFind (\<lambda>font. xlsxFont_Equals font xFont) (xlsxFonts.Font (Fonts styles)) 0 of
        Some index \<Rightarrow> (index, styles)
      | None \<Rightarrow>
          (xlsxFonts.Count (Fonts styles),
           styles\<lparr>Fonts := (Fonts styles)
             \<lparr>xlsxFonts.Count := xlsxFonts.Count (Fonts styles) + 1,
              xlsxFonts.Font := xlsxFonts.Font (Fonts styles) @ [xFont]\<rparr>\<rparr>))"

definition addFill :: "xlsxStyleSheet \<Rightarrow> xlsxFill \<Rightarrow> int \<times> xlsxStyleSheet" where
  "addFill styles xFill =
     (case rangeFind (\<lambda>fill. xlsxFill_Equals fill xFill) (xlsxFills.Fill (Fills styles)) 0 of
        Some index \<Rightarrow> (index, styles)
      | None \<Rightarrow>
          (xlsxFills.Count (Fills styles),
           styles\<lparr>Fills := (Fills styles)
             \<lparr>xlsxFills.Count := xlsxFills.Count (Fills styles) + 1,
              xlsxFills.Fill := xlsxFills.Fill (Fills styles) @ [xFill]\<rparr>\<rparr>))"

definition addBorder :: "xlsxStyleSheet \<Rightarrow> xlsxBorder \<Rightarrow> int \<times> xlsxStyleSheet" where
  "addBorder styles xBorder =
     (case rangeFind (\<lambda>border. xlsxBorder_Equals border xBorder)
             (xlsxBorders.Border (Borders styles)) 0 of
        Some index \<Rightarrow> (index, styles)
      | None \<Rightarrow>
          (xlsxBorders.Count (Borders styles),
           styles\<lparr>Borders := (Borders styles)
             \<lparr>xlsxBorders.Count := xlsxBorders.Count (Borders styles) + 1,
              xlsxBorders.Border := xlsxBorders.Border (Borders styles) @ [xBorder]\<rparr>\<rparr>))"

definition addCellStyleXf :: "xlsxStyleSheet \<Rightarrow> xlsxXf \<Rightarrow> int \<times> xlsxStyleSheet" where
  "addCellStyleXf styles0 xCellStyleXf =
     (let styles = (if CellStyleXfs styles0 = None
                    then styles0\<lparr>CellStyleXfs := Some \<lparr>xlsxCellStyleXfs.Count = 0, xlsxCellStyleXfs.Xf = []\<rparr>\<rparr>
                    else styles0);
          xfs = the (CellStyleXfs styles)
      in case rangeFind (\<lambda>cellStyleXf. xlsxXf_Equals cellStyleXf xCellStyleXf)
                (xlsxCellStyleXfs.Xf xfs) 0 of
        Some index \<Rightarrow> (index, styles)
      | None \<Rightarrow>
          (xlsxCellStyleXfs.Count xfs,
           styles\<lparr>CellStyleXfs := Some (xfs
             \<lparr>xlsxCellStyleXfs.Count := xlsxCellStyleXfs.Count xfs + 1,
              xlsxCellStyleXfs.Xf := xlsxCellStyleXfs.Xf xfs @ [xCellStyleXf]\<rparr>)\<rparr>))"

definition addCellXf :: "xlsxStyleSheet \<Rightarrow> xlsxXf \<Rightarrow> int \<times> xlsxStyleSheet" where
  "addCellXf styles xCellXf =
     (case rangeFind (\<lambda>cellXf. xlsxXf_Equals cellXf xCellXf) (xlsxCellXfs.Xf (CellXfs styles)) 0 of
        Some index \<Rightarrow> (index, styles)
      | None \<Rightarrow>
          (xlsxCellXfs.Count (CellXfs styles),
           styles\<lparr>CellXfs := (CellXfs styles)
             \<lparr>xlsxCellXfs.Count := xlsxCellXfs.Count (CellXfs styles) + 1,
              xlsxCellXfs.Xf := xlsxCellXfs.Xf (CellXfs styles) @ [xCellXf]\<rparr>\<rparr>))"

section \<open>Construction and reset of a style sheet\<close>

text \<open>Go's zero values of the structs.\<close>

definition zero_xlsxVal :: xlsxVal where
  "zero_xlsxVal = \<lparr>Val = ''''\<rparr>"

definition zero_xlsxColor :: xlsxColor where
  "zero_xlsxColor = \<lparr>RGB = '''', Theme = None, Tint = 0, Indexed = None\<rparr>"

definition zero_xlsxLine :: xlsxLine where
  "zero_xlsxLine = \<lparr>xlsxLine.Style = '''', xlsxLine.Color = zero_xlsxColor\<rparr>"

definition zero_xlsxAlignment :: xlsxAlignment where
  "zero_xlsxAlignment =
     \<lparr>xlsxAlignment.Horizontal = '''', xlsxAlignment.Indent = 0, xlsxAlignment.ShrinkToFit = False,
      xlsxAlignment.TextRotation = 0, xlsxAlignment.Vertical = '''', xlsxAlignment.WrapText = False\<rparr>"

definition zero_xlsxXf :: xlsxXf where
  "zero_xlsxXf =
     \<lparr>xlsxXf.ApplyAlignment = False, xlsxXf.ApplyBorder = False, xlsxXf.ApplyFont = False,
      xlsxXf.ApplyFill = False, ApplyNumberFormat = False, ApplyProtection = False,
      BorderId = 0, FillId = 0, FontId = 0, xlsxXf.NumFmtId = 0, xlsxXf.XfId = None,
      xlsxXf.Alignment = zero_xlsxAlignment\<rparr>"

definition zero_Style :: Style where
  "zero_Style =
     \<lparr>Style.Border = \<lparr>Border.Left = '''', LeftColor = '''', Border.Right = '''', RightColor = '''',
                       Border.Top = '''', TopColor = '''', Border.Bottom = '''', BottomColor = ''''\<rparr>,
      Style.Fill = \<lparr>Fill.PatternType = '''', Fill.BgColor = '''', Fill.FgColor = ''''\<rparr>,
      Style.Font = \<lparr>Size = 0, Font.Name = '''', Font.Family = 0, Font.Charset = 0, Font.Color = '''',
                     Bold = False, Italic = False, Underline = False, Font.Strike = False\<rparr>,
      Style.ApplyBorder = False, Style.ApplyFill = False, Style.ApplyFont = False,
      Style.ApplyAlignment = False,
      Style.Alignment = \<lparr>Alignment.Horizontal = '''', Alignment.Indent = 0,
                          Alignment.ShrinkToFit = False, Alignment.TextRotation = 0,
                          Alignment.Vertical = '''', Alignment.WrapText = False\<rparr>,
      NamedStyleIndex = None\<rparr>"

definition newXlsxStyleSheet :: "theme option \<Rightarrow> xlsxStyleSheet" where
  "newXlsxStyleSheet t =
     \<lparr>Fonts = \<lparr>xlsxFonts.Count = 0, xlsxFonts.Font = []\<rparr>,
      Fills = \<lparr>xlsxFills.Count = 0, xlsxFills.Fill = []\<rparr>,
      Borders = \<lparr>xlsxBorders.Count = 0, xlsxBorders.Border = []\<rparr>,
      Colors = None,
      CellStyles = None,
      CellStyleXfs = None,
      CellXfs = \<lparr>xlsxCellXfs.Count = 0, xlsxCellXfs.Xf = []\<rparr>,
      NumFmts = None,
      DXfs = \<lparr>xlsxDXFs.Count = 0\<rparr>,
      theme = t,
      styleCache = Some [],
      numFmtRefTable = []\<rparr>"

definition defaultTheme :: int where
  "defaultTheme = 1"

definition reset :: "xlsxStyleSheet \<Rightarrow> xlsxStyleSheet" where
  "reset styles0 =
     (let styles1 = styles0
            \<lparr>Fonts := \<lparr>xlsxFonts.Count = 0, xlsxFonts.Font = []\<rparr>,
             Fills := \<lparr>xlsxFills.Count = 0, xlsxFills.Fill = []\<rparr>,
             Borders := \<lparr>xlsxBorders.Count = 0, xlsxBorders.Border = []\<rparr>\<rparr>;
          styles2 = snd (addFont styles1
            \<lparr>Sz = \<lparr>Val = ''11''\<rparr>, xlsxFont.Name = \<lparr>Val = ''Arial''\<rparr>,
             xlsxFont.Family = \<lparr>Val = ''2''\<rparr>, xlsxFont.Charset = zero_xlsxVal,
             xlsxFont.Color = zero_xlsxColor\<lparr>Theme := Some defaultTheme\<rparr>,
             B = None, I = None, U = None, Scheme = Some \<lparr>Val = ''minor''\<rparr>,
             xlsxFont.Strike = None\<rparr>);
          styles3 = snd (addFill styles2
            \<lparr>PatternFill = \<lparr>xlsxPatternFill.PatternType = ''none'',
               xlsxPatternFill.FgColor = zero_xlsxColor, xlsxPatternFill.BgColor = zero_xlsxColor\<rparr>\<rparr>);
          styles4 = snd (addFill styles3
            \<lparr>PatternFill = \<lparr>xlsxPatternFill.PatternType = ''gray125'',
               xlsxPatternFill.FgColor = zero_xlsxColor, xlsxPatternFill.BgColor = zero_xlsxColor\<rparr>\<rparr>);
          styles5 = snd (addBorder styles4
            \<lparr>xlsxBorder.Left = zero_xlsxLine, xlsxBorder.Right = zero_xlsxLine,
             xlsxBorder.Top = zero_xlsxLine, xlsxBorder.Bottom = zero_xlsxLine\<rparr>)
      in styles5
            \<lparr>CellStyleXfs := Some \<lparr>xlsxCellStyleXfs.Count = 1, xlsxCellStyleXfs.Xf = [zero_xlsxXf]\<rparr>,
             CellXfs := \<lparr>xlsxCellXfs.Count = 1, xlsxCellXfs.Xf = [zero_xlsxXf]\<rparr>,
             NumFmts := Some \<lparr>xlsxNumFmts.Count = 0, NumFmt = []\<rparr>,
             numFmtRefTable := []\<rparr>)"

text \<open>
  A slice read \<open>xs[i]\<close>: Go panics when the index is out of range.
\<close>

definition index_at :: "'a list \<Rightarrow> int \<Rightarrow> error + 'a" where
  "index_at xs i = (if 0 \<le> i \<and> i < int (length xs) then Inr (xs ! nat i) else Inl Panic)"

text \<open>
  Every \<open>Count\<close> field is the length of its slice.  \<open>reset\<close> establishes this and the
  add functions keep it; a struct filled in by hand, or decoded from a file whose \<open>count\<close>
  attribute is wrong, does not have it.
\<close>

definition countsConsistent :: "xlsxStyleSheet \<Rightarrow> bool" where
  "countsConsistent styles \<longleftrightarrow>
     xlsxFonts.Count (Fonts styles) = int (length (xlsxFonts.Font (Fonts styles)))
     \<and> xlsxFills.Count (Fills styles) = int (length (xlsxFills.Fill (Fills styles)))
     \<and> xlsxBorders.Count (Borders styles) = int (length (xlsxBorders.Border (Borders styles)))
     \<and> xlsxCellXfs.Count (CellXfs styles) = int (length (xlsxCellXfs.Xf (CellXfs styles)))
     \<and> (case CellStyleXfs styles of None \<Rightarrow> True
         | Some xfs \<Rightarrow> xlsxCellStyleXfs.Count xfs = int (length (xlsxCellStyleXfs.Xf xfs)))
     \<and> (case NumFmts styles of None \<Rightarrow> True
         | Some nf \<Rightarrow> xlsxNumFmts.Count nf = int (length (NumFmt nf)))
     \<and> (case CellStyles styles of None \<Rightarrow> True
         | Some cs \<Rightarrow> xlsxCellStyles.Count cs = int (length (CellStyle cs)))"

text \<open>The table of named cell formats, empty while \<open>CellStyleXfs\<close> is nil.\<close>

definition styleXfTable :: "xlsxStyleSheet \<Rightarrow> xlsxXf list" where
  "styleXfTable styles =
     (case CellStyleXfs styles of None \<Rightarrow> [] | Some xfs \<Rightarrow> xlsxCellStyleXfs.Xf xfs)"

section \<open>Style resolution\<close>

text \<open>
  Sequencing of steps that may fail: the first failure is the result.
\<close>

definition bindE :: "error + 'a \<Rightarrow> ('a \<Rightarrow> error + 'b) \<Rightarrow> error + 'b" where
  "bindE m f = (case m of Inl e \<Rightarrow> Inl e | Inr x \<Rightarrow> f x)"

text \<open>
  What resolution calls outside the source files: the method \<open>themeColor\<close> of the theme
  (which computes with floating point and may panic), and \<open>strconv.ParseFloat\<close> and
  \<open>strconv.Atoi\<close> of Go's library, whose error results the code discards.
\<close>

record extern =
  themeColor :: "theme \<Rightarrow> int \<Rightarrow> float64 \<Rightarrow> error + string"
  ParseFloat :: "string \<Rightarrow> float64"
  Atoi :: "string \<Rightarrow> int"

definition xlsxIndexedColors :: "string list" where
  "xlsxIndexedColors =
    [''FF000000'', ''FFFFFFFF'', ''FFFF0000'', ''FF00FF00'', ''FF0000FF'', ''FFFFFF00'',
     ''FFFF00FF'', ''FF00FFFF'', ''FF000000'', ''FFFFFFFF'', ''FFFF0000'', ''FF00FF00'',
     ''FF0000FF'', ''FFFFFF00'', ''FFFF00FF'', ''FF00FFFF'', ''FF800000'', ''FF008000'',
     ''FF000080'', ''FF808000'', ''FF800080'', ''FF008080'', ''FFC0C0C0'', ''FF808080'',
     ''FF9999FF'', ''FF993366'', ''FFFFFFCC'', ''FFCCFFFF'', ''FF660066'', ''FFFF8080'',
     ''FF0066CC'', ''FFCCCCFF'', ''FF000080'', ''FFFF00FF'', ''FFFFFF00'', ''FF00FFFF'',
     ''FF800080'', ''FF800000'', ''FF008080'', ''FF0000FF'', ''FF00CCFF'', ''FFCCFFFF'',
     ''FFCCFFCC'', ''FFFFFF99'', ''FF99CCFF'', ''FFFF99CC'', ''FFCC99FF'', ''FFFFCC99'',
     ''FF3366FF'', ''FF33CCCC'', ''FF99CC00'', ''FFFFCC00'', ''FFFF9900'', ''FFFF6600'',
     ''FF666699'', ''FF969696'', ''FF003366'', ''FF339966'', ''FF003300'', ''FF333300'',
     ''FF993300'', ''FF993366'', ''FF333399'', ''FF333333'']"

definition indexedColor :: "xlsxColors \<Rightarrow> int \<Rightarrow> error + string" where
  "indexedColor c index =
     (case IndexedColors c of
        Some cs \<Rightarrow> bindE (index_at cs (index - 1)) (\<lambda>rc. Inr (Rgb rc))
      | None \<Rightarrow> index_at xlsxIndexedColors (index - 1))"

definition argbValue :: "extern \<Rightarrow> xlsxStyleSheet \<Rightarrow> xlsxColor \<Rightarrow> error + string" where
  "argbValue E styles color =
     (case (Theme color, theme styles) of
        (Some th, Some t) \<Rightarrow> themeColor E t th (Tint color)
      | _ \<Rightarrow>
        (case (Indexed color, Colors styles) of
           (Some ix, Some c) \<Rightarrow> indexedColor c ix
         | _ \<Rightarrow> Inr (RGB color)))"

text \<open>
  After copying the four apply-flags, \<open>populateStyleFromXf\<close> is a sequence of four
  blocks: the border, the fill and the font, each resolved only when its id is within
  \<open>0 .. Count - 1\<close>, and the alignment.  Each block is a function of its own here;
  \<open>populateStyleFromXf\<close> runs them in the order of the source.
\<close>

definition populateBorder :: "xlsxStyleSheet \<Rightarrow> xlsxXf \<Rightarrow> Style \<Rightarrow> error + Style" where
  "populateBorder styles xf style =
     (if BorderId xf > -1 \<and> BorderId xf < xlsxBorders.Count (Borders styles)
      then bindE (index_at (xlsxBorders.Border (Borders styles)) (BorderId xf)) (\<lambda>border.
             Inr (style\<lparr>Style.Border := (Style.Border style)
               \<lparr>Border.Left := xlsxLine.Style (xlsxBorder.Left border),
                LeftColor := RGB (xlsxLine.Color (xlsxBorder.Left border)),
                Border.Right := xlsxLine.Style (xlsxBorder.Right border),
                RightColor := RGB (xlsxLine.Color (xlsxBorder.Right border)),
                Border.Top := xlsxLine.Style (xlsxBorder.Top border),
                TopColor := RGB (xlsxLine.Color (xlsxBorder.Top border)),
                Border.Bottom := xlsxLine.Style (xlsxBorder.Bottom border),
                BottomColor := RGB (xlsxLine.Color (xlsxBorder.Bottom border))\<rparr>\<rparr>))
      else Inr style)"

definition populateFill :: "extern \<Rightarrow> xlsxStyleSheet \<Rightarrow> xlsxXf \<Rightarrow> Style \<Rightarrow> error + Style" where
  "populateFill E styles xf style =
     (if FillId xf > -1 \<and> FillId xf < xlsxFills.Count (Fills styles)
      then bindE (index_at (xlsxFills.Fill (Fills styles)) (FillId xf)) (\<lambda>xFill.
           bindE (argbValue E styles (xlsxPatternFill.FgColor (PatternFill xFill))) (\<lambda>fg.
           bindE (argbValue E styles (xlsxPatternFill.BgColor (PatternFill xFill))) (\<lambda>bg.
             Inr (style\<lparr>Style.Fill := (Style.Fill style)
               \<lparr>Fill.PatternType := xlsxPatternFill.PatternType (PatternFill xFill),
                Fill.FgColor := fg,
                Fill.BgColor := bg\<rparr>\<rparr>))))
      else Inr style)"

text \<open>The assignments to the fields of \<open>style.Font\<close>, given the resolved colour.\<close>

definition fontFields :: "extern \<Rightarrow> xlsxFont \<Rightarrow> string \<Rightarrow> Font \<Rightarrow> Font" where
  "fontFields E xfont col f0 =
     (let f1 = f0\<lparr>Size := ParseFloat E (Val (Sz xfont)),
                  Font.Name := Val (xlsxFont.Name xfont),
                  Font.Family := Atoi E (Val (xlsxFont.Family xfont)),
                  Font.Charset := Atoi E (Val (xlsxFont.Charset xfont)),
                  Font.Color := col\<rparr>;
          f2 = (case B xfont of
                  Some bold \<Rightarrow> if Val bold \<noteq> ''0'' then f1\<lparr>Bold := True\<rparr> else f1
                | None \<Rightarrow> f1);
          f3 = (case I xfont of
                  Some italic \<Rightarrow> if Val italic \<noteq> ''0'' then f2\<lparr>Italic := True\<rparr> else f2
                | None \<Rightarrow> f2);
          f4 = (case U xfont of
                  Some underline \<Rightarrow> if Val underline \<noteq> ''0'' then f3\<lparr>Underline := True\<rparr> else f3
                | None \<Rightarrow> f3)
      in (case xlsxFont.Strike xfont of
            Some strike \<Rightarrow> if Val strike \<noteq> ''0'' then f4\<lparr>Font.Strike := True\<rparr> else f4
          | None \<Rightarrow> f4))"

definition populateFont :: "extern \<Rightarrow> xlsxStyleSheet \<Rightarrow> xlsxXf \<Rightarrow> Style \<Rightarrow> error + Style" where
  "populateFont E styles xf style =
     (if FontId xf > -1 \<and> FontId xf < xlsxFonts.Count (Fonts styles)
      then bindE (index_at (xlsxFonts.Font (Fonts styles)) (FontId xf)) (\<lambda>xfont.
           bindE (argbValue E styles (xlsxFont.Color xfont)) (\<lambda>col.
             Inr (style\<lparr>Style.Font := fontFields E xfont col (Style.Font style)\<rparr>)))
      else Inr style)"

definition populateAlignment :: "xlsxXf \<Rightarrow> Style \<Rightarrow> Style" where
  "populateAlignment xf style =
     (let a0 = Style.Alignment style;
          a1 = (if xlsxAlignment.Horizontal (xlsxXf.Alignment xf) \<noteq> ''''
                then a0\<lparr>Alignment.Horizontal := xlsxAlignment.Horizontal (xlsxXf.Alignment xf)\<rparr>
                else a0);
          a2 = (if xlsxAlignment.Vertical (xlsxXf.Alignment xf) \<noteq> ''''
                then a1\<lparr>Alignment.Vertical := xlsxAlignment.Vertical (xlsxXf.Alignment xf)\<rparr>
                else a1);
          a3 = a2\<lparr>Alignment.ShrinkToFit := xlsxAlignment.ShrinkToFit (xlsxXf.Alignment xf),
                  Alignment.WrapText := xlsxAlignment.WrapText (xlsxXf.Alignment xf),
                  Alignment.TextRotation := xlsxAlignment.TextRotation (xlsxXf.Alignment xf)\<rparr>;
          a4 = (if xlsxAlignment.Indent (xlsxXf.Alignment xf) \<noteq> 0
                then a3\<lparr>Alignment.Indent := xlsxAlignment.Indent (xlsxXf.Alignment xf)\<rparr>
                else a3)
      in style\<lparr>Style.Alignment := a4\<rparr>)"

definition populateStyleFromXf ::
  "extern \<Rightarrow> xlsxStyleSheet \<Rightarrow> Style \<Rightarrow> xlsxXf \<Rightarrow> error + Style" where
  "populateStyleFromXf E styles style xf =
     bindE (populateBorder styles xf
              (style\<lparr>Style.ApplyBorder := xlsxXf.ApplyBorder xf,
                     Style.ApplyFill := xlsxXf.ApplyFill xf,
                     Style.ApplyFont := xlsxXf.ApplyFont xf,
                     Style.ApplyAlignment := xlsxXf.ApplyAlignment xf\<rparr>)) (\<lambda>style1.
     bindE (populateFill E styles xf style1) (\<lambda>style2.
     bindE (populateFont E styles xf style2) (\<lambda>style3.
       Inr (populateAlignment xf style3))))"

text \<open>
  A read of the cache: a nil map has no entry.
\<close>

definition cacheLookup :: "xlsxStyleSheet \<Rightarrow> int \<Rightarrow> Style option" where
  "cacheLookup styles styleIndex =
     (case styleCache styles of None \<Rightarrow> None | Some c \<Rightarrow> map_of c styleIndex)"

text \<open>
  \<open>getStyle\<close> returns a pointer to the style; the model returns the style and the style
  sheet with its cache as the call leaves it.  The cache is written only after a miss, so
  putting the new entry in front of the association list is the map update.  The test
  \<open>*xf.XfId < len(styles.CellStyleXfs.Xf)\<close> has no lower bound: a negative id passes it
  and the slice read panics.
\<close>

definition getStyle :: "extern \<Rightarrow> xlsxStyleSheet \<Rightarrow> int \<Rightarrow> error + (Style \<times> xlsxStyleSheet)" where
  "getStyle E styles styleIndex =
     (case cacheLookup styles styleIndex of
        Some style \<Rightarrow> Inr (style, styles)
      | None \<Rightarrow>
         (let xfCount = xlsxCellXfs.Count (CellXfs styles) in
          if styleIndex > -1 \<and> xfCount > 0 \<and> styleIndex < xfCount then
            bindE (index_at (xlsxCellXfs.Xf (CellXfs styles)) styleIndex) (\<lambda>xf.
            bindE (populateStyleFromXf E styles zero_Style xf) (\<lambda>style1.
            bindE (case (xlsxXf.XfId xf, CellStyleXfs styles) of
                     (Some xfId, Some sxfs) \<Rightarrow>
                       if xfId < int (length (xlsxCellStyleXfs.Xf sxfs)) then
                         bindE (index_at (xlsxCellStyleXfs.Xf sxfs) xfId) (\<lambda>namedStyleXf.
                           Inr (style1
                             \<lparr>NamedStyleIndex := Some xfId,
                              Style.ApplyBorder := Style.ApplyBorder style1 \<or> xlsxXf.ApplyBorder namedStyleXf,
                              Style.ApplyFill := Style.ApplyFill style1 \<or> xlsxXf.ApplyFill namedStyleXf,
                              Style.ApplyFont := Style.ApplyFont style1 \<or> xlsxXf.ApplyFont namedStyleXf,
                              Style.ApplyAlignment :=
                                Style.ApplyAlignment style1 \<or> xlsxXf.ApplyAlignment namedStyleXf\<rparr>))
                       else Inr style1
                   | _ \<Rightarrow> Inr style1) (\<lambda>style2.
              let a2 = (if xlsxAlignment.Vertical (xlsxXf.Alignment xf) \<noteq> ''''
                        then (Style.Alignment style2)
                               \<lparr>Alignment.Vertical := xlsxAlignment.Vertical (xlsxXf.Alignment xf)\<rparr>
                        else Style.Alignment style2);
                  a3 = a2\<lparr>Alignment.WrapText := xlsxAlignment.WrapText (xlsxXf.Alignment xf),
                          Alignment.TextRotation := xlsxAlignment.TextRotation (xlsxXf.Alignment xf)\<rparr>;
                  style3 = style2\<lparr>Style.Alignment := a3\<rparr>
              in (case styleCache styles of
                    None \<Rightarrow> Inl Panic
                  | Some c \<Rightarrow> Inr (style3, styles\<lparr>styleCache := Some ((styleIndex, style3) # c)\<rparr>)))))
          else Inr (zero_Style, styles)))"

section \<open>Number formats\<close>

text \<open>The double quote and the backslash, which a string literal cannot hold.\<close>

definition dq :: string where
  "dq = [CHR 0x22]"

definition bs :: string where
  "bs = [CHR 0x5C]"

text \<open>
  The built-in formats.  \<open>builtInNumFmtInv\<close> is filled by \<open>init\<close> from \<open>builtInNumFmt\<close>,
  one entry per format code; the codes are pairwise different, so the order in which Go
  walks the map does not matter.
\<close>

definition builtinNumFmtsCount :: int where
  "builtinNumFmtsCount = 163"

definition builtInNumFmt :: "(int \<times> string) list" where
  "builtInNumFmt =
    [(0, ''general''), (1, ''0''), (2, ''0.00''), (3, ''#,##0''), (4, ''#,##0.00''),
     (9, ''0%''), (10, ''0.00%''), (11, ''0.00e+00''), (12, ''# ?/?''), (13, ''# ??/??''),
     (14, ''mm-dd-yy''), (15, ''d-mmm-yy''), (16, ''d-mmm''), (17, ''mmm-yy''),
     (18, ''h:mm am/pm''), (19, ''h:mm:ss am/pm''), (20, ''h:mm''), (21, ''h:mm:ss''),
     (22, ''m/d/yy h:mm''), (37, ''#,##0 ;(#,##0)''), (38, ''#,##0 ;[red](#,##0)''),
     (39, ''#,##0.00;(#,##0.00)''), (40, ''#,##0.00;[red](#,##0.00)''),
     (41, ''_(* #,##0_);_(* '' @ bs @ ''(#,##0'' @ bs @ '');_(* '' @ dq @ ''-'' @ dq @ ''_);_(@_)''),
     (42, ''_('' @ dq @ ''$'' @ dq @ ''* #,##0_);_('' @ dq @ ''$* '' @ bs @ ''(#,##0'' @ bs @ '');_('' @ dq @ ''$'' @ dq @ ''* '' @ dq @ ''-'' @ dq @ ''_);_(@_)''),
     (43, ''_(* #,##0.00_);_(* '' @ bs @ ''(#,##0.00'' @ bs @ '');_(* '' @ dq @ ''-'' @ dq @ ''??_);_(@_)''),
     (44, ''_('' @ dq @ ''$'' @ dq @ ''* #,##0.00_);_('' @ dq @ ''$'' @ dq @ ''* '' @ bs @ ''(#,##0.00'' @ bs @ '');_('' @ dq @ ''$'' @ dq @ ''* '' @ dq @ ''-'' @ dq @ ''??_);_(@_)''),
     (45, ''mm:ss''), (46, ''[h]:mm:ss''), (47, ''mmss.0''), (48, ''##0.0e+0''), (49, ''@'')]"


definition builtInNumFmtInv :: "(string \<times> int) list" where
  "builtInNumFmtInv = map (\<lambda>(k, v). (v, k)) builtInNumFmt"

text \<open>
  The loop of \<open>newNumFmt\<close> that looks for an unused id: it ends because the reference
  table is finite.
\<close>

function allocNumFmtId :: "(int \<times> xlsxNumFmt) list \<Rightarrow> int \<Rightarrow> int" where
  "allocNumFmtId tbl numFmtId =
     (if map_of tbl numFmtId \<noteq> None then allocNumFmtId tbl (numFmtId + 1) else numFmtId)"
  by pat_completeness auto
termination
proof (relation "measure (\<lambda>(tbl, n). length (filter (\<lambda>k. n \<le> k) (map fst tbl)))")
  show "wf (measure (\<lambda>(tbl, n). length (filter (\<lambda>k. n \<le> k) (map fst tbl))))"
    by simp
next
  fix tbl :: "(int \<times> xlsxNumFmt) list" and numFmtId :: int
  assume "map_of tbl numFmtId \<noteq> None"
  then have mem: "numFmtId \<in> set (map fst tbl)"
    by (simp add: map_of_eq_None_iff)
  have le: "length (filter (\<lambda>k. numFmtId + 1 \<le> k) ks) \<le> length (filter (\<lambda>k. numFmtId \<le> k) ks)"
    for ks :: "int list"
    by (induction ks) auto
  have "numFmtId \<in> set ks \<Longrightarrow>
        length (filter (\<lambda>k. numFmtId + 1 \<le> k) ks) < length (filter (\<lambda>k. numFmtId \<le> k) ks)"
    for ks :: "int list"
  proof (induction ks)
    case Nil
    then show ?case by simp
  next
    case (Cons k ks)
    show ?case
    proof (cases "k = numFmtId")
      case True
      with le[of ks] show ?thesis by simp
    next
      case False
      with Cons have "length (filter (\<lambda>k. numFmtId + 1 \<le> k) ks)
                      < length (filter (\<lambda>k. numFmtId \<le> k) ks)" by simp
      then show ?thesis by auto
    qed
  qed
  from this[OF mem]
  show "((tbl, numFmtId + 1), (tbl, numFmtId))
        \<in> measure (\<lambda>(tbl, n). length (filter (\<lambda>k. n \<le> k) (map fst tbl)))"
    by simp
qed


definition addNumFmt :: "xlsxStyleSheet \<Rightarrow> xlsxNumFmt \<Rightarrow> xlsxStyleSheet" where
  "addNumFmt styles xNumFmt =
     (if xlsxNumFmt.NumFmtId xNumFmt \<le> builtinNumFmtsCount then styles
      else if map_of (numFmtRefTable styles) (xlsxNumFmt.NumFmtId xNumFmt) = None then
        (let nf = (case NumFmts styles of
                     None \<Rightarrow> \<lparr>xlsxNumFmts.Count = 0, NumFmt = []\<rparr>
                   | Some nf \<Rightarrow> nf)
         in styles
              \<lparr>NumFmts := Some (nf\<lparr>NumFmt := NumFmt nf @ [xNumFmt],
                                     xlsxNumFmts.Count := xlsxNumFmts.Count nf + 1\<rparr>),
               numFmtRefTable := (xlsxNumFmt.NumFmtId xNumFmt, xNumFmt) # numFmtRefTable styles\<rparr>)
      else styles)"

text \<open>
  The scan of \<open>newNumFmt\<close> over the registered formats: the first one with this code.
\<close>

definition registeredNumFmt :: "xlsxStyleSheet \<Rightarrow> string \<Rightarrow> xlsxNumFmt option" where
  "registeredNumFmt styles formatCode =
     (case NumFmts styles of
        None \<Rightarrow> None
      | Some nf \<Rightarrow> List.find (\<lambda>numFmt. formatCode = FormatCode numFmt) (NumFmt nf))"

text \<open>
  \<open>compareFormatString\<close> is not among the source files and is a parameter of
  \<open>newNumFmt\<close>.  The result is the number format together with the style sheet as the
  call leaves it.
\<close>

definition newNumFmt :: "(string \<Rightarrow> string \<Rightarrow> bool) \<Rightarrow> xlsxStyleSheet \<Rightarrow> string \<Rightarrow> xlsxNumFmt \<times> xlsxStyleSheet" where
  "newNumFmt compareFormatString styles formatCode =
     (if compareFormatString formatCode ''general''
      then (\<lparr>xlsxNumFmt.NumFmtId = 0, FormatCode = ''general''\<rparr>, styles)
      else case map_of builtInNumFmtInv formatCode of
        Some numFmtId \<Rightarrow> (\<lparr>xlsxNumFmt.NumFmtId = numFmtId, FormatCode = formatCode\<rparr>, styles)
      | None \<Rightarrow>
         (case registeredNumFmt styles formatCode of
            Some numFmt \<Rightarrow> (numFmt, styles)
          | None \<Rightarrow>
             (let numFmtId = allocNumFmtId (numFmtRefTable styles) (builtinNumFmtsCount + 1)
              in (\<lparr>xlsxNumFmt.NumFmtId = numFmtId, FormatCode = formatCode\<rparr>,
                  addNumFmt styles \<lparr>xlsxNumFmt.NumFmtId = numFmtId, FormatCode = formatCode\<rparr>))))"

text \<open>
  What the interning of number formats keeps true of the registered formats: every id is
  above the built-in range and known to the reference table, and no id occurs twice.
\<close>

definition customFormatsOk :: "xlsxStyleSheet \<Rightarrow> bool" where
  "customFormatsOk styles \<longleftrightarrow>
     (case NumFmts styles of
        None \<Rightarrow> True
      | Some nf \<Rightarrow>
          (\<forall>x \<in> set (NumFmt nf).
              xlsxNumFmt.NumFmtId x > builtinNumFmtsCount
              \<and> map_of (numFmtRefTable styles) (xlsxNumFmt.NumFmtId x) \<noteq> None)
          \<and> distinct (map xlsxNumFmt.NumFmtId (NumFmt nf)))"

section \<open>Marshalling the style sheet\<close>

text \<open>
  The verbs of \<open>fmt.Sprintf\<close> that the marshalling uses: \<open>%d\<close> (decimal) and \<open>%b\<close>
  (binary) of an \<open>int\<close>; \<open>%s\<close> of a string is the string.
\<close>

fun digitsOf :: "nat \<Rightarrow> nat \<Rightarrow> string" where
  "digitsOf base n =
     (if base < 2 \<or> n < base then [''0123456789'' ! (n mod 10)]
      else digitsOf base (n div base) @ [''0123456789'' ! (n mod base mod 10)])"

definition itoa :: "int \<Rightarrow> string" where
  "itoa i = (if i < 0 then ''-'' @ digitsOf 10 (nat (- i)) else digitsOf 10 (nat i))"























text \<open>
  The statement of the specification: an element whose \<open>count\<close> attribute is the number of
  the sub-elements it holds, and nothing at all when it would hold none.
\<close>

definition countedElement :: "string \<Rightarrow> string list \<Rightarrow> string" where
  "countedElement tag subs =
     (if subs = [] then ''''
      else ''<'' @ tag @ '' count='' @ dq @ itoa (int (length subs)) @ dq @ ''>''
           @ concat subs @ ''</'' @ tag @ ''>'')"

section \<open>The binary record of a cell (redis.go)\<close>

text \<open>
  The declarations of \<open>Cell\<close>, \<open>Hyperlink\<close> and \<open>xlsxDataValidation\<close> are not among the
  source files.  A cell has the fields that \<open>readCell\<close>, \<open>writeCell\<close> and \<open>PushCell\<close>
  read or assign, a data validation those that the test file sets; the type of a
  rich-text run is left open.  The integers of a cell are written to a fixed-width
  record, so they are 64-bit words here.
\<close>

type_synonym byte = "8 word"

type_synonym int64 = "64 word"

record Hyperlink =
  DisplayString :: string
  Link :: string
  Tooltip :: string

record xlsxDataValidation =
  AllowBlank :: bool
  ShowInputMessage :: bool
  ShowErrorMessage :: bool
  ErrorStyle :: "string option"
  ErrorTitle :: "string option"
  Operator :: string
  Error :: "string option"
  PromptTitle :: "string option"
  Prompt :: "string option"
  Type :: string
  Sqref :: string
  Formula1 :: string
  Formula2 :: string

record 'rt Cell =
  Value :: string
  RichText :: "'rt list"
  formula :: string
  style :: "Style option"
  NumFmt :: string
  date1904 :: bool
  Hidden :: bool
  HMerge :: int64
  VMerge :: int64
  cellType :: int64
  DataValidation :: "xlsxDataValidation option"
  Hyperlink :: Hyperlink
  num :: int64
  modified :: bool

text \<open>
  The functions that write and read one field (\<open>writeBool\<close>, \<open>readString\<close>, ...,
  \<open>writeStyle\<close>, \<open>readDataValidation\<close>, \<open>writeEndOfRecord\<close>) are not among the source
  files and are parameters.  A writer appends to a \<open>bytes.Buffer\<close>: it is given as the
  bytes it appends, or the error it returns.  A reader consumes from a \<open>bytes.Reader\<close>: it
  is given as the value read and the bytes that remain, or the error.
\<close>

record 'rt primitives =
  writeBool :: "bool \<Rightarrow> error + byte list"
  readBool :: "byte list \<Rightarrow> error + bool \<times> byte list"
  writeString :: "string \<Rightarrow> error + byte list"
  readString :: "byte list \<Rightarrow> error + string \<times> byte list"
  writeInt :: "int64 \<Rightarrow> error + byte list"
  readInt :: "byte list \<Rightarrow> error + int64 \<times> byte list"
  writeFloat :: "float64 \<Rightarrow> error + byte list"
  readFloat :: "byte list \<Rightarrow> error + float64 \<times> byte list"
  writeRichText :: "'rt list \<Rightarrow> error + byte list"
  readRichText :: "byte list \<Rightarrow> error + 'rt list \<times> byte list"
  writeStyle :: "Style \<Rightarrow> error + byte list"
  readStyle :: "byte list \<Rightarrow> error + Style \<times> byte list"
  writeDataValidation :: "xlsxDataValidation \<Rightarrow> error + byte list"
  readDataValidation :: "byte list \<Rightarrow> error + xlsxDataValidation \<times> byte list"
  writeEndOfRecord :: "error + byte list"
  readEndOfRecord :: "byte list \<Rightarrow> error + byte list"

text \<open>
  A chain \<open>if err = write...; err != nil { return err }\<close>: the bytes of all the writes in
  order, or the first error.
\<close>

fun writeSeq :: "(error + byte list) list \<Rightarrow> error + byte list" where
  "writeSeq [] = Inr []"
| "writeSeq (w # ws) = bindE w (\<lambda>a. bindE (writeSeq ws) (\<lambda>b. Inr (a @ b)))"

text \<open>
  The first part of \<open>RedisRow.writeCell\<close>: the contents of \<open>rr.buf\<close> after the \<open>Reset\<close> and
  the writes, for a nil cell (\<open>None\<close>) or a cell.
\<close>

definition encodeCell :: "'rt primitives \<Rightarrow> 'rt Cell option \<Rightarrow> error + byte list" where
  "encodeCell P c =
     (case c of
        None \<Rightarrow> writeSeq [writeBool P True, writeEndOfRecord P]
      | Some c \<Rightarrow>
          writeSeq
            [writeBool P False,
             writeString P (Value c),
             writeString P (formula c),
             writeBool P (style c \<noteq> None),
             writeString P (Cell.NumFmt c),
             writeBool P (date1904 c),
             writeBool P (Cell.Hidden c),
             writeInt P (HMerge c),
             writeInt P (VMerge c),
             writeInt P (cellType c),
             writeBool P (DataValidation c \<noteq> None),
             writeString P (DisplayString (Hyperlink c)),
             writeString P (Link (Hyperlink c)),
             writeString P (Tooltip (Hyperlink c)),
             writeInt P (num c),
             writeRichText P (RichText c),
             writeEndOfRecord P,
             (case style c of Some s \<Rightarrow> writeStyle P s | None \<Rightarrow> Inr []),
             (case DataValidation c of Some d \<Rightarrow> writeDataValidation P d | None \<Rightarrow> Inr [])])"





section \<open>The Redis cell store (redis.go)\<close>

subsection \<open>The server behind the client\<close>

text \<open>
  The package \<open>github.com/xenking/redis\<close> is a library outside the repository.  The
  server it talks to is a table from keys to hashes and sorted sets, kept as association
  lists, with the commands as Redis documents them: a key that is absent reads as an empty
  hash or set, a hash command on a key that holds a sorted set (and the other way round)
  fails, and a hash that \<open>HDEL\<close> leaves without a field is removed.  \<open>HGET\<close> gives \<open>None\<close>
  for the nil reply.  A command that fails changes nothing.
\<close>

datatype rvalue = Hash "(string \<times> byte list) list" | ZSet "(string \<times> int64) list"

type_synonym redis = "(string \<times> rvalue) list"

definition HGET :: "string \<Rightarrow> string \<Rightarrow> redis \<Rightarrow> error + byte list option" where
  "HGET key field db =
     (case map_of db key of
        None \<Rightarrow> Inr None
      | Some (Hash h) \<Rightarrow> Inr (map_of h field)
      | Some (ZSet z) \<Rightarrow> Inl WrongType)"

definition HSET :: "string \<Rightarrow> string \<Rightarrow> byte list \<Rightarrow> redis \<Rightarrow> error + redis" where
  "HSET key field v db =
     (case map_of db key of
        None \<Rightarrow> Inr (AList.update key (Hash [(field, v)]) db)
      | Some (Hash h) \<Rightarrow> Inr (AList.update key (Hash (AList.update field v h)) db)
      | Some (ZSet z) \<Rightarrow> Inl WrongType)"

definition HDEL :: "string \<Rightarrow> string \<Rightarrow> redis \<Rightarrow> error + redis" where
  "HDEL key field db =
     (case map_of db key of
        None \<Rightarrow> Inr db
      | Some (Hash h) \<Rightarrow>
          (let h' = AList.delete field h
           in Inr (if h' = [] then AList.delete key db else AList.update key (Hash h') db))
      | Some (ZSet z) \<Rightarrow> Inl WrongType)"

text \<open>
  A sorted set lists its members by score and, at equal scores, by the bytes of the
  member.
\<close>

fun strLess :: "string \<Rightarrow> string \<Rightarrow> bool" where
  "strLess [] [] = False"
| "strLess [] (y # ys) = True"
| "strLess (x # xs) [] = False"
| "strLess (x # xs) (y # ys) =
     ((of_char x :: nat) < of_char y \<or> (x = y \<and> strLess xs ys))"

definition zless :: "string \<times> int64 \<Rightarrow> string \<times> int64 \<Rightarrow> bool" where
  "zless a b \<longleftrightarrow> sint (snd a) < sint (snd b) \<or> (snd a = snd b \<and> strLess (fst a) (fst b))"

fun zinsert :: "string \<times> int64 \<Rightarrow> (string \<times> int64) list \<Rightarrow> (string \<times> int64) list" where
  "zinsert a [] = [a]"
| "zinsert a (b # z) = (if zless a b then a # b # z else b # zinsert a z)"

definition ZADDString :: "string \<Rightarrow> int64 \<Rightarrow> string \<Rightarrow> redis \<Rightarrow> error + redis" where
  "ZADDString key score member db =
     (case map_of db key of
        None \<Rightarrow> Inr (AList.update key (ZSet [(member, score)]) db)
      | Some (ZSet z) \<Rightarrow>
          Inr (AList.update key (ZSet (zinsert (member, score) (AList.delete member z))) db)
      | Some (Hash h) \<Rightarrow> Inl WrongType)"

text \<open>The members from rank \<open>start\<close> to rank \<open>stop\<close>, a negative rank counting from the end.\<close>

definition zrange :: "int \<Rightarrow> int \<Rightarrow> 'a list \<Rightarrow> 'a list" where
  "zrange start stop xs =
     (let n = int (length xs);
          s = (if start < 0 then max (n + start) 0 else start);
          e = (if stop < 0 then n + stop else min stop (n - 1))
      in if e < s then [] else take (nat (e - s + 1)) (drop (nat s) xs))"

definition ZRANGEString :: "string \<Rightarrow> int \<Rightarrow> int \<Rightarrow> redis \<Rightarrow> error + string list" where
  "ZRANGEString key start stop db =
     (case map_of db key of
        None \<Rightarrow> Inr []
      | Some (ZSet z) \<Rightarrow> Inr (zrange start stop (map fst z))
      | Some (Hash h) \<Rightarrow> Inl WrongType)"

subsection \<open>Rows and the store\<close>

text \<open>
  The declarations of \<open>Sheet\<close> and \<open>Row\<close> are not among the source files.  A sheet has the
  name that the store reads, a row the fields that \<open>readRedisRow\<close> and \<open>ReadRow\<close> assign.
  A row and its \<open>RedisRow\<close> point at each other: here the row holds its \<open>RedisRow\<close> (\<open>None\<close>
  for a \<open>cellStoreRow\<close> that is not a \<open>RedisRow\<close>), and a function of a \<open>RedisRow\<close> takes the
  row.  The client of a store stands for the server it is connected to; the two buffers
  of the store hold no state between calls.
\<close>

record Sheet =
  Name :: string

record 'rt RedisRow =
  maxCol :: int64
  currentCell :: "'rt Cell option"

record 'rt Row =
  Hidden :: bool
  height :: float64
  outlineLevel :: byte
  isCustom :: bool
  num :: int64
  Sheet :: "Sheet option"
  cellStoreRow :: "'rt RedisRow option"

record RedisCellStore =
  sheetName :: string
  client :: redis

text \<open>
  The functions that name the keys (\<open>makeSheetRowsStore\<close>, \<open>makeSheetCellsStore\<close>,
  \<open>Row.makeCellKeyPrefix\<close>, \<open>Row.makeRowNum\<close>) are not among the source files and are
  parameters.  So are the package-level \<open>writeCell\<close> and \<open>writeRow\<close>, given as the error
  returned and the bytes appended to the buffer, and \<open>Row.ForEachCell\<close>, which is given
  the function to call on each cell it visits and returns the error, the row and the
  server as the visit leaves them.
\<close>

record 'rt keyspace =
  makeSheetRowsStore :: "string \<Rightarrow> string"
  makeSheetCellsStore :: "string \<Rightarrow> string"
  makeCellKeyPrefix :: "'rt Row \<Rightarrow> int64 \<Rightarrow> string"
  makeRowNum :: "'rt Row \<Rightarrow> string"

record 'rt helpers =
  writeCell :: "'rt Cell \<Rightarrow> error option \<times> byte list"
  writeRow :: "'rt Row \<Rightarrow> error + byte list"
  ForEachCell ::
    "'rt Row \<Rightarrow> ('rt Cell \<Rightarrow> redis \<Rightarrow> error option \<times> redis) \<Rightarrow> redis
      \<Rightarrow> error option \<times> 'rt Row \<times> redis"

text \<open>\<open>strings.Split(key, ":")\<close>, for any separating character.\<close>

fun Split :: "char \<Rightarrow> string \<Rightarrow> string list" where
  "Split sep [] = [[]]"
| "Split sep (c # cs) =
     (if c = sep then [] # Split sep cs
      else (case Split sep cs of
              p # ps \<Rightarrow> (c # p) # ps
            | [] \<Rightarrow> [[c]]))"

text \<open>The guard at the head of \<open>ReadRow\<close>, \<open>MoveRow\<close>, \<open>MakeRow\<close> and \<open>WriteRow\<close>.\<close>

definition setSheetName :: "RedisCellStore \<Rightarrow> Sheet option \<Rightarrow> RedisCellStore" where
  "setSheetName cs s =
     (case s of
        Some sh \<Rightarrow> if length (sheetName cs) = 0 then cs\<lparr>sheetName := Name sh\<rparr> else cs
      | None \<Rightarrow> cs)"

text \<open>
  \<open>readRedisRow\<close>: the row and the index of its last column.  Where the source returns the
  partly read row together with the error, the model returns the error.
\<close>

definition readRedisRow :: "'rt primitives \<Rightarrow> byte list \<Rightarrow> error + 'rt Row \<times> int64" where
  "readRedisRow P reader =
     bindE (readBool P reader) (\<lambda>(hidden, reader).
     bindE (readFloat P reader) (\<lambda>(height', reader).
     bindE (readInt P reader) (\<lambda>(outlineLevel', reader).
     bindE (readBool P reader) (\<lambda>(isCustom', reader).
     bindE (readInt P reader) (\<lambda>(num', reader).
     bindE (readInt P reader) (\<lambda>(maxCol', reader).
     bindE (readEndOfRecord P reader) (\<lambda>reader.
       Inr (\<lparr>Row.Hidden = hidden, height = height', outlineLevel = ucast outlineLevel',
             isCustom = isCustom', Row.num = num', Sheet = None, cellStoreRow = None\<rparr>,
            maxCol'))))))))"

text \<open>
  \<open>ReadRow\<close>: the row or the error, and the store.  A nil sheet with a well-shaped key
  is a nil dereference at \<open>s.Name\<close>.
\<close>

definition ReadRow ::
  "'rt primitives \<Rightarrow> 'rt keyspace \<Rightarrow> string \<Rightarrow> Sheet option \<Rightarrow> RedisCellStore
    \<Rightarrow> (error + 'rt Row) \<times> RedisCellStore" where
  "ReadRow P K key s cs0 =
     (let cs = setSheetName cs0 s;
          str = Split CHR '':'' key
      in if length str \<noteq> 2 then (Inl (RowNotFoundError key ''no such row''), cs)
         else
           (case s of
              None \<Rightarrow> (Inl Panic, cs)
            | Some sh \<Rightarrow>
                (case HGET (makeSheetRowsStore K (Name sh)) (str ! 1) (client cs) of
                   Inl err \<Rightarrow> (Inl err, cs)
                 | Inr None \<Rightarrow> (Inl (RowNotFoundError key ''no such row''), cs)
                 | Inr (Some b) \<Rightarrow>
                     (case readRedisRow P b of
                        Inl err \<Rightarrow> (Inl err, cs)
                      | Inr (r, maxCol') \<Rightarrow>
                          (Inr (r\<lparr>Sheet := Some sh,
                                  cellStoreRow := Some \<lparr>maxCol = maxCol', currentCell = None\<rparr>\<rparr>),
                           cs)))))"

text \<open>
  \<open>RedisRow.writeCell\<close>: the record of the cell is built as \<open>encodeCell\<close> has it; for a
  cell the key of its column is entered in the sorted set of the sheet's columns and the
  record is stored in the hash of the column, under the number of the row.  For the nil
  cell nothing is stored.
\<close>

definition RedisRow_writeCell ::
  "'rt primitives \<Rightarrow> 'rt keyspace \<Rightarrow> 'rt Row \<Rightarrow> 'rt Cell option \<Rightarrow> redis
    \<Rightarrow> error option \<times> redis" where
  "RedisRow_writeCell P K row c db =
     (case encodeCell P c of
        Inl err \<Rightarrow> (Some err, db)
      | Inr buf \<Rightarrow>
          (case c of
             None \<Rightarrow> (None, db)
           | Some cell \<Rightarrow>
               (let key = makeCellKeyPrefix K row (Cell.num cell)
                in case Sheet row of
                     None \<Rightarrow> (Some Panic, db)
                   | Some sh \<Rightarrow>
                       (case ZADDString (makeSheetCellsStore K (Name sh)) (Cell.num cell) key db of
                          Inl err \<Rightarrow> (Some err, db)
                        | Inr db1 \<Rightarrow>
                            (case HSET key (makeRowNum K row) buf db1 of
                               Inl err \<Rightarrow> (Some err, db1)
                             | Inr db2 \<Rightarrow> (None, db2))))))"

text \<open>\<open>WriteRow\<close>: the error, if any, and the store.\<close>

definition WriteRow ::
  "'rt primitives \<Rightarrow> 'rt keyspace \<Rightarrow> 'rt helpers \<Rightarrow> RedisCellStore \<Rightarrow> 'rt Row
    \<Rightarrow> error option \<times> RedisCellStore" where
  "WriteRow P K H cs0 r =
     (let cs = setSheetName cs0 (Sheet r)
      in case cellStoreRow r of
           None \<Rightarrow>
             (Some (Errorf ''cellStoreRow for a RedisCellStore is not RedisRow (<nil>)''), cs)
         | Some rr \<Rightarrow>
             (case (case currentCell rr of
                      None \<Rightarrow> (None, client cs)
                    | Some c \<Rightarrow> RedisRow_writeCell P K r (Some c) (client cs)) of
                (Some err, db1) \<Rightarrow> (Some err, cs\<lparr>client := db1\<rparr>)
              | (None, db1) \<Rightarrow>
                  (case writeRow H r of
                     Inl err \<Rightarrow> (Some err, cs\<lparr>client := db1\<rparr>)
                   | Inr buf \<Rightarrow>
                       (case Sheet r of
                          None \<Rightarrow> (Some Panic, cs\<lparr>client := db1\<rparr>)
                        | Some sh \<Rightarrow>
                            (case HSET (makeSheetRowsStore K (Name sh)) (makeRowNum K r) buf db1 of
                               Inl err \<Rightarrow> (Some err, cs\<lparr>client := db1\<rparr>)
                             | Inr db2 \<Rightarrow> (None, cs\<lparr>client := db2\<rparr>))))))"

text \<open>
  The first block of \<open>MoveRow\<close>, for a current cell: its record, as the package-level
  \<open>writeCell\<close> builds it, is stored as \<open>RedisRow.writeCell\<close> stores one.
\<close>

definition flushCell ::
  "'rt keyspace \<Rightarrow> 'rt helpers \<Rightarrow> 'rt Row \<Rightarrow> 'rt Cell \<Rightarrow> redis \<Rightarrow> error option \<times> redis" where
  "flushCell K H r cell db =
     (case writeCell H cell of
        (Some err, buf) \<Rightarrow> (Some err, db)
      | (None, buf) \<Rightarrow>
          (let key = makeCellKeyPrefix K r (Cell.num cell)
           in case Sheet r of
                None \<Rightarrow> (Some Panic, db)
              | Some sh \<Rightarrow>
                  (case ZADDString (makeSheetCellsStore K (Name sh)) (Cell.num cell) key db of
                     Inl err \<Rightarrow> (Some err, db)
                   | Inr db1 \<Rightarrow>
                       (case HSET key (makeRowNum K r) buf db1 of
                          Inl err \<Rightarrow> (Some err, db1)
                        | Inr db2 \<Rightarrow> (None, db2)))))"

text \<open>
  The function \<open>MoveRow\<close> hands to \<open>ForEachCell\<close>: the record of the cell is stored under
  the new row number and deleted under the old one.  The error of \<open>writeCell\<close> is
  overwritten by that of \<open>HSET\<close>.
\<close>

definition moveCell ::
  "'rt keyspace \<Rightarrow> 'rt helpers \<Rightarrow> 'rt Row \<Rightarrow> string \<Rightarrow> string \<Rightarrow> 'rt Cell \<Rightarrow> redis
    \<Rightarrow> error option \<times> redis" where
  "moveCell K H r oldKey newKey c db =
     (let k = makeCellKeyPrefix K r (Cell.num c);
          cBuf = snd (writeCell H c)
      in case HSET k newKey cBuf db of
           Inl err \<Rightarrow> (Some err, db)
         | Inr db1 \<Rightarrow>
             (case HDEL k oldKey db1 of
                Inl err \<Rightarrow> (Some err, db1)
              | Inr db2 \<Rightarrow> (None, db2)))"

text \<open>
  \<open>MoveRow\<close>: the error, if any, the row and the store.  The type assertion on a
  \<open>cellStoreRow\<close> that is not a \<open>RedisRow\<close> panics, and so does \<open>r.Sheet.Name\<close> on a nil
  sheet.  The entry of the row under its old number is deleted only after the new number
  has been found free.
\<close>

definition MoveRow ::
  "'rt keyspace \<Rightarrow> 'rt helpers \<Rightarrow> RedisCellStore \<Rightarrow> 'rt Row \<Rightarrow> int64
    \<Rightarrow> error option \<times> 'rt Row \<times> RedisCellStore" where
  "MoveRow K H cs0 r index =
     (let cs = setSheetName cs0 (Sheet r)
      in case cellStoreRow r of
           None \<Rightarrow> (Some Panic, r, cs)
         | Some rr \<Rightarrow>
             (case (case currentCell rr of
                      None \<Rightarrow> (None, client cs)
                    | Some cell \<Rightarrow> flushCell K H r cell (client cs)) of
                (Some err, db1) \<Rightarrow> (Some err, r, cs\<lparr>client := db1\<rparr>)
              | (None, db1) \<Rightarrow>
                  (let oldKey = makeRowNum K r;
                       newKey = itoa (sint index)
                   in case Sheet r of
                        None \<Rightarrow> (Some Panic, r, cs\<lparr>client := db1\<rparr>)
                      | Some sh \<Rightarrow>
                          (case HGET (makeSheetRowsStore K (Name sh)) newKey db1 of
                             Inl err \<Rightarrow> (Some err, r, cs\<lparr>client := db1\<rparr>)
                           | Inr (Some val) \<Rightarrow>
                               (Some (Errorf (''Target index for row ('' @ itoa (sint index)
                                               @ '') would overwrite a row already exists'')),
                                r, cs\<lparr>client := db1\<rparr>)
                           | Inr None \<Rightarrow>
                               (case HDEL (makeSheetRowsStore K (Name sh)) oldKey db1 of
                                  Inl err \<Rightarrow> (Some err, r, cs\<lparr>client := db1\<rparr>)
                                | Inr db2 \<Rightarrow>
                                    (case ForEachCell H r (moveCell K H r oldKey newKey) db2 of
                                       (Some err, r1, db3) \<Rightarrow> (Some err, r1, cs\<lparr>client := db3\<rparr>)
                                     | (None, r1, db3) \<Rightarrow>
                                         (let r2 = r1\<lparr>Row.num := index\<rparr>
                                          in case writeRow H r2 of
                                               Inl err \<Rightarrow> (Some err, r2, cs\<lparr>client := db3\<rparr>)
                                             | Inr buf \<Rightarrow>
                                                 (case HSET (makeSheetRowsStore K (Name sh)) newKey
                                                         buf db3 of
                                                    Inl err \<Rightarrow> (Some err, r2, cs\<lparr>client := db3\<rparr>)
                                                  | Inr db4 \<Rightarrow>
                                                      (None, r2, cs\<lparr>client := db4\<rparr>)))))))))"

text \<open>The loop of \<open>RemoveRow\<close> over the keys of the columns.\<close>

fun removeCells :: "string list \<Rightarrow> string \<Rightarrow> redis \<Rightarrow> error option \<times> redis" where
  "removeCells [] field db = (None, db)"
| "removeCells (cell # cells) field db =
     (case HDEL cell field db of
        Inl err \<Rightarrow> (Some err, db)
      | Inr db1 \<Rightarrow> removeCells cells field db1)"

text \<open>
  The keys of the columns of a sheet, as \<open>RemoveRow\<close> lists them.  The error of
  \<open>ZRANGEString\<close> is overwritten before it is looked at; the client is taken to list no
  key with an error.
\<close>

definition columnKeys :: "'rt keyspace \<Rightarrow> string \<Rightarrow> redis \<Rightarrow> string list" where
  "columnKeys K name db =
     (case ZRANGEString (makeSheetCellsStore K name) 0 (- 1) db of
        Inl err \<Rightarrow> []
      | Inr members \<Rightarrow> members)"

text \<open>
  \<open>RemoveRow\<close>: the error, if any, and the store.  The last \<open>HDEL\<close> is on the key \<open>k[0]\<close>,
  the first part of the row's key.
\<close>

definition RemoveRow ::
  "'rt keyspace \<Rightarrow> string \<Rightarrow> RedisCellStore \<Rightarrow> error option \<times> RedisCellStore" where
  "RemoveRow K key cs =
     (let k = Split CHR '':'' key
      in if length k \<noteq> 2 then (Some (RowNotFoundError key ''no such row''), cs)
         else
           (let cells = columnKeys K (k ! 0) (client cs)
            in case removeCells cells (k ! 1) (client cs) of
                 (Some err, db1) \<Rightarrow> (Some err, cs\<lparr>client := db1\<rparr>)
               | (None, db1) \<Rightarrow>
                   (case HDEL (k ! 0) (k ! 1) db1 of
                      Inl err \<Rightarrow> (Some err, cs\<lparr>client := db1\<rparr>)
                    | Inr db2 \<Rightarrow> (None, cs\<lparr>client := db2\<rparr>))))"

section \<open>A sample of the field writers and readers\<close>

text \<open>
  Modelled from the spec: the functions \<open>writeBool\<close>, \<open>readBool\<close>, \<open>writeString\<close>, ... are
  not among the source files; the specification has each field fixed-width or
  length-prefixed per its type, and an explicit end-of-record marker.  Here a flag is one
  byte, an integer and a float are eight bytes (least significant first), a string is its
  length as an integer followed by its bytes, and the marker is the byte \<open>0x1E\<close>.  The
  layouts of a style, of a data validation and of the rich-text runs belong to other
  subsystems; the sample writes their fields one after the other with the same writers,
  and takes a rich-text run to be a string.  The sample serves the examples only.
\<close>

fun intToBytes :: "nat \<Rightarrow> int \<Rightarrow> byte list" where
  "intToBytes 0 n = []"
| "intToBytes (Suc k) n = of_int (n mod 256) # intToBytes k (n div 256)"

fun bytesToInt :: "byte list \<Rightarrow> int" where
  "bytesToInt [] = 0"
| "bytesToInt (b # rest) = uint b + 256 * bytesToInt rest"

definition sampleWriteBool :: "bool \<Rightarrow> error + byte list" where
  "sampleWriteBool b = Inr [if b then 1 else 0]"

definition sampleReadBool :: "byte list \<Rightarrow> error + bool \<times> byte list" where
  "sampleReadBool inp =
     (case inp of
        [] \<Rightarrow> Inl DecodeError
      | b # rest \<Rightarrow> if b = 0 then Inr (False, rest) else if b = 1 then Inr (True, rest)
                    else Inl DecodeError)"

definition sampleWriteInt :: "64 word \<Rightarrow> error + byte list" where
  "sampleWriteInt i = Inr (intToBytes 8 (uint i))"

definition sampleReadInt :: "byte list \<Rightarrow> error + 64 word \<times> byte list" where
  "sampleReadInt inp =
     (if length inp < 8 then Inl DecodeError
      else Inr (of_int (bytesToInt (take 8 inp)), drop 8 inp))"

definition sampleWriteString :: "string \<Rightarrow> error + byte list" where
  "sampleWriteString s =
     (if int (length s) < 2 ^ 64
      then Inr (intToBytes 8 (int (length s)) @ map (\<lambda>c. of_int (of_char c)) s)
      else Inl (Errorf ''string too long''))"

definition sampleReadString :: "byte list \<Rightarrow> error + string \<times> byte list" where
  "sampleReadString inp =
     bindE (sampleReadInt inp) (\<lambda>(n, rest).
       if length rest < unat n then Inl DecodeError
       else Inr (map (\<lambda>b. char_of (uint b)) (take (unat n) rest), drop (unat n) rest))"

definition sampleWriteEndOfRecord :: "error + byte list" where
  "sampleWriteEndOfRecord = Inr [0x1E]"

definition sampleReadEndOfRecord :: "byte list \<Rightarrow> error + byte list" where
  "sampleReadEndOfRecord inp =
     (case inp of
        [] \<Rightarrow> Inl DecodeError
      | b # rest \<Rightarrow> if b = 0x1E then Inr rest else Inl DecodeError)"

text \<open>Writers and readers of pairs, of optional values and of lists, and of a type through
  a representation of it.\<close>

definition pairW ::
  "('a \<Rightarrow> error + byte list) \<Rightarrow> ('b \<Rightarrow> error + byte list) \<Rightarrow> 'a \<times> 'b \<Rightarrow> error + byte list" where
  "pairW w1 w2 p = writeSeq [w1 (fst p), w2 (snd p)]"

definition pairR ::
  "(byte list \<Rightarrow> error + 'a \<times> byte list) \<Rightarrow> (byte list \<Rightarrow> error + 'b \<times> byte list)
   \<Rightarrow> byte list \<Rightarrow> error + ('a \<times> 'b) \<times> byte list" where
  "pairR r1 r2 inp =
     bindE (r1 inp) (\<lambda>(a, rest). bindE (r2 rest) (\<lambda>(b, rest). Inr ((a, b), rest)))"

definition optW :: "('a \<Rightarrow> error + byte list) \<Rightarrow> 'a option \<Rightarrow> error + byte list" where
  "optW w x =
     (case x of
        None \<Rightarrow> sampleWriteBool False
      | Some v \<Rightarrow> writeSeq [sampleWriteBool True, w v])"

definition optR ::
  "(byte list \<Rightarrow> error + 'a \<times> byte list) \<Rightarrow> byte list \<Rightarrow> error + 'a option \<times> byte list" where
  "optR r inp =
     bindE (sampleReadBool inp) (\<lambda>(present, rest).
       if present then bindE (r rest) (\<lambda>(v, rest). Inr (Some v, rest)) else Inr (None, rest))"

fun readN ::
  "(byte list \<Rightarrow> error + 'a \<times> byte list) \<Rightarrow> nat \<Rightarrow> byte list \<Rightarrow> error + 'a list \<times> byte list" where
  "readN r 0 inp = Inr ([], inp)"
| "readN r (Suc n) inp =
     bindE (r inp) (\<lambda>(x, rest). bindE (readN r n rest) (\<lambda>(xs, rest). Inr (x # xs, rest)))"

definition listW :: "('a \<Rightarrow> error + byte list) \<Rightarrow> 'a list \<Rightarrow> error + byte list" where
  "listW w xs =
     (if int (length xs) < 2 ^ 64 then writeSeq (Inr (intToBytes 8 (int (length xs))) # map w xs)
      else Inl (Errorf ''list too long''))"

definition listR ::
  "(byte list \<Rightarrow> error + 'a \<times> byte list) \<Rightarrow> byte list \<Rightarrow> error + 'a list \<times> byte list" where
  "listR r inp = bindE (sampleReadInt inp) (\<lambda>(n, rest). readN r (unat n) rest)"

definition viaW :: "('a \<Rightarrow> 'b) \<Rightarrow> ('b \<Rightarrow> error + byte list) \<Rightarrow> 'a \<Rightarrow> error + byte list" where
  "viaW f w x = w (f x)"

definition viaR ::
  "('b \<Rightarrow> 'a) \<Rightarrow> (byte list \<Rightarrow> error + 'b \<times> byte list) \<Rightarrow> byte list \<Rightarrow> error + 'a \<times> byte list" where
  "viaR g r inp = bindE (r inp) (\<lambda>(y, rest). Inr (g y, rest))"

text \<open>
  The resolved style is modelled with unbounded integers; the sample writes such an
  integer as its sign and the bytes of its magnitude, length-prefixed.
\<close>

function intDigits :: "int \<Rightarrow> byte list" where
  "intDigits n = (if n \<le> 0 then [] else of_int (n mod 256) # intDigits (n div 256))"
  by pat_completeness auto

termination intDigits
  by (relation "measure nat") auto

declare intDigits.simps [simp del]

definition bigIntFields :: "int \<Rightarrow> bool \<times> byte list" where
  "bigIntFields i = (i < 0, intDigits \<bar>i\<bar>)"

definition bigIntOfFields :: "bool \<times> byte list \<Rightarrow> int" where
  "bigIntOfFields p = (if fst p then - bytesToInt (snd p) else bytesToInt (snd p))"

definition byteW :: "byte \<Rightarrow> error + byte list" where
  "byteW b = Inr [b]"

definition byteR :: "byte list \<Rightarrow> error + byte \<times> byte list" where
  "byteR inp = (case inp of [] \<Rightarrow> Inl DecodeError | b # rest \<Rightarrow> Inr (b, rest))"

definition bigIntW :: "int \<Rightarrow> error + byte list" where
  "bigIntW = viaW bigIntFields (pairW sampleWriteBool (listW byteW))"

definition bigIntR :: "byte list \<Rightarrow> error + int \<times> byte list" where
  "bigIntR = viaR bigIntOfFields (pairR sampleReadBool (listR byteR))"

text \<open>A style as its strings, its flags, its integers, the font size and the index of
  the named style; a data validation as its flags, its strings and its optional strings.\<close>

definition styleFields ::
  "Style \<Rightarrow> string list \<times> bool list \<times> int list \<times> float64 \<times> int option" where
  "styleFields s =
     ([Border.Left (Style.Border s), LeftColor (Style.Border s), Border.Right (Style.Border s),
       RightColor (Style.Border s), Border.Top (Style.Border s), TopColor (Style.Border s),
       Border.Bottom (Style.Border s), BottomColor (Style.Border s),
       Fill.PatternType (Style.Fill s), Fill.BgColor (Style.Fill s), Fill.FgColor (Style.Fill s),
       Font.Name (Style.Font s), Font.Color (Style.Font s),
       Alignment.Horizontal (Style.Alignment s), Alignment.Vertical (Style.Alignment s)],
      [Bold (Style.Font s), Italic (Style.Font s), Underline (Style.Font s),
       Font.Strike (Style.Font s), Alignment.ShrinkToFit (Style.Alignment s),
       Alignment.WrapText (Style.Alignment s), Style.ApplyBorder s, Style.ApplyFill s,
       Style.ApplyFont s, Style.ApplyAlignment s],
      [Font.Family (Style.Font s), Font.Charset (Style.Font s),
       Alignment.Indent (Style.Alignment s), Alignment.TextRotation (Style.Alignment s)],
      Size (Style.Font s),
      NamedStyleIndex s)"

definition styleOfFields ::
  "string list \<times> bool list \<times> int list \<times> float64 \<times> int option \<Rightarrow> Style" where
  "styleOfFields p =
     (case p of
        ([l, lc, r, rc, t, tc, b, bc, pt, bg, fg, fname, fcol, hor, ver],
         [bold, italic, underline, strike, shrink, wrap, ab, afi, afo, aal],
         [family, charset, indent, rotation], fsize, named) \<Rightarrow>
          \<lparr>Style.Border = \<lparr>Border.Left = l, LeftColor = lc, Border.Right = r, RightColor = rc,
                            Border.Top = t, TopColor = tc, Border.Bottom = b, BottomColor = bc\<rparr>,
           Style.Fill = \<lparr>Fill.PatternType = pt, Fill.BgColor = bg, Fill.FgColor = fg\<rparr>,
           Style.Font = \<lparr>Size = fsize, Font.Name = fname, Font.Family = family,
                          Font.Charset = charset, Font.Color = fcol, Bold = bold, Italic = italic,
                          Underline = underline, Font.Strike = strike\<rparr>,
           Style.ApplyBorder = ab, Style.ApplyFill = afi, Style.ApplyFont = afo,
           Style.ApplyAlignment = aal,
           Style.Alignment = \<lparr>Alignment.Horizontal = hor, Alignment.Indent = indent,
                               Alignment.ShrinkToFit = shrink, Alignment.TextRotation = rotation,
                               Alignment.Vertical = ver, Alignment.WrapText = wrap\<rparr>,
           NamedStyleIndex = named\<rparr>
      | _ \<Rightarrow> zero_Style)"

definition sampleWriteStyle :: "Style \<Rightarrow> error + byte list" where
  "sampleWriteStyle =
     viaW styleFields
       (pairW (listW sampleWriteString) (pairW (listW sampleWriteBool) (pairW (listW bigIntW)
          (pairW sampleWriteInt (optW bigIntW)))))"

definition sampleReadStyle :: "byte list \<Rightarrow> error + Style \<times> byte list" where
  "sampleReadStyle =
     viaR styleOfFields
       (pairR (listR sampleReadString) (pairR (listR sampleReadBool) (pairR (listR bigIntR)
          (pairR sampleReadInt (optR bigIntR)))))"

definition dvFields ::
  "xlsxDataValidation \<Rightarrow> bool list \<times> string list \<times> string option list" where
  "dvFields d =
     ([AllowBlank d, ShowInputMessage d, ShowErrorMessage d],
      [Operator d, Type d, Sqref d, Formula1 d, Formula2 d],
      [ErrorStyle d, ErrorTitle d, Error d, PromptTitle d, Prompt d])"

definition dvOfFields ::
  "bool list \<times> string list \<times> string option list \<Rightarrow> xlsxDataValidation" where
  "dvOfFields p =
     (case p of
        ([ab, sim, sem], [op, ty, sq, f1, f2], [es, et, er, pt, pr]) \<Rightarrow>
          \<lparr>AllowBlank = ab, ShowInputMessage = sim, ShowErrorMessage = sem, ErrorStyle = es,
           ErrorTitle = et, Operator = op, Error = er, PromptTitle = pt, Prompt = pr, Type = ty,
           Sqref = sq, Formula1 = f1, Formula2 = f2\<rparr>
      | _ \<Rightarrow>
          \<lparr>AllowBlank = False, ShowInputMessage = False, ShowErrorMessage = False,
           ErrorStyle = None, ErrorTitle = None, Operator = '''', Error = None,
           PromptTitle = None, Prompt = None, Type = '''', Sqref = '''', Formula1 = '''',
           Formula2 = ''''\<rparr>)"

definition sampleWriteDataValidation :: "xlsxDataValidation \<Rightarrow> error + byte list" where
  "sampleWriteDataValidation =
     viaW dvFields
       (pairW (listW sampleWriteBool) (pairW (listW sampleWriteString)
          (listW (optW sampleWriteString))))"

definition sampleReadDataValidation :: "byte list \<Rightarrow> error + xlsxDataValidation \<times> byte list" where
  "sampleReadDataValidation =
     viaR dvOfFields
       (pairR (listR sampleReadBool) (pairR (listR sampleReadString)
          (listR (optR sampleReadString))))"

definition samplePrimitives :: "string primitives" where
  "samplePrimitives =
     \<lparr>writeBool = sampleWriteBool, readBool = sampleReadBool,
      writeString = sampleWriteString, readString = sampleReadString,
      writeInt = sampleWriteInt, readInt = sampleReadInt,
      writeFloat = sampleWriteInt, readFloat = sampleReadInt,
      writeRichText = listW sampleWriteString, readRichText = listR sampleReadString,
      writeStyle = sampleWriteStyle, readStyle = sampleReadStyle,
      writeDataValidation = sampleWriteDataValidation,
      readDataValidation = sampleReadDataValidation,
      writeEndOfRecord = sampleWriteEndOfRecord, readEndOfRecord = sampleReadEndOfRecord\<rparr>"

text \<open>
  Modelled from the spec: the functions that name the keys are not among the source
  files; the specification has one map per sheet from row numbers to rows, one map per
  sheet and column from row numbers to cells, and one ordered set per sheet of the keys
  of its columns, and leaves the names open.  The sample derives the three names from the
  name of the sheet, and takes a row number in decimal.
\<close>

definition sampleSheetName :: "'rt Row \<Rightarrow> string" where
  "sampleSheetName r = (case Sheet r of None \<Rightarrow> '''' | Some sh \<Rightarrow> Name sh)"

definition sampleKeyspace :: "'rt keyspace" where
  "sampleKeyspace =
     \<lparr>makeSheetRowsStore = (\<lambda>name. name @ '':rows''),
      makeSheetCellsStore = (\<lambda>name. name @ '':cells''),
      makeCellKeyPrefix = (\<lambda>r col. sampleSheetName r @ '':col:'' @ itoa (sint col)),
      makeRowNum = (\<lambda>r. itoa (sint (Row.num r)))\<rparr>"

text \<open>
  Modelled from the spec: the package-level \<open>writeRow\<close> and \<open>writeCell\<close> and
  \<open>Row.ForEachCell\<close> are not among the source files.  The specification has the record of
  a row as its hidden flag, height, outline level, custom-height flag, row number and
  last column, then the end-of-record marker, which is what \<open>readRedisRow\<close> reads; the
  sample \<open>writeCell\<close> writes what \<open>RedisRow.writeCell\<close> writes, and the sample
  \<open>ForEachCell\<close> visits the current cell of the row, if it has one.
\<close>

definition sampleWriteRow :: "'rt primitives \<Rightarrow> 'rt Row \<Rightarrow> error + byte list" where
  "sampleWriteRow P r =
     writeSeq
       [writeBool P (Row.Hidden r),
        writeFloat P (height r),
        writeInt P (ucast (outlineLevel r)),
        writeBool P (isCustom r),
        writeInt P (Row.num r),
        writeInt P (case cellStoreRow r of None \<Rightarrow> - 1 | Some rr \<Rightarrow> maxCol rr),
        writeEndOfRecord P]"

definition sampleWriteCell :: "'rt primitives \<Rightarrow> 'rt Cell \<Rightarrow> error option \<times> byte list" where
  "sampleWriteCell P c =
     (case encodeCell P (Some c) of
        Inl err \<Rightarrow> (Some err, [])
      | Inr buf \<Rightarrow> (None, buf))"

definition sampleForEachCell ::
  "'rt Row \<Rightarrow> ('rt Cell \<Rightarrow> redis \<Rightarrow> error option \<times> redis) \<Rightarrow> redis
    \<Rightarrow> error option \<times> 'rt Row \<times> redis" where
  "sampleForEachCell r cvf db =
     (case cellStoreRow r of
        None \<Rightarrow> (None, r, db)
      | Some rr \<Rightarrow>
          (case currentCell rr of
             None \<Rightarrow> (None, r, db)
           | Some c \<Rightarrow> (case cvf c db of (err, db1) \<Rightarrow> (err, r, db1))))"

definition sampleHelpers :: "string helpers" where
  "sampleHelpers =
     \<lparr>writeCell = sampleWriteCell samplePrimitives,
      writeRow = sampleWriteRow samplePrimitives,
      ForEachCell = sampleForEachCell\<rparr>"

section \<open>Predicates and iterations used in the statements\<close>

text \<open>
  The index \<open>i\<close> is that of the first entry of the list that the test accepts.
\<close>

definition firstMatch :: "('a \<Rightarrow> bool) \<Rightarrow> 'a list \<Rightarrow> nat \<Rightarrow> bool" where
  "firstMatch p xs i \<longleftrightarrow> i < length xs \<and> p (xs ! i) \<and> (\<forall>j<i. \<not> p (xs ! j))"

text \<open>A step that returns no error.\<close>

definition succeeds :: "error + 'a \<Rightarrow> bool" where
  "succeeds r = (case r of Inl e \<Rightarrow> False | Inr x \<Rightarrow> True)"


text \<open>
  The colours of the fills and of the fonts of the tables resolve: no theme colour and no
  indexed colour among them makes \<open>argbValue\<close> fail.
\<close>

definition coloursResolve :: "extern \<Rightarrow> xlsxStyleSheet \<Rightarrow> bool" where
  "coloursResolve E styles \<longleftrightarrow>
     (\<forall>xFill \<in> set (xlsxFills.Fill (Fills styles)).
         succeeds (argbValue E styles (xlsxPatternFill.FgColor (PatternFill xFill)))
         \<and> succeeds (argbValue E styles (xlsxPatternFill.BgColor (PatternFill xFill))))
     \<and> (\<forall>xfont \<in> set (xlsxFonts.Font (Fonts styles)).
         succeeds (argbValue E styles (xlsxFont.Color xfont)))"

text \<open>The registered formats in the order of registration, none while \<open>NumFmts\<close> is nil.\<close>

definition numFmtList :: "xlsxStyleSheet \<Rightarrow> xlsxNumFmt list" where
  "numFmtList styles = (case NumFmts styles of None \<Rightarrow> [] | Some nf \<Rightarrow> xlsxNumFmts.NumFmt nf)"

text \<open>The style sheet after \<open>newNumFmt\<close> has been called with each of the codes in turn.\<close>

definition newNumFmts ::
  "(string \<Rightarrow> string \<Rightarrow> bool) \<Rightarrow> xlsxStyleSheet \<Rightarrow> string list \<Rightarrow> xlsxStyleSheet" where
  "newNumFmts compareFormatString styles codes =
     foldl (\<lambda>s code. snd (newNumFmt compareFormatString s code)) styles codes"


section \<open>Concrete inputs used in the examples\<close>

definition arialFont :: "string \<Rightarrow> xlsxVal option \<Rightarrow> xlsxFont" where
  "arialFont sz scheme =
     \<lparr>Sz = \<lparr>Val = sz\<rparr>, xlsxFont.Name = \<lparr>Val = ''Arial''\<rparr>,
      xlsxFont.Family = \<lparr>Val = ''2''\<rparr>, xlsxFont.Charset = zero_xlsxVal,
      xlsxFont.Color = zero_xlsxColor, B = None, I = None, U = None, Scheme = scheme,
      xlsxFont.Strike = None\<rparr>"

definition namelessFont :: xlsxFont where
  "namelessFont =
     \<lparr>Sz = \<lparr>Val = ''14''\<rparr>, xlsxFont.Name = zero_xlsxVal,
      xlsxFont.Family = zero_xlsxVal, xlsxFont.Charset = zero_xlsxVal,
      xlsxFont.Color = zero_xlsxColor, B = Some \<lparr>Val = ''1''\<rparr>, I = None, U = None, Scheme = None,
      xlsxFont.Strike = None\<rparr>"

definition themedFill :: "int \<Rightarrow> xlsxFill" where
  "themedFill t =
     \<lparr>PatternFill = \<lparr>xlsxPatternFill.PatternType = ''solid'',
        xlsxPatternFill.FgColor = zero_xlsxColor\<lparr>Theme := Some t\<rparr>,
        xlsxPatternFill.BgColor = zero_xlsxColor\<rparr>\<rparr>"

definition thinBorder :: "string \<Rightarrow> xlsxBorder" where
  "thinBorder rgb =
     \<lparr>xlsxBorder.Left = \<lparr>xlsxLine.Style = ''thin'', xlsxLine.Color = zero_xlsxColor\<lparr>RGB := rgb\<rparr>\<rparr>,
      xlsxBorder.Right = zero_xlsxLine, xlsxBorder.Top = zero_xlsxLine,
      xlsxBorder.Bottom = zero_xlsxLine\<rparr>"

definition freshSheet :: xlsxStyleSheet where
  "freshSheet = reset (newXlsxStyleSheet None)"

text \<open>
  Stand-ins for the external functions in the examples: the palette entry at the index,
  whatever the tint, and 0 for every numeral.
\<close>

definition sampleExtern :: extern where
  "sampleExtern = \<lparr>themeColor = (\<lambda>t i tint. index_at (colors t) i),
                    ParseFloat = (\<lambda>s. 0), Atoi = (\<lambda>s. 0)\<rparr>"

text \<open>A font table of size 3 and a single cell format whose \<open>fontId\<close> is 5.\<close>

definition fontId5 :: xlsxXf where
  "fontId5 = zero_xlsxXf\<lparr>FontId := 5, BorderId := - 1, FillId := 7\<rparr>"

definition threeFontSheet :: xlsxStyleSheet where
  "threeFontSheet =
     snd (addCellXf
       (snd (addFont (snd (addFont (snd (addFont (newXlsxStyleSheet None)
          (arialFont ''10'' None))) (arialFont ''11'' None))) (arialFont ''12'' None)))
       fontId5)"

text \<open>
  A cell format without a vertical alignment of its own that asks for the border and
  refers to the named format 0, which asks for the font and is aligned to the top; the
  style \<open>getStyle\<close> resolves for it, and the sheet with that style in its cache.
\<close>

definition namedXf :: xlsxXf where
  "namedXf = zero_xlsxXf\<lparr>xlsxXf.ApplyFont := True,
               xlsxXf.Alignment := zero_xlsxAlignment\<lparr>xlsxAlignment.Vertical := ''top''\<rparr>\<rparr>"

definition borderedXf :: xlsxXf where
  "borderedXf = zero_xlsxXf\<lparr>xlsxXf.ApplyBorder := True, xlsxXf.XfId := Some 0\<rparr>"

definition namedSheet :: xlsxStyleSheet where
  "namedSheet =
     (newXlsxStyleSheet None)
       \<lparr>CellStyleXfs := Some \<lparr>xlsxCellStyleXfs.Count = 1, xlsxCellStyleXfs.Xf = [namedXf]\<rparr>,
        CellXfs := \<lparr>xlsxCellXfs.Count = 1, xlsxCellXfs.Xf = [borderedXf]\<rparr>\<rparr>"

definition namedStyle :: Style where
  "namedStyle = zero_Style\<lparr>Style.ApplyBorder := True, Style.ApplyFont := True,
                             NamedStyleIndex := Some 0\<rparr>"

definition cachedNamedSheet :: xlsxStyleSheet where
  "cachedNamedSheet = namedSheet\<lparr>styleCache := Some [(0, namedStyle)]\<rparr>"

text \<open>
  Modelled from the spec: \<open>compareFormatString\<close> is not among the source files; the
  specification has it compare after case normalisation.  Used in the examples only.
\<close>

definition toLowerChar :: "char \<Rightarrow> char" where
  "toLowerChar c =
     (let n = (of_char c :: nat) in if 65 \<le> n \<and> n \<le> 90 then char_of (n + 32) else c)"

definition compareFoldCase :: "string \<Rightarrow> string \<Rightarrow> bool" where
  "compareFoldCase a b \<longleftrightarrow> map toLowerChar a = map toLowerChar b"


definition sheetWithYear :: xlsxStyleSheet where
  "sheetWithYear = snd (newNumFmt compareFoldCase freshSheet ''yyyy'')"


text \<open>The cell of the test "Write and Read Row with Cells" of the test file.\<close>

definition testStyle :: Style where
  "testStyle =
     \<lparr>Style.Border = \<lparr>Border.Left = ''left'', LeftColor = ''leftColor'',
         Border.Right = ''right'', RightColor = ''rightColor'', Border.Top = ''top'',
         TopColor = ''topColor'', Border.Bottom = ''bottom'', BottomColor = ''bottomColor''\<rparr>,
      Style.Fill = \<lparr>Fill.PatternType = ''PatternType'', Fill.BgColor = ''BgColor'',
         Fill.FgColor = ''FgColor''\<rparr>,
      Style.Font = \<lparr>Size = 0x3FF0000000000000, Font.Name = ''Font'', Font.Family = 2,
         Font.Charset = 3, Font.Color = ''Red'', Bold = True, Italic = True, Underline = True,
         Font.Strike = False\<rparr>,
      Style.ApplyBorder = True, Style.ApplyFill = True, Style.ApplyFont = True,
      Style.ApplyAlignment = True,
      Style.Alignment = \<lparr>Alignment.Horizontal = ''left'', Alignment.Indent = 1,
         Alignment.ShrinkToFit = True, Alignment.TextRotation = 90,
         Alignment.Vertical = ''top'', Alignment.WrapText = True\<rparr>,
      NamedStyleIndex = None\<rparr>"

definition testDataValidation :: xlsxDataValidation where
  "testDataValidation =
     \<lparr>AllowBlank = True, ShowInputMessage = True, ShowErrorMessage = True,
      ErrorStyle = Some ''errorstyle'', ErrorTitle = Some ''errortitle'',
      Operator = ''operator'', Error = Some ''error'', PromptTitle = Some ''prompttitle'',
      Prompt = Some ''prompt'', Type = ''type'', Sqref = ''sqref'', Formula1 = ''formula1'',
      Formula2 = ''formula1''\<rparr>"

definition testCell :: "string Cell" where
  "testCell =
     \<lparr>Value = ''value'', RichText = [], formula = ''formula'', style = Some testStyle,
      Cell.NumFmt = ''numFmt'', date1904 = True, Cell.Hidden = True, HMerge = 49, VMerge = 50,
      cellType = 2, DataValidation = Some testDataValidation,
      Hyperlink = \<lparr>DisplayString = ''displaystring'', Link = ''link'', Tooltip = ''tooltip''\<rparr>,
      Cell.num = 0, modified = True\<rparr>"

text \<open>
  The row of the test "Write and Read Empty Row" (hidden, of height 40.4, outline level 2,
  custom, number 3) on the sheet \<open>Test\<close>, a second row with number 5, the same row holding
  the test's cell as its current cell, and the stores after these rows have been written
  to an empty server.
\<close>

definition testSheet :: Sheet where
  "testSheet = \<lparr>Name = ''Test''\<rparr>"

definition testRow :: "string Row" where
  "testRow =
     \<lparr>Row.Hidden = True, height = 0x4044333333333333, outlineLevel = 2, isCustom = True,
      Row.num = 3, Sheet = Some testSheet,
      cellStoreRow = Some \<lparr>maxCol = - 1, currentCell = None\<rparr>\<rparr>"

definition otherRow :: "string Row" where
  "otherRow = testRow\<lparr>Row.num := 5, Row.Hidden := False\<rparr>"

definition rowWithCell :: "string Row" where
  "rowWithCell = testRow\<lparr>cellStoreRow := Some \<lparr>maxCol = 0, currentCell = Some testCell\<rparr>\<rparr>"

definition emptyStore :: RedisCellStore where
  "emptyStore = \<lparr>sheetName = '''', client = []\<rparr>"

definition storeWithRow :: RedisCellStore where
  "storeWithRow = snd (WriteRow samplePrimitives sampleKeyspace sampleHelpers emptyStore testRow)"

definition storeWithRows :: RedisCellStore where
  "storeWithRows =
     snd (WriteRow samplePrimitives sampleKeyspace sampleHelpers storeWithRow otherRow)"

text \<open>
  A gray fill whose foreground colour names a theme colour and no RGB value: \<open>Equals\<close>
  takes it for the gray fill that \<open>reset\<close> puts at index 1.
\<close>

definition grayFill :: xlsxFill where
  "grayFill =
     \<lparr>PatternFill = \<lparr>xlsxPatternFill.PatternType = ''gray125'',
        xlsxPatternFill.FgColor = zero_xlsxColor\<lparr>RGB := '''', Theme := Some 4\<rparr>,
        xlsxPatternFill.BgColor = zero_xlsxColor\<rparr>\<rparr>"

text \<open>
  A reset sheet with three fonts and, as its cell format 1, one that asks for font 5,
  border 0 and fill 0; and a sheet with three fonts whose table of borders claims one
  entry and holds none, with the cell format that asks for font 5 and border 0; and the
  reset sheet with, as its cell format 2, one that asks for font 5 and the named format
  -1.
\<close>

definition fontId5Only :: xlsxXf where
  "fontId5Only = zero_xlsxXf\<lparr>FontId := 5\<rparr>"

definition threeFontReset :: xlsxStyleSheet where
  "threeFontReset =
     snd (addCellXf
       (snd (addFont (snd (addFont freshSheet (arialFont ''10'' None))) (arialFont ''12'' None)))
       fontId5Only)"

definition hollowSheet :: xlsxStyleSheet where
  "hollowSheet =
     threeFontSheet
       \<lparr>Borders := \<lparr>xlsxBorders.Count = 1, xlsxBorders.Border = []\<rparr>,
        CellXfs := \<lparr>xlsxCellXfs.Count = 1, xlsxCellXfs.Xf = [fontId5Only]\<rparr>\<rparr>"

definition fontId5Minus :: xlsxXf where
  "fontId5Minus = fontId5Only\<lparr>xlsxXf.XfId := Some (- 1)\<rparr>"

definition minusSheet :: xlsxStyleSheet where
  "minusSheet = snd (addCellXf threeFontReset fontId5Minus)"

text \<open>
  A reset sheet that lists the format 164 while its reference table is empty, as a sheet
  decoded from a file is before the reference table is built.
\<close>

definition listedOnlySheet :: xlsxStyleSheet where
  "listedOnlySheet =
     freshSheet\<lparr>NumFmts := Some \<lparr>xlsxNumFmts.Count = 1,
        NumFmt = [\<lparr>xlsxNumFmt.NumFmtId = 164, FormatCode = ''yyyy''\<rparr>]\<rparr>\<rparr>"



section \<open>Properties of interning\<close>

lemma rangeFind_None: "rangeFind p xs k = None \<longleftrightarrow> (\<forall>x\<in>set xs. \<not> p x)"
  by (induction xs arbitrary: k) auto

lemma rangeFind_Some:
  "rangeFind p xs k = Some i \<Longrightarrow> k \<le> i \<and> i < k + int (length xs) \<and> p (xs ! nat (i - k))"
proof (induction xs arbitrary: k)
  case Nil
  then show ?case by simp
next
  case (Cons x xs)
  show ?case
  proof (cases "p x")
    case True
    with Cons.prems show ?thesis by simp
  next
    case False
    with Cons.prems have "rangeFind p xs (k + 1) = Some i" by simp
    from Cons.IH[OF this] have "k + 1 \<le> i" "i < k + 1 + int (length xs)" "p (xs ! nat (i - (k + 1)))"
      by auto
    moreover from \<open>k + 1 \<le> i\<close> have "nat (i - k) = Suc (nat (i - (k + 1)))" by linarith
    ultimately show ?thesis by simp
  qed
qed

lemma rangeFind_append_new:
  "rangeFind p xs k = None \<Longrightarrow> p v \<Longrightarrow> rangeFind p (xs @ [v]) k = Some (k + int (length xs))"
  by (induction xs arbitrary: k) (auto split: if_splits)

lemma index_at_rangeFind:
  "rangeFind p xs 0 = Some i \<Longrightarrow> \<exists>e. index_at xs i = Inr e \<and> p e"
  using rangeFind_Some[of p xs 0 i] by (auto simp: index_at_def)

lemma index_at_append_new: "index_at (xs @ [v]) (int (length xs)) = Inr v"
  by (simp add: index_at_def)

text \<open>
  Each \<open>Equals\<close> is the kernel of a projection, hence an equivalence: it is reflexive, and
  two values it accepts are accepted or refused together against any table entry.
\<close>

lemma xlsxFont_Equals_iff:
  "xlsxFont_Equals a b \<longleftrightarrow>
     (B a = None, I a = None, U a = None, Val (Sz a), Val (xlsxFont.Name a),
      Val (xlsxFont.Family a), Val (xlsxFont.Charset a), RGB (xlsxFont.Color a))
   = (B b = None, I b = None, U b = None, Val (Sz b), Val (xlsxFont.Name b),
      Val (xlsxFont.Family b), Val (xlsxFont.Charset b), RGB (xlsxFont.Color b))"
  by (auto simp: xlsxFont_Equals_def xlsxVal_Equals_def xlsxColor_Equals_def)

lemma xlsxFont_Equals_refl: "xlsxFont_Equals a a"
  by (simp add: xlsxFont_Equals_iff)

lemma xlsxFont_Equals_right:
  "xlsxFont_Equals a b \<Longrightarrow> xlsxFont_Equals e a = xlsxFont_Equals e b"
  by (simp add: xlsxFont_Equals_iff)

lemma xlsxFill_Equals_refl: "xlsxFill_Equals a a"
  by (simp add: xlsxFill_Equals_def xlsxPatternFill_Equals_def xlsxColor_Equals_def)

lemma xlsxFill_Equals_right:
  "xlsxFill_Equals a b \<Longrightarrow> xlsxFill_Equals e a = xlsxFill_Equals e b"
  by (simp add: xlsxFill_Equals_def xlsxPatternFill_Equals_def xlsxColor_Equals_def)

lemma xlsxBorder_Equals_refl: "xlsxBorder_Equals a a"
  by (simp add: xlsxBorder_Equals_def xlsxLine_Equals_def xlsxColor_Equals_def)

lemma xlsxBorder_Equals_right:
  "xlsxBorder_Equals a b \<Longrightarrow> xlsxBorder_Equals e a = xlsxBorder_Equals e b"
  by (simp add: xlsxBorder_Equals_def xlsxLine_Equals_def xlsxColor_Equals_def)

lemma XfId_eq_iff:
  "(x = y \<or> ((x \<noteq> None \<and> y \<noteq> None) \<and> the x = the y)) \<longleftrightarrow> x = (y :: int option)"
  by (cases x; cases y) simp_all

lemma xlsxXf_Equals_iff:
  "xlsxXf_Equals xf other \<longleftrightarrow>
     xlsxXf.ApplyAlignment xf = xlsxXf.ApplyAlignment other
     \<and> xlsxXf.ApplyBorder xf = xlsxXf.ApplyBorder other
     \<and> xlsxXf.ApplyFont xf = xlsxXf.ApplyFont other
     \<and> xlsxXf.ApplyFill xf = xlsxXf.ApplyFill other
     \<and> ApplyProtection xf = ApplyProtection other
     \<and> BorderId xf = BorderId other
     \<and> FillId xf = FillId other
     \<and> FontId xf = FontId other
     \<and> xlsxXf.NumFmtId xf = xlsxXf.NumFmtId other
     \<and> xlsxXf.XfId xf = xlsxXf.XfId other
     \<and> xlsxAlignment_Equals (xlsxXf.Alignment xf) (xlsxXf.Alignment other)"
  unfolding xlsxXf_Equals_def XfId_eq_iff by (rule refl)

lemma xlsxXf_Equals_refl: "xlsxXf_Equals a a"
  by (simp add: xlsxXf_Equals_iff xlsxAlignment_Equals_def)

lemma xlsxXf_Equals_right:
  "xlsxXf_Equals a b \<Longrightarrow> xlsxXf_Equals e a = xlsxXf_Equals e b"
  by (simp add: xlsxXf_Equals_iff xlsxAlignment_Equals_def)

lemma addFont_twice:
  assumes "xlsxFonts.Count (Fonts styles) = int (length (xlsxFonts.Font (Fonts styles)))"
    and "xlsxFont_Equals v v'"
  shows "addFont (snd (addFont styles v)) v' = addFont styles v"
proof -
  have eq: "(\<lambda>font. xlsxFont_Equals font v') = (\<lambda>font. xlsxFont_Equals font v)"
    using xlsxFont_Equals_right[OF assms(2)] by auto
  have nm: "Val (xlsxFont.Name v') = Val (xlsxFont.Name v)"
    using assms(2) by (simp add: xlsxFont_Equals_iff)
  show ?thesis
  proof (cases "Val (xlsxFont.Name v) = []")
    case True
    with nm show ?thesis by (simp add: addFont_def)
  next
    case False
    show ?thesis
    proof (cases "rangeFind (\<lambda>font. xlsxFont_Equals font v) (xlsxFonts.Font (Fonts styles)) 0")
      case None
      with False nm assms(1) show ?thesis
        by (simp add: addFont_def eq rangeFind_append_new xlsxFont_Equals_refl)
    next
      case (Some i)
      with False nm show ?thesis by (simp add: addFont_def eq)
    qed
  qed
qed

lemma addFont_holds:
  assumes "xlsxFonts.Count (Fonts styles) = int (length (xlsxFonts.Font (Fonts styles)))"
    and "Val (xlsxFont.Name v) \<noteq> []"
  shows "\<exists>e. index_at (xlsxFonts.Font (Fonts (snd (addFont styles v)))) (fst (addFont styles v)) = Inr e
             \<and> xlsxFont_Equals e v"
proof (cases "rangeFind (\<lambda>font. xlsxFont_Equals font v) (xlsxFonts.Font (Fonts styles)) 0")
  case None
  with assms show ?thesis
    by (simp add: addFont_def index_at_append_new xlsxFont_Equals_refl)
next
  case (Some i)
  from index_at_rangeFind[OF Some] Some assms(2) show ?thesis
    by (simp add: addFont_def)
qed

lemma addFill_twice:
  assumes "xlsxFills.Count (Fills styles) = int (length (xlsxFills.Fill (Fills styles)))"
    and "xlsxFill_Equals v v'"
  shows "addFill (snd (addFill styles v)) v' = addFill styles v"
proof -
  have eq: "(\<lambda>fill. xlsxFill_Equals fill v') = (\<lambda>fill. xlsxFill_Equals fill v)"
    using xlsxFill_Equals_right[OF assms(2)] by auto
  show ?thesis
  proof (cases "rangeFind (\<lambda>fill. xlsxFill_Equals fill v) (xlsxFills.Fill (Fills styles)) 0")
    case None
    with assms(1) show ?thesis
      by (simp add: addFill_def eq rangeFind_append_new xlsxFill_Equals_refl)
  next
    case (Some i)
    then show ?thesis by (simp add: addFill_def eq)
  qed
qed

lemma addFill_holds:
  assumes "xlsxFills.Count (Fills styles) = int (length (xlsxFills.Fill (Fills styles)))"
  shows "\<exists>e. index_at (xlsxFills.Fill (Fills (snd (addFill styles v)))) (fst (addFill styles v)) = Inr e
             \<and> xlsxFill_Equals e v"
proof (cases "rangeFind (\<lambda>fill. xlsxFill_Equals fill v) (xlsxFills.Fill (Fills styles)) 0")
  case None
  with assms show ?thesis
    by (simp add: addFill_def index_at_append_new xlsxFill_Equals_refl)
next
  case (Some i)
  from index_at_rangeFind[OF Some] Some show ?thesis
    by (simp add: addFill_def)
qed

lemma addBorder_twice:
  assumes "xlsxBorders.Count (Borders styles) = int (length (xlsxBorders.Border (Borders styles)))"
    and "xlsxBorder_Equals v v'"
  shows "addBorder (snd (addBorder styles v)) v' = addBorder styles v"
proof -
  have eq: "(\<lambda>border. xlsxBorder_Equals border v') = (\<lambda>border. xlsxBorder_Equals border v)"
    using xlsxBorder_Equals_right[OF assms(2)] by auto
  show ?thesis
  proof (cases "rangeFind (\<lambda>border. xlsxBorder_Equals border v) (xlsxBorders.Border (Borders styles)) 0")
    case None
    with assms(1) show ?thesis
      by (simp add: addBorder_def eq rangeFind_append_new xlsxBorder_Equals_refl)
  next
    case (Some i)
    then show ?thesis by (simp add: addBorder_def eq)
  qed
qed

lemma addBorder_holds:
  assumes "xlsxBorders.Count (Borders styles) = int (length (xlsxBorders.Border (Borders styles)))"
  shows "\<exists>e. index_at (xlsxBorders.Border (Borders (snd (addBorder styles v)))) (fst (addBorder styles v)) = Inr e
             \<and> xlsxBorder_Equals e v"
proof (cases "rangeFind (\<lambda>border. xlsxBorder_Equals border v) (xlsxBorders.Border (Borders styles)) 0")
  case None
  with assms show ?thesis
    by (simp add: addBorder_def index_at_append_new xlsxBorder_Equals_refl)
next
  case (Some i)
  from index_at_rangeFind[OF Some] Some show ?thesis
    by (simp add: addBorder_def)
qed

lemma addCellXf_twice:
  assumes "xlsxCellXfs.Count (CellXfs styles) = int (length (xlsxCellXfs.Xf (CellXfs styles)))"
    and "xlsxXf_Equals v v'"
  shows "addCellXf (snd (addCellXf styles v)) v' = addCellXf styles v"
proof -
  have eq: "(\<lambda>cellXf. xlsxXf_Equals cellXf v') = (\<lambda>cellXf. xlsxXf_Equals cellXf v)"
    using xlsxXf_Equals_right[OF assms(2)] by auto
  show ?thesis
  proof (cases "rangeFind (\<lambda>cellXf. xlsxXf_Equals cellXf v) (xlsxCellXfs.Xf (CellXfs styles)) 0")
    case None
    with assms(1) show ?thesis
      by (simp add: addCellXf_def eq rangeFind_append_new xlsxXf_Equals_refl)
  next
    case (Some i)
    then show ?thesis by (simp add: addCellXf_def eq)
  qed
qed

lemma addCellXf_holds:
  assumes "xlsxCellXfs.Count (CellXfs styles) = int (length (xlsxCellXfs.Xf (CellXfs styles)))"
  shows "\<exists>e. index_at (xlsxCellXfs.Xf (CellXfs (snd (addCellXf styles v)))) (fst (addCellXf styles v)) = Inr e
             \<and> xlsxXf_Equals e v"
proof (cases "rangeFind (\<lambda>cellXf. xlsxXf_Equals cellXf v) (xlsxCellXfs.Xf (CellXfs styles)) 0")
  case None
  with assms show ?thesis
    by (simp add: addCellXf_def index_at_append_new xlsxXf_Equals_refl)
next
  case (Some i)
  from index_at_rangeFind[OF Some] Some show ?thesis
    by (simp add: addCellXf_def)
qed

lemma addCellStyleXf_twice:
  assumes "case CellStyleXfs styles of None \<Rightarrow> True
           | Some xfs \<Rightarrow> xlsxCellStyleXfs.Count xfs = int (length (xlsxCellStyleXfs.Xf xfs))"
    and "xlsxXf_Equals v v'"
  shows "addCellStyleXf (snd (addCellStyleXf styles v)) v' = addCellStyleXf styles v"
proof -
  have eq: "(\<lambda>cellXf. xlsxXf_Equals cellXf v') = (\<lambda>cellXf. xlsxXf_Equals cellXf v)"
    using xlsxXf_Equals_right[OF assms(2)] by auto
  show ?thesis
  proof (cases "CellStyleXfs styles")
    case None
    then show ?thesis
      by (simp add: addCellStyleXf_def eq xlsxXf_Equals_refl)
  next
    case (Some xfs)
    show ?thesis
    proof (cases "rangeFind (\<lambda>cellXf. xlsxXf_Equals cellXf v) (xlsxCellStyleXfs.Xf xfs) 0")
      case None
      with Some assms(1) show ?thesis
        by (simp add: addCellStyleXf_def eq rangeFind_append_new xlsxXf_Equals_refl)
    next
      case (Some i)
      with \<open>CellStyleXfs styles = Some xfs\<close> show ?thesis by (simp add: addCellStyleXf_def eq)
    qed
  qed
qed

lemma addCellStyleXf_holds:
  assumes "case CellStyleXfs styles of None \<Rightarrow> True
           | Some xfs \<Rightarrow> xlsxCellStyleXfs.Count xfs = int (length (xlsxCellStyleXfs.Xf xfs))"
  shows "\<exists>e. index_at (styleXfTable (snd (addCellStyleXf styles v))) (fst (addCellStyleXf styles v)) = Inr e
             \<and> xlsxXf_Equals e v"
proof (cases "CellStyleXfs styles")
  case None
  then show ?thesis
    by (simp add: addCellStyleXf_def styleXfTable_def index_at_def xlsxXf_Equals_refl)
next
  case (Some xfs)
  show ?thesis
  proof (cases "rangeFind (\<lambda>cellXf. xlsxXf_Equals cellXf v) (xlsxCellStyleXfs.Xf xfs) 0")
    case None
    with Some assms show ?thesis
      by (simp add: addCellStyleXf_def styleXfTable_def index_at_append_new xlsxXf_Equals_refl)
  next
    case (Some i)
    from index_at_rangeFind[OF Some] Some \<open>CellStyleXfs styles = Some xfs\<close> show ?thesis
      by (simp add: addCellStyleXf_def styleXfTable_def)
  qed
qed

lemma reset_consistent:
  "(case CellStyles styles of None \<Rightarrow> True
    | Some cs \<Rightarrow> xlsxCellStyles.Count cs = int (length (CellStyle cs)))
   \<Longrightarrow> countsConsistent (reset styles)"
  by (simp add: reset_def countsConsistent_def addFont_def addFill_def addBorder_def
      xlsxFont_Equals_def xlsxFill_Equals_def xlsxPatternFill_Equals_def Let_def)

lemma freshSheet_consistent: "countsConsistent freshSheet"
  unfolding freshSheet_def by (rule reset_consistent) (simp add: newXlsxStyleSheet_def)

lemma rangeFind_first:
  "firstMatch p xs i \<Longrightarrow> rangeFind p xs k = Some (k + int i)"
proof (induction xs arbitrary: i k)
  case Nil
  then show ?case by (simp add: firstMatch_def)
next
  case (Cons x xs)
  show ?case
  proof (cases i)
    case 0
    with Cons.prems show ?thesis by (simp add: firstMatch_def)
  next
    case (Suc n)
    with Cons.prems have "\<not> p x" and "firstMatch p xs n"
      by (auto simp: firstMatch_def)
    with Cons.IH [of n "k + 1"] Suc show ?thesis by simp
  qed
qed

lemma addFont_hit:
  "Val (xlsxFont.Name v) \<noteq> '''' \<Longrightarrow>
   firstMatch (\<lambda>e. xlsxFont_Equals e v) (xlsxFonts.Font (Fonts styles)) i \<Longrightarrow>
   addFont styles v = (int i, styles)"
  using rangeFind_first [of "\<lambda>e. xlsxFont_Equals e v" "xlsxFonts.Font (Fonts styles)" i 0]
  by (simp add: addFont_def)

lemma addFont_miss:
  "Val (xlsxFont.Name v) \<noteq> '''' \<Longrightarrow>
   \<forall>e\<in>set (xlsxFonts.Font (Fonts styles)). \<not> xlsxFont_Equals e v \<Longrightarrow>
   addFont styles v =
     (xlsxFonts.Count (Fonts styles),
      styles\<lparr>Fonts := (Fonts styles)
        \<lparr>xlsxFonts.Count := xlsxFonts.Count (Fonts styles) + 1,
         xlsxFonts.Font := xlsxFonts.Font (Fonts styles) @ [v]\<rparr>\<rparr>)"
  using rangeFind_None [of "\<lambda>e. xlsxFont_Equals e v" "xlsxFonts.Font (Fonts styles)" 0]
  by (simp add: addFont_def)

lemma addFill_hit:
  "firstMatch (\<lambda>e. xlsxFill_Equals e v) (xlsxFills.Fill (Fills styles)) i \<Longrightarrow>
   addFill styles v = (int i, styles)"
  using rangeFind_first [of "\<lambda>e. xlsxFill_Equals e v" "xlsxFills.Fill (Fills styles)" i 0]
  by (simp add: addFill_def)

lemma addFill_miss:
  "\<forall>e\<in>set (xlsxFills.Fill (Fills styles)). \<not> xlsxFill_Equals e v \<Longrightarrow>
   addFill styles v =
     (xlsxFills.Count (Fills styles),
      styles\<lparr>Fills := (Fills styles)
        \<lparr>xlsxFills.Count := xlsxFills.Count (Fills styles) + 1,
         xlsxFills.Fill := xlsxFills.Fill (Fills styles) @ [v]\<rparr>\<rparr>)"
  using rangeFind_None [of "\<lambda>e. xlsxFill_Equals e v" "xlsxFills.Fill (Fills styles)" 0]
  by (simp add: addFill_def)

lemma addBorder_hit:
  "firstMatch (\<lambda>e. xlsxBorder_Equals e v) (xlsxBorders.Border (Borders styles)) i \<Longrightarrow>
   addBorder styles v = (int i, styles)"
  using rangeFind_first [of "\<lambda>e. xlsxBorder_Equals e v" "xlsxBorders.Border (Borders styles)" i 0]
  by (simp add: addBorder_def)

lemma addBorder_miss:
  "\<forall>e\<in>set (xlsxBorders.Border (Borders styles)). \<not> xlsxBorder_Equals e v \<Longrightarrow>
   addBorder styles v =
     (xlsxBorders.Count (Borders styles),
      styles\<lparr>Borders := (Borders styles)
        \<lparr>xlsxBorders.Count := xlsxBorders.Count (Borders styles) + 1,
         xlsxBorders.Border := xlsxBorders.Border (Borders styles) @ [v]\<rparr>\<rparr>)"
  using rangeFind_None [of "\<lambda>e. xlsxBorder_Equals e v" "xlsxBorders.Border (Borders styles)" 0]
  by (simp add: addBorder_def)

lemma addCellXf_hit:
  "firstMatch (\<lambda>e. xlsxXf_Equals e v) (xlsxCellXfs.Xf (CellXfs styles)) i \<Longrightarrow>
   addCellXf styles v = (int i, styles)"
  using rangeFind_first [of "\<lambda>e. xlsxXf_Equals e v" "xlsxCellXfs.Xf (CellXfs styles)" i 0]
  by (simp add: addCellXf_def)

lemma addCellXf_miss:
  "\<forall>e\<in>set (xlsxCellXfs.Xf (CellXfs styles)). \<not> xlsxXf_Equals e v \<Longrightarrow>
   addCellXf styles v =
     (xlsxCellXfs.Count (CellXfs styles),
      styles\<lparr>CellXfs := (CellXfs styles)
        \<lparr>xlsxCellXfs.Count := xlsxCellXfs.Count (CellXfs styles) + 1,
         xlsxCellXfs.Xf := xlsxCellXfs.Xf (CellXfs styles) @ [v]\<rparr>\<rparr>)"
  using rangeFind_None [of "\<lambda>e. xlsxXf_Equals e v" "xlsxCellXfs.Xf (CellXfs styles)" 0]
  by (simp add: addCellXf_def)

lemma addCellStyleXf_hit:
  "CellStyleXfs styles = Some xfs \<Longrightarrow>
   firstMatch (\<lambda>e. xlsxXf_Equals e v) (xlsxCellStyleXfs.Xf xfs) i \<Longrightarrow>
   addCellStyleXf styles v = (int i, styles)"
  using rangeFind_first [of "\<lambda>e. xlsxXf_Equals e v" "xlsxCellStyleXfs.Xf xfs" i 0]
  by (simp add: addCellStyleXf_def)

lemma addCellStyleXf_miss:
  "CellStyleXfs styles = Some xfs \<Longrightarrow>
   \<forall>e\<in>set (xlsxCellStyleXfs.Xf xfs). \<not> xlsxXf_Equals e v \<Longrightarrow>
   addCellStyleXf styles v =
     (xlsxCellStyleXfs.Count xfs,
      styles\<lparr>CellStyleXfs := Some (xfs
        \<lparr>xlsxCellStyleXfs.Count := xlsxCellStyleXfs.Count xfs + 1,
         xlsxCellStyleXfs.Xf := xlsxCellStyleXfs.Xf xfs @ [v]\<rparr>)\<rparr>)"
  using rangeFind_None [of "\<lambda>e. xlsxXf_Equals e v" "xlsxCellStyleXfs.Xf xfs" 0]
  by (simp add: addCellStyleXf_def)

lemma addCellStyleXf_nil:
  "CellStyleXfs styles = None \<Longrightarrow>
   addCellStyleXf styles v =
     (0, styles\<lparr>CellStyleXfs := Some \<lparr>xlsxCellStyleXfs.Count = 1, xlsxCellStyleXfs.Xf = [v]\<rparr>\<rparr>)"
  by (simp add: addCellStyleXf_def)


lemma add_scans:
  "(Val (xlsxFont.Name font) = '''' \<longrightarrow> addFont styles font = (0, styles))
   \<and> (Val (xlsxFont.Name font) \<noteq> ''''
        \<and> firstMatch (\<lambda>e. xlsxFont_Equals e font) (xlsxFonts.Font (Fonts styles)) i1 \<longrightarrow>
      addFont styles font = (int i1, styles))
   \<and> (Val (xlsxFont.Name font) \<noteq> ''''
        \<and> (\<forall>e\<in>set (xlsxFonts.Font (Fonts styles)). \<not> xlsxFont_Equals e font) \<longrightarrow>
      addFont styles font =
        (xlsxFonts.Count (Fonts styles),
         styles\<lparr>Fonts := (Fonts styles)
           \<lparr>xlsxFonts.Count := xlsxFonts.Count (Fonts styles) + 1,
            xlsxFonts.Font := xlsxFonts.Font (Fonts styles) @ [font]\<rparr>\<rparr>))
   \<and> (firstMatch (\<lambda>e. xlsxFill_Equals e fill) (xlsxFills.Fill (Fills styles)) i2 \<longrightarrow>
      addFill styles fill = (int i2, styles))
   \<and> ((\<forall>e\<in>set (xlsxFills.Fill (Fills styles)). \<not> xlsxFill_Equals e fill) \<longrightarrow>
      addFill styles fill =
        (xlsxFills.Count (Fills styles),
         styles\<lparr>Fills := (Fills styles)
           \<lparr>xlsxFills.Count := xlsxFills.Count (Fills styles) + 1,
            xlsxFills.Fill := xlsxFills.Fill (Fills styles) @ [fill]\<rparr>\<rparr>))
   \<and> (firstMatch (\<lambda>e. xlsxBorder_Equals e border) (xlsxBorders.Border (Borders styles)) i3 \<longrightarrow>
      addBorder styles border = (int i3, styles))
   \<and> ((\<forall>e\<in>set (xlsxBorders.Border (Borders styles)). \<not> xlsxBorder_Equals e border) \<longrightarrow>
      addBorder styles border =
        (xlsxBorders.Count (Borders styles),
         styles\<lparr>Borders := (Borders styles)
           \<lparr>xlsxBorders.Count := xlsxBorders.Count (Borders styles) + 1,
            xlsxBorders.Border := xlsxBorders.Border (Borders styles) @ [border]\<rparr>\<rparr>))
   \<and> (firstMatch (\<lambda>e. xlsxXf_Equals e xf) (xlsxCellXfs.Xf (CellXfs styles)) i4 \<longrightarrow>
      addCellXf styles xf = (int i4, styles))
   \<and> ((\<forall>e\<in>set (xlsxCellXfs.Xf (CellXfs styles)). \<not> xlsxXf_Equals e xf) \<longrightarrow>
      addCellXf styles xf =
        (xlsxCellXfs.Count (CellXfs styles),
         styles\<lparr>CellXfs := (CellXfs styles)
           \<lparr>xlsxCellXfs.Count := xlsxCellXfs.Count (CellXfs styles) + 1,
            xlsxCellXfs.Xf := xlsxCellXfs.Xf (CellXfs styles) @ [xf]\<rparr>\<rparr>))
   \<and> (CellStyleXfs styles = Some xfs
        \<and> firstMatch (\<lambda>e. xlsxXf_Equals e sxf) (xlsxCellStyleXfs.Xf xfs) i5 \<longrightarrow>
      addCellStyleXf styles sxf = (int i5, styles))
   \<and> (CellStyleXfs styles = Some xfs
        \<and> (\<forall>e\<in>set (xlsxCellStyleXfs.Xf xfs). \<not> xlsxXf_Equals e sxf) \<longrightarrow>
      addCellStyleXf styles sxf =
        (xlsxCellStyleXfs.Count xfs,
         styles\<lparr>CellStyleXfs := Some (xfs
           \<lparr>xlsxCellStyleXfs.Count := xlsxCellStyleXfs.Count xfs + 1,
            xlsxCellStyleXfs.Xf := xlsxCellStyleXfs.Xf xfs @ [sxf]\<rparr>)\<rparr>))
   \<and> (CellStyleXfs styles = None \<longrightarrow>
      addCellStyleXf styles sxf =
        (0, styles\<lparr>CellStyleXfs :=
               Some \<lparr>xlsxCellStyleXfs.Count = 1, xlsxCellStyleXfs.Xf = [sxf]\<rparr>\<rparr>))"
  using addFont_hit [of font styles i1] addFont_miss [of font styles]
    addFill_hit [of fill styles i2] addFill_miss [of styles fill]
    addBorder_hit [of border styles i3] addBorder_miss [of styles border]
    addCellXf_hit [of xf styles i4] addCellXf_miss [of styles xf]
    addCellStyleXf_hit [of styles xfs sxf i5] addCellStyleXf_miss [of styles xfs sxf]
    addCellStyleXf_nil [of styles sxf]
  by (simp add: addFont_def)

lemma add_twice:
  assumes "countsConsistent styles"
  shows "(xlsxFont_Equals font font' \<longrightarrow>
            addFont (snd (addFont styles font)) font' = addFont styles font)
       \<and> (Val (xlsxFont.Name font) \<noteq> '''' \<longrightarrow>
            (\<exists>e. index_at (xlsxFonts.Font (Fonts (snd (addFont styles font))))
                    (fst (addFont styles font)) = Inr e \<and> xlsxFont_Equals e font))
       \<and> (xlsxFill_Equals fill fill' \<longrightarrow>
            addFill (snd (addFill styles fill)) fill' = addFill styles fill)
       \<and> (\<exists>e. index_at (xlsxFills.Fill (Fills (snd (addFill styles fill))))
                 (fst (addFill styles fill)) = Inr e \<and> xlsxFill_Equals e fill)
       \<and> (xlsxBorder_Equals border border' \<longrightarrow>
            addBorder (snd (addBorder styles border)) border' = addBorder styles border)
       \<and> (\<exists>e. index_at (xlsxBorders.Border (Borders (snd (addBorder styles border))))
                 (fst (addBorder styles border)) = Inr e \<and> xlsxBorder_Equals e border)
       \<and> (xlsxXf_Equals xf xf' \<longrightarrow>
            addCellXf (snd (addCellXf styles xf)) xf' = addCellXf styles xf)
       \<and> (\<exists>e. index_at (xlsxCellXfs.Xf (CellXfs (snd (addCellXf styles xf))))
                 (fst (addCellXf styles xf)) = Inr e \<and> xlsxXf_Equals e xf)
       \<and> (xlsxXf_Equals sxf sxf' \<longrightarrow>
            addCellStyleXf (snd (addCellStyleXf styles sxf)) sxf' = addCellStyleXf styles sxf)
       \<and> (\<exists>e. index_at (styleXfTable (snd (addCellStyleXf styles sxf)))
                 (fst (addCellStyleXf styles sxf)) = Inr e \<and> xlsxXf_Equals e sxf)"
proof -
  from assms have
    c1: "xlsxFonts.Count (Fonts styles) = int (length (xlsxFonts.Font (Fonts styles)))" and
    c2: "xlsxFills.Count (Fills styles) = int (length (xlsxFills.Fill (Fills styles)))" and
    c3: "xlsxBorders.Count (Borders styles) = int (length (xlsxBorders.Border (Borders styles)))" and
    c4: "xlsxCellXfs.Count (CellXfs styles) = int (length (xlsxCellXfs.Xf (CellXfs styles)))" and
    c5: "case CellStyleXfs styles of None \<Rightarrow> True
         | Some xfs \<Rightarrow> xlsxCellStyleXfs.Count xfs = int (length (xlsxCellStyleXfs.Xf xfs))"
    by (simp_all add: countsConsistent_def)
  show ?thesis
    using addFont_twice[OF c1] addFont_holds[OF c1] addFill_twice[OF c2] addFill_holds[OF c2]
      addBorder_twice[OF c3] addBorder_holds[OF c3] addCellXf_twice[OF c4] addCellXf_holds[OF c4]
      addCellStyleXf_twice[OF c5] addCellStyleXf_holds[OF c5]
    by blast
qed

text \<open>
  Claim C1, as the code has it.  The add functions scan their table with the type's own
  \<open>Equals\<close> method, which is coarser than field-by-field equality.  \<open>addFont\<close> first
  returns 0 for a font whose name is empty, the style sheet unchanged.  Otherwise, for
  each of \<open>addFont\<close>, \<open>addFill\<close>, \<open>addBorder\<close>, \<open>addCellXf\<close> and \<open>addCellStyleXf\<close>: when the
  table holds an entry that \<open>Equals\<close> accepts, the call returns the index of the first
  such entry and the style sheet unchanged; when it holds none, the call appends the
  value at the end of the table, adds one to \<open>Count\<close> and returns the \<open>Count\<close> of before;
  \<open>addCellStyleXf\<close> on a style sheet without a table of named formats creates the table
  with the value as its only entry and returns 0.  On a style sheet whose counts are the
  lengths of its tables, adding a value and then a value that \<open>Equals\<close> accepts as the
  same one (any field-by-field equal value is one) returns the same index both times and
  the second call changes nothing; and the index returned holds, after the call, an
  entry that \<open>Equals\<close> accepts (for a font: when its name is not empty).
\<close>

theorem add_interning:
  "(Val (xlsxFont.Name font) = '''' \<longrightarrow> addFont styles font = (0, styles))
   \<and> (Val (xlsxFont.Name font) \<noteq> ''''
        \<and> firstMatch (\<lambda>e. xlsxFont_Equals e font) (xlsxFonts.Font (Fonts styles)) i1 \<longrightarrow>
      addFont styles font = (int i1, styles))
   \<and> (Val (xlsxFont.Name font) \<noteq> ''''
        \<and> (\<forall>e\<in>set (xlsxFonts.Font (Fonts styles)). \<not> xlsxFont_Equals e font) \<longrightarrow>
      addFont styles font =
        (xlsxFonts.Count (Fonts styles),
         styles\<lparr>Fonts := (Fonts styles)
           \<lparr>xlsxFonts.Count := xlsxFonts.Count (Fonts styles) + 1,
            xlsxFonts.Font := xlsxFonts.Font (Fonts styles) @ [font]\<rparr>\<rparr>))
   \<and> (firstMatch (\<lambda>e. xlsxFill_Equals e fill) (xlsxFills.Fill (Fills styles)) i2 \<longrightarrow>
      addFill styles fill = (int i2, styles))
   \<and> ((\<forall>e\<in>set (xlsxFills.Fill (Fills styles)). \<not> xlsxFill_Equals e fill) \<longrightarrow>
      addFill styles fill =
        (xlsxFills.Count (Fills styles),
         styles\<lparr>Fills := (Fills styles)
           \<lparr>xlsxFills.Count := xlsxFills.Count (Fills styles) + 1,
            xlsxFills.Fill := xlsxFills.Fill (Fills styles) @ [fill]\<rparr>\<rparr>))
   \<and> (firstMatch (\<lambda>e. xlsxBorder_Equals e border) (xlsxBorders.Border (Borders styles)) i3 \<longrightarrow>
      addBorder styles border = (int i3, styles))
   \<and> ((\<forall>e\<in>set (xlsxBorders.Border (Borders styles)). \<not> xlsxBorder_Equals e border) \<longrightarrow>
      addBorder styles border =
        (xlsxBorders.Count (Borders styles),
         styles\<lparr>Borders := (Borders styles)
           \<lparr>xlsxBorders.Count := xlsxBorders.Count (Borders styles) + 1,
            xlsxBorders.Border := xlsxBorders.Border (Borders styles) @ [border]\<rparr>\<rparr>))
   \<and> (firstMatch (\<lambda>e. xlsxXf_Equals e xf) (xlsxCellXfs.Xf (CellXfs styles)) i4 \<longrightarrow>
      addCellXf styles xf = (int i4, styles))
   \<and> ((\<forall>e\<in>set (xlsxCellXfs.Xf (CellXfs styles)). \<not> xlsxXf_Equals e xf) \<longrightarrow>
      addCellXf styles xf =
        (xlsxCellXfs.Count (CellXfs styles),
         styles\<lparr>CellXfs := (CellXfs styles)
           \<lparr>xlsxCellXfs.Count := xlsxCellXfs.Count (CellXfs styles) + 1,
            xlsxCellXfs.Xf := xlsxCellXfs.Xf (CellXfs styles) @ [xf]\<rparr>\<rparr>))
   \<and> (CellStyleXfs styles = Some xfs
        \<and> firstMatch (\<lambda>e. xlsxXf_Equals e sxf) (xlsxCellStyleXfs.Xf xfs) i5 \<longrightarrow>
      addCellStyleXf styles sxf = (int i5, styles))
   \<and> (CellStyleXfs styles = Some xfs
        \<and> (\<forall>e\<in>set (xlsxCellStyleXfs.Xf xfs). \<not> xlsxXf_Equals e sxf) \<longrightarrow>
      addCellStyleXf styles sxf =
        (xlsxCellStyleXfs.Count xfs,
         styles\<lparr>CellStyleXfs := Some (xfs
           \<lparr>xlsxCellStyleXfs.Count := xlsxCellStyleXfs.Count xfs + 1,
            xlsxCellStyleXfs.Xf := xlsxCellStyleXfs.Xf xfs @ [sxf]\<rparr>)\<rparr>))
   \<and> (CellStyleXfs styles = None \<longrightarrow>
      addCellStyleXf styles sxf =
        (0, styles\<lparr>CellStyleXfs :=
               Some \<lparr>xlsxCellStyleXfs.Count = 1, xlsxCellStyleXfs.Xf = [sxf]\<rparr>\<rparr>))
   \<and> (countsConsistent styles \<longrightarrow>
       (xlsxFont_Equals font font' \<longrightarrow>
            addFont (snd (addFont styles font)) font' = addFont styles font)
       \<and> (Val (xlsxFont.Name font) \<noteq> '''' \<longrightarrow>
            (\<exists>e. index_at (xlsxFonts.Font (Fonts (snd (addFont styles font))))
                    (fst (addFont styles font)) = Inr e \<and> xlsxFont_Equals e font))
       \<and> (xlsxFill_Equals fill fill' \<longrightarrow>
            addFill (snd (addFill styles fill)) fill' = addFill styles fill)
       \<and> (\<exists>e. index_at (xlsxFills.Fill (Fills (snd (addFill styles fill))))
                 (fst (addFill styles fill)) = Inr e \<and> xlsxFill_Equals e fill)
       \<and> (xlsxBorder_Equals border border' \<longrightarrow>
            addBorder (snd (addBorder styles border)) border' = addBorder styles border)
       \<and> (\<exists>e. index_at (xlsxBorders.Border (Borders (snd (addBorder styles border))))
                 (fst (addBorder styles border)) = Inr e \<and> xlsxBorder_Equals e border)
       \<and> (xlsxXf_Equals xf xf' \<longrightarrow>
            addCellXf (snd (addCellXf styles xf)) xf' = addCellXf styles xf)
       \<and> (\<exists>e. index_at (xlsxCellXfs.Xf (CellXfs (snd (addCellXf styles xf))))
                 (fst (addCellXf styles xf)) = Inr e \<and> xlsxXf_Equals e xf)
       \<and> (xlsxXf_Equals sxf sxf' \<longrightarrow>
            addCellStyleXf (snd (addCellStyleXf styles sxf)) sxf' = addCellStyleXf styles sxf)
       \<and> (\<exists>e. index_at (styleXfTable (snd (addCellStyleXf styles sxf)))
                 (fst (addCellStyleXf styles sxf)) = Inr e \<and> xlsxXf_Equals e sxf))"
proof -
  have twice: "countsConsistent styles \<longrightarrow>
       (xlsxFont_Equals font font' \<longrightarrow>
            addFont (snd (addFont styles font)) font' = addFont styles font)
       \<and> (Val (xlsxFont.Name font) \<noteq> '''' \<longrightarrow>
            (\<exists>e. index_at (xlsxFonts.Font (Fonts (snd (addFont styles font))))
                    (fst (addFont styles font)) = Inr e \<and> xlsxFont_Equals e font))
       \<and> (xlsxFill_Equals fill fill' \<longrightarrow>
            addFill (snd (addFill styles fill)) fill' = addFill styles fill)
       \<and> (\<exists>e. index_at (xlsxFills.Fill (Fills (snd (addFill styles fill))))
                 (fst (addFill styles fill)) = Inr e \<and> xlsxFill_Equals e fill)
       \<and> (xlsxBorder_Equals border border' \<longrightarrow>
            addBorder (snd (addBorder styles border)) border' = addBorder styles border)
       \<and> (\<exists>e. index_at (xlsxBorders.Border (Borders (snd (addBorder styles border))))
                 (fst (addBorder styles border)) = Inr e \<and> xlsxBorder_Equals e border)
       \<and> (xlsxXf_Equals xf xf' \<longrightarrow>
            addCellXf (snd (addCellXf styles xf)) xf' = addCellXf styles xf)
       \<and> (\<exists>e. index_at (xlsxCellXfs.Xf (CellXfs (snd (addCellXf styles xf))))
                 (fst (addCellXf styles xf)) = Inr e \<and> xlsxXf_Equals e xf)
       \<and> (xlsxXf_Equals sxf sxf' \<longrightarrow>
            addCellStyleXf (snd (addCellStyleXf styles sxf)) sxf' = addCellStyleXf styles sxf)
       \<and> (\<exists>e. index_at (styleXfTable (snd (addCellStyleXf styles sxf)))
                 (fst (addCellStyleXf styles sxf)) = Inr e \<and> xlsxXf_Equals e sxf)"
    using add_twice [of styles font font' fill fill' border border' xf xf' sxf sxf'] by (rule impI)
  from conjI [OF add_scans [of font styles i1 fill i2 border i3 xf i4 xfs sxf i5] twice]
  show ?thesis
    by (simp only: conj_assoc)
qed

text \<open>
  The scenario of the specification on a freshly reset sheet, whose font table holds the
  default Arial 11 at index 0: Arial 12 is appended at index 1, and an Arial 12 that
  differs in its scheme only is given the same index 1.  The gray fill that differs from
  the second fill of the sheet in the theme of its colour is given that fill's index 1
  and nothing is appended; a thin border is appended at index 1; a cell format that
  differs from the default one in a flag \<open>Equals\<close> does not read is given index 0.
\<close>

theorem add_interning_witness:
  "countsConsistent freshSheet
   \<and> Val (xlsxFont.Name (arialFont ''12'' None)) \<noteq> ''''
   \<and> \<not> (\<exists>e\<in>set (xlsxFonts.Font (Fonts freshSheet)). xlsxFont_Equals e (arialFont ''12'' None))
   \<and> addFont freshSheet (arialFont ''12'' None)
      = (1, freshSheet\<lparr>Fonts := (Fonts freshSheet)
              \<lparr>xlsxFonts.Count := 2,
               xlsxFonts.Font := xlsxFonts.Font (Fonts freshSheet) @ [arialFont ''12'' None]\<rparr>\<rparr>)
   \<and> xlsxFont_Equals (arialFont ''12'' None) (arialFont ''12'' (Some \<lparr>Val = ''minor''\<rparr>))
   \<and> addFont (snd (addFont freshSheet (arialFont ''12'' None)))
        (arialFont ''12'' (Some \<lparr>Val = ''minor''\<rparr>))
      = addFont freshSheet (arialFont ''12'' None)
   \<and> firstMatch (\<lambda>e. xlsxFill_Equals e grayFill) (xlsxFills.Fill (Fills freshSheet)) 1
   \<and> addFill freshSheet grayFill = (1, freshSheet)
   \<and> xlsxFill_Equals (themedFill 1) (themedFill 2)
   \<and> addFill (snd (addFill freshSheet (themedFill 1))) (themedFill 2)
      = addFill freshSheet (themedFill 1)
   \<and> \<not> (\<exists>e\<in>set (xlsxBorders.Border (Borders freshSheet)).
         xlsxBorder_Equals e (thinBorder ''FF000000''))
   \<and> fst (addBorder freshSheet (thinBorder ''FF000000'')) = 1
   \<and> xlsxBorders.Border (Borders (snd (addBorder freshSheet (thinBorder ''FF000000''))))
      = xlsxBorders.Border (Borders freshSheet) @ [thinBorder ''FF000000'']
   \<and> addBorder (snd (addBorder freshSheet (thinBorder ''FF000000''))) (thinBorder ''FF000000'')
      = addBorder freshSheet (thinBorder ''FF000000'')
   \<and> firstMatch (\<lambda>e. xlsxXf_Equals e (zero_xlsxXf\<lparr>ApplyNumberFormat := True\<rparr>))
        (xlsxCellXfs.Xf (CellXfs freshSheet)) 0
   \<and> addCellXf freshSheet (zero_xlsxXf\<lparr>ApplyNumberFormat := True\<rparr>) = (0, freshSheet)
   \<and> xlsxXf_Equals (zero_xlsxXf\<lparr>FontId := 1\<rparr>) (zero_xlsxXf\<lparr>FontId := 1, ApplyNumberFormat := True\<rparr>)
   \<and> addCellXf (snd (addCellXf freshSheet (zero_xlsxXf\<lparr>FontId := 1\<rparr>)))
        (zero_xlsxXf\<lparr>FontId := 1, ApplyNumberFormat := True\<rparr>)
      = addCellXf freshSheet (zero_xlsxXf\<lparr>FontId := 1\<rparr>)
   \<and> CellStyleXfs (newXlsxStyleSheet None) = None
   \<and> addCellStyleXf (newXlsxStyleSheet None) (zero_xlsxXf\<lparr>FontId := 1\<rparr>)
      = (0, (newXlsxStyleSheet None)\<lparr>CellStyleXfs :=
            Some \<lparr>xlsxCellStyleXfs.Count = 1, xlsxCellStyleXfs.Xf = [zero_xlsxXf\<lparr>FontId := 1\<rparr>]\<rparr>\<rparr>)
   \<and> addCellStyleXf (snd (addCellStyleXf freshSheet (zero_xlsxXf\<lparr>FontId := 1\<rparr>)))
        (zero_xlsxXf\<lparr>FontId := 1, ApplyNumberFormat := True\<rparr>)
      = addCellStyleXf freshSheet (zero_xlsxXf\<lparr>FontId := 1\<rparr>)"
proof -
  have name: "Val (xlsxFont.Name (arialFont ''12'' None)) \<noteq> ''''"
    by (simp add: arialFont_def)
  have new_font:
    "\<forall>e\<in>set (xlsxFonts.Font (Fonts freshSheet)). \<not> xlsxFont_Equals e (arialFont ''12'' None)"
    by code_simp
  have count: "xlsxFonts.Count (Fonts freshSheet) = 1"
    by code_simp
  have e1: "xlsxFont_Equals (arialFont ''12'' None) (arialFont ''12'' (Some \<lparr>Val = ''minor''\<rparr>))"
    by (simp add: xlsxFont_Equals_iff arialFont_def)
  have gray: "firstMatch (\<lambda>e. xlsxFill_Equals e grayFill) (xlsxFills.Fill (Fills freshSheet)) 1"
    by code_simp
  have e2: "xlsxFill_Equals (themedFill 1) (themedFill 2)"
    by (simp add: xlsxFill_Equals_def xlsxPatternFill_Equals_def xlsxColor_Equals_def
        themedFill_def zero_xlsxColor_def)
  have new_border: "\<forall>e\<in>set (xlsxBorders.Border (Borders freshSheet)).
      \<not> xlsxBorder_Equals e (thinBorder ''FF000000'')"
    by code_simp
  have borders: "xlsxBorders.Count (Borders freshSheet) = 1"
    by code_simp
  have e3: "xlsxBorder_Equals (thinBorder ''FF000000'') (thinBorder ''FF000000'')"
    by (rule xlsxBorder_Equals_refl)
  have zero: "firstMatch (\<lambda>e. xlsxXf_Equals e (zero_xlsxXf\<lparr>ApplyNumberFormat := True\<rparr>))
        (xlsxCellXfs.Xf (CellXfs freshSheet)) 0"
    by code_simp
  have e4: "xlsxXf_Equals (zero_xlsxXf\<lparr>FontId := 1\<rparr>) (zero_xlsxXf\<lparr>FontId := 1, ApplyNumberFormat := True\<rparr>)"
    by (simp add: xlsxXf_Equals_iff xlsxAlignment_Equals_def)
  have nil: "CellStyleXfs (newXlsxStyleSheet None) = None"
    by (simp add: newXlsxStyleSheet_def)
  have font_new: "addFont freshSheet (arialFont ''12'' None)
      = (1, freshSheet\<lparr>Fonts := (Fonts freshSheet)
              \<lparr>xlsxFonts.Count := 2,
               xlsxFonts.Font := xlsxFonts.Font (Fonts freshSheet) @ [arialFont ''12'' None]\<rparr>\<rparr>)"
    using add_interning [where styles = freshSheet and font = "arialFont ''12'' None",
        THEN conjunct2, THEN conjunct2, THEN conjunct1, THEN mp, OF conjI [OF name new_font]]
    by (simp add: count)
  have font_twice:
    "addFont (snd (addFont freshSheet (arialFont ''12'' None)))
        (arialFont ''12'' (Some \<lparr>Val = ''minor''\<rparr>))
      = addFont freshSheet (arialFont ''12'' None)"
    using add_interning [where styles = freshSheet and font = "arialFont ''12'' None"
        and font' = "arialFont ''12'' (Some \<lparr>Val = ''minor''\<rparr>)",
        THEN conjunct2, THEN conjunct2, THEN conjunct2, THEN conjunct2, THEN conjunct2,
        THEN conjunct2, THEN conjunct2, THEN conjunct2, THEN conjunct2, THEN conjunct2,
        THEN conjunct2, THEN conjunct2, THEN mp, OF freshSheet_consistent,
        THEN conjunct1, THEN mp, OF e1] .
  have fill_hit: "addFill freshSheet grayFill = (1, freshSheet)"
    using add_interning [where styles = freshSheet and fill = grayFill and ?i2.0 = 1,
        THEN conjunct2, THEN conjunct2, THEN conjunct2, THEN conjunct1, THEN mp, OF gray]
    by simp
  have fill_twice: "addFill (snd (addFill freshSheet (themedFill 1))) (themedFill 2)
      = addFill freshSheet (themedFill 1)"
    using add_interning [where styles = freshSheet and fill = "themedFill 1" and fill' = "themedFill 2",
        THEN conjunct2, THEN conjunct2, THEN conjunct2, THEN conjunct2, THEN conjunct2,
        THEN conjunct2, THEN conjunct2, THEN conjunct2, THEN conjunct2, THEN conjunct2,
        THEN conjunct2, THEN conjunct2, THEN mp, OF freshSheet_consistent,
        THEN conjunct2, THEN conjunct2, THEN conjunct1, THEN mp, OF e2] .
  have border_new:
    "fst (addBorder freshSheet (thinBorder ''FF000000'')) = 1
     \<and> xlsxBorders.Border (Borders (snd (addBorder freshSheet (thinBorder ''FF000000''))))
       = xlsxBorders.Border (Borders freshSheet) @ [thinBorder ''FF000000'']"
    using add_interning [where styles = freshSheet and border = "thinBorder ''FF000000''",
        THEN conjunct2, THEN conjunct2, THEN conjunct2, THEN conjunct2, THEN conjunct2,
        THEN conjunct2, THEN conjunct1, THEN mp, OF new_border]
    by (simp add: borders)
  have border_twice:
    "addBorder (snd (addBorder freshSheet (thinBorder ''FF000000''))) (thinBorder ''FF000000'')
      = addBorder freshSheet (thinBorder ''FF000000'')"
    using add_interning [where styles = freshSheet and border = "thinBorder ''FF000000''" and border' = "thinBorder ''FF000000''",
        THEN conjunct2, THEN conjunct2, THEN conjunct2, THEN conjunct2, THEN conjunct2,
        THEN conjunct2, THEN conjunct2, THEN conjunct2, THEN conjunct2, THEN conjunct2,
        THEN conjunct2, THEN conjunct2, THEN mp, OF freshSheet_consistent,
        THEN conjunct2, THEN conjunct2, THEN conjunct2, THEN conjunct2, THEN conjunct1,
        THEN mp, OF e3] .
  have xf_hit: "addCellXf freshSheet (zero_xlsxXf\<lparr>ApplyNumberFormat := True\<rparr>) = (0, freshSheet)"
    using add_interning [where styles = freshSheet
        and xf = "zero_xlsxXf\<lparr>ApplyNumberFormat := True\<rparr>" and ?i4.0 = 0,
        THEN conjunct2, THEN conjunct2, THEN conjunct2, THEN conjunct2, THEN conjunct2,
        THEN conjunct2, THEN conjunct2, THEN conjunct1, THEN mp, OF zero]
    by simp
  have xf_twice:
    "addCellXf (snd (addCellXf freshSheet (zero_xlsxXf\<lparr>FontId := 1\<rparr>)))
        (zero_xlsxXf\<lparr>FontId := 1, ApplyNumberFormat := True\<rparr>)
      = addCellXf freshSheet (zero_xlsxXf\<lparr>FontId := 1\<rparr>)"
    using add_interning [where styles = freshSheet and xf = "zero_xlsxXf\<lparr>FontId := 1\<rparr>"
        and xf' = "zero_xlsxXf\<lparr>FontId := 1, ApplyNumberFormat := True\<rparr>",
        THEN conjunct2, THEN conjunct2, THEN conjunct2, THEN conjunct2, THEN conjunct2,
        THEN conjunct2, THEN conjunct2, THEN conjunct2, THEN conjunct2, THEN conjunct2,
        THEN conjunct2, THEN conjunct2, THEN mp, OF freshSheet_consistent,
        THEN conjunct2, THEN conjunct2, THEN conjunct2, THEN conjunct2, THEN conjunct2,
        THEN conjunct2, THEN conjunct1, THEN mp, OF e4] .
  have sxf_twice:
    "addCellStyleXf (snd (addCellStyleXf freshSheet (zero_xlsxXf\<lparr>FontId := 1\<rparr>)))
        (zero_xlsxXf\<lparr>FontId := 1, ApplyNumberFormat := True\<rparr>)
      = addCellStyleXf freshSheet (zero_xlsxXf\<lparr>FontId := 1\<rparr>)"
    using add_interning [where styles = freshSheet and sxf = "zero_xlsxXf\<lparr>FontId := 1\<rparr>"
        and sxf' = "zero_xlsxXf\<lparr>FontId := 1, ApplyNumberFormat := True\<rparr>",
        THEN conjunct2, THEN conjunct2, THEN conjunct2, THEN conjunct2, THEN conjunct2,
        THEN conjunct2, THEN conjunct2, THEN conjunct2, THEN conjunct2, THEN conjunct2,
        THEN conjunct2, THEN conjunct2, THEN mp, OF freshSheet_consistent,
        THEN conjunct2, THEN conjunct2, THEN conjunct2, THEN conjunct2, THEN conjunct2,
        THEN conjunct2, THEN conjunct2, THEN conjunct2, THEN conjunct1, THEN mp, OF e4] .
  have sxf_nil: "addCellStyleXf (newXlsxStyleSheet None) (zero_xlsxXf\<lparr>FontId := 1\<rparr>)
      = (0, (newXlsxStyleSheet None)\<lparr>CellStyleXfs :=
            Some \<lparr>xlsxCellStyleXfs.Count = 1, xlsxCellStyleXfs.Xf = [zero_xlsxXf\<lparr>FontId := 1\<rparr>]\<rparr>\<rparr>)"
    using add_interning [where styles = "newXlsxStyleSheet None"
        and sxf = "zero_xlsxXf\<lparr>FontId := 1\<rparr>", THEN conjunct2, THEN conjunct2,
        THEN conjunct2, THEN conjunct2, THEN conjunct2, THEN conjunct2, THEN conjunct2,
        THEN conjunct2, THEN conjunct2, THEN conjunct2, THEN conjunct2, THEN conjunct1, THEN mp,
        OF nil] .
  have no_font:
    "\<not> (\<exists>e\<in>set (xlsxFonts.Font (Fonts freshSheet)). xlsxFont_Equals e (arialFont ''12'' None))"
    using new_font by blast
  have no_border: "\<not> (\<exists>e\<in>set (xlsxBorders.Border (Borders freshSheet)).
      xlsxBorder_Equals e (thinBorder ''FF000000''))"
    using new_border by blast
  show ?thesis
    by (intro conjI freshSheet_consistent name no_font font_new e1 font_twice gray fill_hit e2
        fill_twice no_border border_new [THEN conjunct1] border_new [THEN conjunct2] border_twice
        zero xf_hit e4 xf_twice nil sxf_nil sxf_twice)
qed

text \<open>
  Claim C1 as stated fails twice.  A fill that differs from the only fill of the table in
  the theme of its foreground colour is field-by-field equal to no entry, yet \<open>addFill\<close>
  returns the index of that entry and appends nothing.  A font with an empty name is
  equal to no entry of an empty table, yet \<open>addFont\<close> returns 0 and appends nothing.
\<close>

theorem add_interning_counterexample:
  "themedFill 2 \<notin> set (xlsxFills.Fill (Fills (snd (addFill (newXlsxStyleSheet None) (themedFill 1)))))
   \<and> addFill (snd (addFill (newXlsxStyleSheet None) (themedFill 1))) (themedFill 2)
      = (0, snd (addFill (newXlsxStyleSheet None) (themedFill 1)))
   \<and> namelessFont \<notin> set (xlsxFonts.Font (Fonts (newXlsxStyleSheet None)))
   \<and> addFont (newXlsxStyleSheet None) namelessFont = (0, newXlsxStyleSheet None)"
  by code_simp

text \<open>
  Claim C10.  A font whose name is empty is given index 0 at once: the table is neither
  scanned nor extended, whatever it holds, and the style sheet is returned as it was.
\<close>

theorem addFont_empty_name:
  "Val (xlsxFont.Name xFont) = '''' \<Longrightarrow> addFont styles xFont = (0, styles)"
  by (simp add: addFont_def)

theorem addFont_empty_name_witness:
  "Val (xlsxFont.Name namelessFont) = ''''
   \<and> addFont (newXlsxStyleSheet None) namelessFont = (0, newXlsxStyleSheet None)
   \<and> xlsxFonts.Font (Fonts (newXlsxStyleSheet None)) = []
   \<and> addFont freshSheet namelessFont = (0, freshSheet)
   \<and> index_at (xlsxFonts.Font (Fonts freshSheet)) 0 \<noteq> Inr namelessFont"
proof -
  have n: "Val (xlsxFont.Name namelessFont) = ''''"
    by (simp add: namelessFont_def zero_xlsxVal_def)
  have t: "xlsxFonts.Font (Fonts (newXlsxStyleSheet None)) = []"
    by (simp add: newXlsxStyleSheet_def)
  have d: "index_at (xlsxFonts.Font (Fonts freshSheet)) 0 \<noteq> Inr namelessFont"
    by code_simp
  show ?thesis
    using addFont_empty_name[OF n, of "newXlsxStyleSheet None"]
      addFont_empty_name[OF n, of freshSheet] n t d
    by simp
qed

section \<open>Properties of style resolution\<close>

lemma bindE_Inl [simp]: "bindE (Inl e) f = Inl e"
  by (simp add: bindE_def)

lemma bindE_Inr [simp]: "bindE (Inr x) f = f x"
  by (simp add: bindE_def)

lemma bindE_eq_Inr: "bindE m f = Inr r \<longleftrightarrow> (\<exists>x. m = Inr x \<and> f x = Inr r)"
  by (cases m) simp_all

lemma populateBorder_oob:
  "\<not> (BorderId xf > -1 \<and> BorderId xf < xlsxBorders.Count (Borders styles))
   \<Longrightarrow> populateBorder styles xf sty = Inr sty"
  by (auto simp: populateBorder_def)

lemma populateFill_oob:
  "\<not> (FillId xf > -1 \<and> FillId xf < xlsxFills.Count (Fills styles))
   \<Longrightarrow> populateFill E styles xf sty = Inr sty"
  by (auto simp: populateFill_def)

lemma populateFont_oob:
  "\<not> (FontId xf > -1 \<and> FontId xf < xlsxFonts.Count (Fonts styles))
   \<Longrightarrow> populateFont E styles xf sty = Inr sty"
  by (auto simp: populateFont_def)

lemma populateBorder_keeps:
  "populateBorder styles xf sty = Inr r \<Longrightarrow>
     Style.Fill r = Style.Fill sty \<and> Style.Font r = Style.Font sty
     \<and> Style.Alignment r = Style.Alignment sty
     \<and> Style.ApplyBorder r = Style.ApplyBorder sty \<and> Style.ApplyFill r = Style.ApplyFill sty
     \<and> Style.ApplyFont r = Style.ApplyFont sty \<and> Style.ApplyAlignment r = Style.ApplyAlignment sty
     \<and> NamedStyleIndex r = NamedStyleIndex sty"
  by (auto simp: populateBorder_def bindE_eq_Inr split: if_splits)

lemma populateFill_keeps:
  "populateFill E styles xf sty = Inr r \<Longrightarrow>
     Style.Border r = Style.Border sty \<and> Style.Font r = Style.Font sty
     \<and> Style.Alignment r = Style.Alignment sty
     \<and> Style.ApplyBorder r = Style.ApplyBorder sty \<and> Style.ApplyFill r = Style.ApplyFill sty
     \<and> Style.ApplyFont r = Style.ApplyFont sty \<and> Style.ApplyAlignment r = Style.ApplyAlignment sty
     \<and> NamedStyleIndex r = NamedStyleIndex sty"
  by (auto simp: populateFill_def bindE_eq_Inr split: if_splits)

lemma populateFont_keeps:
  "populateFont E styles xf sty = Inr r \<Longrightarrow>
     Style.Border r = Style.Border sty \<and> Style.Fill r = Style.Fill sty
     \<and> Style.Alignment r = Style.Alignment sty
     \<and> Style.ApplyBorder r = Style.ApplyBorder sty \<and> Style.ApplyFill r = Style.ApplyFill sty
     \<and> Style.ApplyFont r = Style.ApplyFont sty \<and> Style.ApplyAlignment r = Style.ApplyAlignment sty
     \<and> NamedStyleIndex r = NamedStyleIndex sty"
  by (auto simp: populateFont_def bindE_eq_Inr split: if_splits)

lemma populateAlignment_keeps:
  "Style.Border (populateAlignment xf sty) = Style.Border sty"
  "Style.Fill (populateAlignment xf sty) = Style.Fill sty"
  "Style.Font (populateAlignment xf sty) = Style.Font sty"
  "Style.ApplyBorder (populateAlignment xf sty) = Style.ApplyBorder sty"
  "Style.ApplyFill (populateAlignment xf sty) = Style.ApplyFill sty"
  "Style.ApplyFont (populateAlignment xf sty) = Style.ApplyFont sty"
  "Style.ApplyAlignment (populateAlignment xf sty) = Style.ApplyAlignment sty"
  "NamedStyleIndex (populateAlignment xf sty) = NamedStyleIndex sty"
  by (simp_all add: populateAlignment_def Let_def)

lemma populateAlignment_vertical:
  "Alignment.Vertical (Style.Alignment sty) = ''''
   \<Longrightarrow> Alignment.Vertical (Style.Alignment (populateAlignment xf sty))
       = xlsxAlignment.Vertical (xlsxXf.Alignment xf)"
  by (simp add: populateAlignment_def Let_def)

lemma populateStyleFromXf_steps:
  assumes "populateStyleFromXf E styles sty xf = Inr r"
  obtains s1 s2 s3 where
    "populateBorder styles xf
       (sty\<lparr>Style.ApplyBorder := xlsxXf.ApplyBorder xf, Style.ApplyFill := xlsxXf.ApplyFill xf,
              Style.ApplyFont := xlsxXf.ApplyFont xf,
              Style.ApplyAlignment := xlsxXf.ApplyAlignment xf\<rparr>) = Inr s1"
    "populateFill E styles xf s1 = Inr s2"
    "populateFont E styles xf s2 = Inr s3"
    "r = populateAlignment xf s3"
  using assms unfolding populateStyleFromXf_def bindE_eq_Inr by auto

lemma populate_border_unchanged:
  assumes "\<not> (BorderId xf > -1 \<and> BorderId xf < xlsxBorders.Count (Borders styles))"
    and "populateStyleFromXf E styles sty xf = Inr r"
  shows "Style.Border r = Style.Border sty"
proof -
  from assms(2) obtain s1 s2 s3 where
    st: "populateBorder styles xf
       (sty\<lparr>Style.ApplyBorder := xlsxXf.ApplyBorder xf, Style.ApplyFill := xlsxXf.ApplyFill xf,
              Style.ApplyFont := xlsxXf.ApplyFont xf,
              Style.ApplyAlignment := xlsxXf.ApplyAlignment xf\<rparr>) = Inr s1"
    "populateFill E styles xf s1 = Inr s2"
    "populateFont E styles xf s2 = Inr s3"
    "r = populateAlignment xf s3"
    by (rule populateStyleFromXf_steps)
  from st(1) have "Style.Border s1 = Style.Border sty"
    unfolding populateBorder_oob[OF assms(1)] by auto
  with populateFill_keeps[OF st(2)] populateFont_keeps[OF st(3)] st(4)
  show ?thesis by (simp add: populateAlignment_keeps)
qed

lemma populate_fill_unchanged:
  assumes "\<not> (FillId xf > -1 \<and> FillId xf < xlsxFills.Count (Fills styles))"
    and "populateStyleFromXf E styles sty xf = Inr r"
  shows "Style.Fill r = Style.Fill sty"
proof -
  from assms(2) obtain s1 s2 s3 where
    st: "populateBorder styles xf
       (sty\<lparr>Style.ApplyBorder := xlsxXf.ApplyBorder xf, Style.ApplyFill := xlsxXf.ApplyFill xf,
              Style.ApplyFont := xlsxXf.ApplyFont xf,
              Style.ApplyAlignment := xlsxXf.ApplyAlignment xf\<rparr>) = Inr s1"
    "populateFill E styles xf s1 = Inr s2"
    "populateFont E styles xf s2 = Inr s3"
    "r = populateAlignment xf s3"
    by (rule populateStyleFromXf_steps)
  from st(2) have "s2 = s1"
    unfolding populateFill_oob[OF assms(1)] by simp
  with populateBorder_keeps[OF st(1)] populateFont_keeps[OF st(3)] st(4)
  show ?thesis by (simp add: populateAlignment_keeps)
qed

lemma populate_font_unchanged:
  assumes "\<not> (FontId xf > -1 \<and> FontId xf < xlsxFonts.Count (Fonts styles))"
    and "populateStyleFromXf E styles sty xf = Inr r"
  shows "Style.Font r = Style.Font sty"
proof -
  from assms(2) obtain s1 s2 s3 where
    st: "populateBorder styles xf
       (sty\<lparr>Style.ApplyBorder := xlsxXf.ApplyBorder xf, Style.ApplyFill := xlsxXf.ApplyFill xf,
              Style.ApplyFont := xlsxXf.ApplyFont xf,
              Style.ApplyAlignment := xlsxXf.ApplyAlignment xf\<rparr>) = Inr s1"
    "populateFill E styles xf s1 = Inr s2"
    "populateFont E styles xf s2 = Inr s3"
    "r = populateAlignment xf s3"
    by (rule populateStyleFromXf_steps)
  from st(3) have "s3 = s2"
    unfolding populateFont_oob[OF assms(1)] by simp
  with populateBorder_keeps[OF st(1)] populateFill_keeps[OF st(2)] st(4)
  show ?thesis by (simp add: populateAlignment_keeps)
qed

lemma populate_all_oob:
  assumes "\<not> (BorderId xf > -1 \<and> BorderId xf < xlsxBorders.Count (Borders styles))"
    and "\<not> (FillId xf > -1 \<and> FillId xf < xlsxFills.Count (Fills styles))"
    and "\<not> (FontId xf > -1 \<and> FontId xf < xlsxFonts.Count (Fonts styles))"
  shows "populateStyleFromXf E styles sty xf =
           Inr (populateAlignment xf
             (sty\<lparr>Style.ApplyBorder := xlsxXf.ApplyBorder xf, Style.ApplyFill := xlsxXf.ApplyFill xf,
                    Style.ApplyFont := xlsxXf.ApplyFont xf,
                    Style.ApplyAlignment := xlsxXf.ApplyAlignment xf\<rparr>))"
  unfolding populateStyleFromXf_def populateBorder_oob[OF assms(1)] populateFill_oob[OF assms(2)]
    populateFont_oob[OF assms(3)]
  by simp

lemma populate_from_zero:
  assumes "populateStyleFromXf E styles zero_Style xf = Inr s"
  shows "Style.ApplyBorder s = xlsxXf.ApplyBorder xf \<and> Style.ApplyFill s = xlsxXf.ApplyFill xf
       \<and> Style.ApplyFont s = xlsxXf.ApplyFont xf \<and> Style.ApplyAlignment s = xlsxXf.ApplyAlignment xf
       \<and> Alignment.Vertical (Style.Alignment s) = xlsxAlignment.Vertical (xlsxXf.Alignment xf)"
proof -
  from assms obtain s1 s2 s3 where
    st: "populateBorder styles xf
       (zero_Style\<lparr>Style.ApplyBorder := xlsxXf.ApplyBorder xf, Style.ApplyFill := xlsxXf.ApplyFill xf,
              Style.ApplyFont := xlsxXf.ApplyFont xf,
              Style.ApplyAlignment := xlsxXf.ApplyAlignment xf\<rparr>) = Inr s1"
    "populateFill E styles xf s1 = Inr s2"
    "populateFont E styles xf s2 = Inr s3"
    "s = populateAlignment xf s3"
    by (rule populateStyleFromXf_steps)
  have v: "Alignment.Vertical (Style.Alignment s3) = ''''"
    using populateBorder_keeps[OF st(1)] populateFill_keeps[OF st(2)] populateFont_keeps[OF st(3)]
    by (simp add: zero_Style_def)
  show ?thesis
    using populateBorder_keeps[OF st(1)] populateFill_keeps[OF st(2)] populateFont_keeps[OF st(3)]
      populateAlignment_vertical[OF v, of xf] st(4)
    by (simp add: populateAlignment_keeps)
qed

lemma getStyle_named:
  assumes miss: "cacheLookup styles styleIndex = None"
    and cache: "styleCache styles = Some c"
    and lo: "styleIndex > -1" and hi: "styleIndex < xlsxCellXfs.Count (CellXfs styles)"
    and xf: "index_at (xlsxCellXfs.Xf (CellXfs styles)) styleIndex = Inr xf"
    and id: "xlsxXf.XfId xf = Some xfId" and tab: "CellStyleXfs styles = Some sxfs"
    and named: "index_at (xlsxCellStyleXfs.Xf sxfs) xfId = Inr namedStyleXf"
    and pop: "populateStyleFromXf E styles zero_Style xf = Inr style1"
  shows "\<exists>sty styles'. getStyle E styles styleIndex = Inr (sty, styles')
       \<and> Style.ApplyBorder sty = (xlsxXf.ApplyBorder xf \<or> xlsxXf.ApplyBorder namedStyleXf)
       \<and> Style.ApplyFill sty = (xlsxXf.ApplyFill xf \<or> xlsxXf.ApplyFill namedStyleXf)
       \<and> Style.ApplyFont sty = (xlsxXf.ApplyFont xf \<or> xlsxXf.ApplyFont namedStyleXf)
       \<and> Style.ApplyAlignment sty = (xlsxXf.ApplyAlignment xf \<or> xlsxXf.ApplyAlignment namedStyleXf)
       \<and> NamedStyleIndex sty = Some xfId
       \<and> Alignment.Vertical (Style.Alignment sty) = xlsxAlignment.Vertical (xlsxXf.Alignment xf)"
proof -
  from named have inb: "xfId < int (length (xlsxCellStyleXfs.Xf sxfs))"
    by (simp add: index_at_def split: if_splits)
  from lo hi have pos: "0 < xlsxCellXfs.Count (CellXfs styles)" by linarith
  note z = populate_from_zero[OF pop]
  show ?thesis
    using miss cache lo hi pos xf id tab named pop inb z
    by (simp add: getStyle_def Let_def)
qed

lemma getStyle_twice:
  assumes "getStyle E styles i = Inr (sty, styles')"
  shows "getStyle E styles' i = Inr (sty, styles')"
proof (cases "cacheLookup styles i")
  case (Some s)
  with assms show ?thesis by (simp add: getStyle_def)
next
  case None
  show ?thesis
  proof (cases "i > -1 \<and> xlsxCellXfs.Count (CellXfs styles) > 0 \<and> i < xlsxCellXfs.Count (CellXfs styles)")
    case False
    with None assms have "styles' = styles" "sty = zero_Style"
      by (auto simp: getStyle_def Let_def)
    with None False show ?thesis by (auto simp: getStyle_def Let_def)
  next
    case True
    with None assms obtain c where "styleCache styles = Some c"
      "styles' = styles\<lparr>styleCache := Some ((i, sty) # c)\<rparr>"
      by (auto simp: getStyle_def Let_def bindE_eq_Inr split: option.splits)
    then have "cacheLookup styles' i = Some sty" by (simp add: cacheLookup_def)
    then show ?thesis by (simp add: getStyle_def)
  qed
qed

lemma getStyle_populates:
  assumes "getStyle E styles i = Inr (sty, styles')"
    and "i > -1" "i < xlsxCellXfs.Count (CellXfs styles)"
  shows "cacheLookup styles' i = Some sty"
proof (cases "cacheLookup styles i")
  case (Some s)
  with assms show ?thesis by (simp add: getStyle_def)
next
  case None
  from assms(2,3) have "0 < xlsxCellXfs.Count (CellXfs styles)" by linarith
  with None assms obtain c where "styleCache styles = Some c"
    "styles' = styles\<lparr>styleCache := Some ((i, sty) # c)\<rparr>"
    by (auto simp: getStyle_def Let_def bindE_eq_Inr split: option.splits)
  then show ?thesis by (simp add: cacheLookup_def)
qed

lemma styleCache_addFont: "styleCache (snd (addFont styles v)) = styleCache styles"
  by (simp add: addFont_def split: option.splits)

lemma styleCache_addFill: "styleCache (snd (addFill styles v)) = styleCache styles"
  by (simp add: addFill_def split: option.splits)

lemma styleCache_addBorder: "styleCache (snd (addBorder styles v)) = styleCache styles"
  by (simp add: addBorder_def split: option.splits)

lemma styleCache_reset: "styleCache (reset styles) = styleCache styles"
  by (simp add: reset_def Let_def styleCache_addFont styleCache_addFill styleCache_addBorder)

lemma getStyle_after_reset:
  assumes "cacheLookup styles i = Some sty"
  shows "getStyle E (reset styles) i = Inr (sty, reset styles)"
proof -
  from assms have "cacheLookup (reset styles) i = Some sty"
    by (simp add: cacheLookup_def styleCache_reset)
  then show ?thesis by (simp add: getStyle_def)
qed

lemma succeeds_Inr_iff: "succeeds r \<longleftrightarrow> (\<exists>x. r = Inr x)"
  by (cases r) (simp_all add: succeeds_def)

lemma succeeds_simps [simp]: "succeeds (Inr x)" "\<not> succeeds (Inl e)"
  by (simp_all add: succeeds_def)

lemma index_at_ok:
  "0 \<le> i \<Longrightarrow> i < int (length xs) \<Longrightarrow> index_at xs i = Inr (xs ! nat i) \<and> xs ! nat i \<in> set xs"
  by (simp add: index_at_def)

lemma populateBorder_ok:
  assumes "countsConsistent styles"
  shows "\<exists>r. populateBorder styles xf sty = Inr r"
proof (cases "BorderId xf > -1 \<and> BorderId xf < xlsxBorders.Count (Borders styles)")
  case True
  with assms have "0 \<le> BorderId xf" "BorderId xf < int (length (xlsxBorders.Border (Borders styles)))"
    by (simp_all add: countsConsistent_def)
  from index_at_ok [OF this] True show ?thesis
    by (simp add: populateBorder_def)
next
  case False
  then show ?thesis
    by (simp add: populateBorder_oob)
qed

lemma populateFill_ok:
  assumes "countsConsistent styles" and "coloursResolve E styles"
  shows "\<exists>r. populateFill E styles xf sty = Inr r"
proof (cases "FillId xf > -1 \<and> FillId xf < xlsxFills.Count (Fills styles)")
  case True
  with assms(1) have "0 \<le> FillId xf" "FillId xf < int (length (xlsxFills.Fill (Fills styles)))"
    by (simp_all add: countsConsistent_def)
  from index_at_ok [OF this] obtain xFill
    where at: "index_at (xlsxFills.Fill (Fills styles)) (FillId xf) = Inr xFill"
      and mem: "xFill \<in> set (xlsxFills.Fill (Fills styles))"
    by blast
  from mem assms(2) obtain fg bg
    where "argbValue E styles (xlsxPatternFill.FgColor (PatternFill xFill)) = Inr fg"
      and "argbValue E styles (xlsxPatternFill.BgColor (PatternFill xFill)) = Inr bg"
    unfolding coloursResolve_def succeeds_Inr_iff by blast
  with True at show ?thesis
    by (simp add: populateFill_def)
next
  case False
  then show ?thesis
    by (simp add: populateFill_oob)
qed

lemma populateFont_ok:
  assumes "countsConsistent styles" and "coloursResolve E styles"
  shows "\<exists>r. populateFont E styles xf sty = Inr r"
proof (cases "FontId xf > -1 \<and> FontId xf < xlsxFonts.Count (Fonts styles)")
  case True
  with assms(1) have "0 \<le> FontId xf" "FontId xf < int (length (xlsxFonts.Font (Fonts styles)))"
    by (simp_all add: countsConsistent_def)
  from index_at_ok [OF this] obtain xfont
    where at: "index_at (xlsxFonts.Font (Fonts styles)) (FontId xf) = Inr xfont"
      and mem: "xfont \<in> set (xlsxFonts.Font (Fonts styles))"
    by blast
  from mem assms(2) obtain col
    where "argbValue E styles (xlsxFont.Color xfont) = Inr col"
    unfolding coloursResolve_def succeeds_Inr_iff by blast
  with True at show ?thesis
    by (simp add: populateFont_def)
next
  case False
  then show ?thesis
    by (simp add: populateFont_oob)
qed

lemma populateStyleFromXf_ok:
  assumes "countsConsistent styles" and "coloursResolve E styles"
  shows "\<exists>r. populateStyleFromXf E styles sty xf = Inr r"
proof -
  from populateBorder_ok [OF assms(1)] obtain s1 where
    "populateBorder styles xf
       (sty\<lparr>Style.ApplyBorder := xlsxXf.ApplyBorder xf, Style.ApplyFill := xlsxXf.ApplyFill xf,
              Style.ApplyFont := xlsxXf.ApplyFont xf,
              Style.ApplyAlignment := xlsxXf.ApplyAlignment xf\<rparr>) = Inr s1"
    by blast
  moreover from populateFill_ok [OF assms] obtain s2 where "populateFill E styles xf s1 = Inr s2"
    by blast
  moreover from populateFont_ok [OF assms] obtain s3 where "populateFont E styles xf s2 = Inr s3"
    by blast
  ultimately show ?thesis
    by (simp add: populateStyleFromXf_def)
qed

lemma getStyle_ok:
  assumes cc: "countsConsistent styles"
    and miss: "cacheLookup styles i = None" and cache: "styleCache styles \<noteq> None"
    and at: "index_at (xlsxCellXfs.Xf (CellXfs styles)) i = Inr xf"
    and id: "\<forall>n. xlsxXf.XfId xf = Some n \<longrightarrow> 0 \<le> n"
    and pop: "populateStyleFromXf E styles zero_Style xf = Inr s1"
  shows "\<exists>r styles'. getStyle E styles i = Inr (r, styles')
           \<and> Style.Border r = Style.Border s1 \<and> Style.Fill r = Style.Fill s1
           \<and> Style.Font r = Style.Font s1"
proof -
  from at have "0 \<le> i" "i < int (length (xlsxCellXfs.Xf (CellXfs styles)))"
    by (simp_all add: index_at_def split: if_splits)
  moreover from cc have "xlsxCellXfs.Count (CellXfs styles)
      = int (length (xlsxCellXfs.Xf (CellXfs styles)))"
    by (simp add: countsConsistent_def)
  ultimately have guard: "i > -1 \<and> xlsxCellXfs.Count (CellXfs styles) > 0
      \<and> i < xlsxCellXfs.Count (CellXfs styles)"
    by linarith
  from cache obtain c where c: "styleCache styles = Some c"
    by blast
  have "\<exists>s2. (case (xlsxXf.XfId xf, CellStyleXfs styles) of
            (Some xfId, Some sxfs) \<Rightarrow>
              if xfId < int (length (xlsxCellStyleXfs.Xf sxfs)) then
                bindE (index_at (xlsxCellStyleXfs.Xf sxfs) xfId) (\<lambda>namedStyleXf.
                  Inr (s1
                    \<lparr>NamedStyleIndex := Some xfId,
                     Style.ApplyBorder := Style.ApplyBorder s1 \<or> xlsxXf.ApplyBorder namedStyleXf,
                     Style.ApplyFill := Style.ApplyFill s1 \<or> xlsxXf.ApplyFill namedStyleXf,
                     Style.ApplyFont := Style.ApplyFont s1 \<or> xlsxXf.ApplyFont namedStyleXf,
                     Style.ApplyAlignment :=
                       Style.ApplyAlignment s1 \<or> xlsxXf.ApplyAlignment namedStyleXf\<rparr>))
              else Inr s1
          | _ \<Rightarrow> Inr s1) = Inr s2
        \<and> Style.Border s2 = Style.Border s1 \<and> Style.Fill s2 = Style.Fill s1
        \<and> Style.Font s2 = Style.Font s1"
  proof (cases "xlsxXf.XfId xf")
    case None
    then show ?thesis by simp
  next
    case (Some n)
    with id have n: "0 \<le> n" by simp
    show ?thesis
    proof (cases "CellStyleXfs styles")
      case None
      with Some show ?thesis by simp
    next
      case sx: (Some sxfs)
      show ?thesis
      proof (cases "n < int (length (xlsxCellStyleXfs.Xf sxfs))")
        case True
        from index_at_ok [OF n True] Some sx True show ?thesis
          by simp
      next
        case False
        with Some sx show ?thesis by simp
      qed
    qed
  qed
  then obtain s2 where named: "(case (xlsxXf.XfId xf, CellStyleXfs styles) of
            (Some xfId, Some sxfs) \<Rightarrow>
              if xfId < int (length (xlsxCellStyleXfs.Xf sxfs)) then
                bindE (index_at (xlsxCellStyleXfs.Xf sxfs) xfId) (\<lambda>namedStyleXf.
                  Inr (s1
                    \<lparr>NamedStyleIndex := Some xfId,
                     Style.ApplyBorder := Style.ApplyBorder s1 \<or> xlsxXf.ApplyBorder namedStyleXf,
                     Style.ApplyFill := Style.ApplyFill s1 \<or> xlsxXf.ApplyFill namedStyleXf,
                     Style.ApplyFont := Style.ApplyFont s1 \<or> xlsxXf.ApplyFont namedStyleXf,
                     Style.ApplyAlignment :=
                       Style.ApplyAlignment s1 \<or> xlsxXf.ApplyAlignment namedStyleXf\<rparr>))
              else Inr s1
          | _ \<Rightarrow> Inr s1) = Inr s2"
    and same: "Style.Border s2 = Style.Border s1" "Style.Fill s2 = Style.Fill s1"
      "Style.Font s2 = Style.Font s1"
    by blast
  show ?thesis
    unfolding getStyle_def miss option.case Let_def
    using guard at pop named same c
    by (simp add: Let_def)
qed

lemma populate_blocks:
  "(\<not> (BorderId xf > -1 \<and> BorderId xf < xlsxBorders.Count (Borders styles)) \<longrightarrow>
      populateBorder styles xf sty = Inr sty
      \<and> (\<forall>r. populateStyleFromXf E styles sty xf = Inr r \<longrightarrow> Style.Border r = Style.Border sty))
   \<and> (\<not> (FillId xf > -1 \<and> FillId xf < xlsxFills.Count (Fills styles)) \<longrightarrow>
      populateFill E styles xf sty = Inr sty
      \<and> (\<forall>r. populateStyleFromXf E styles sty xf = Inr r \<longrightarrow> Style.Fill r = Style.Fill sty))
   \<and> (\<not> (FontId xf > -1 \<and> FontId xf < xlsxFonts.Count (Fonts styles)) \<longrightarrow>
      populateFont E styles xf sty = Inr sty
      \<and> (\<forall>r. populateStyleFromXf E styles sty xf = Inr r \<longrightarrow> Style.Font r = Style.Font sty))
   \<and> (\<not> (BorderId xf > -1 \<and> BorderId xf < xlsxBorders.Count (Borders styles))
      \<and> \<not> (FillId xf > -1 \<and> FillId xf < xlsxFills.Count (Fills styles))
      \<and> \<not> (FontId xf > -1 \<and> FontId xf < xlsxFonts.Count (Fonts styles)) \<longrightarrow>
      (\<exists>r. populateStyleFromXf E styles sty xf = Inr r
           \<and> Style.Border r = Style.Border sty \<and> Style.Fill r = Style.Fill sty
           \<and> Style.Font r = Style.Font sty))"
proof (intro conjI impI allI)
  assume "\<not> (BorderId xf > -1 \<and> BorderId xf < xlsxBorders.Count (Borders styles))"
  then show "populateBorder styles xf sty = Inr sty" by (rule populateBorder_oob)
next
  fix r
  assume "\<not> (BorderId xf > -1 \<and> BorderId xf < xlsxBorders.Count (Borders styles))"
    and "populateStyleFromXf E styles sty xf = Inr r"
  then show "Style.Border r = Style.Border sty" by (rule populate_border_unchanged)
next
  assume "\<not> (FillId xf > -1 \<and> FillId xf < xlsxFills.Count (Fills styles))"
  then show "populateFill E styles xf sty = Inr sty" by (rule populateFill_oob)
next
  fix r
  assume "\<not> (FillId xf > -1 \<and> FillId xf < xlsxFills.Count (Fills styles))"
    and "populateStyleFromXf E styles sty xf = Inr r"
  then show "Style.Fill r = Style.Fill sty" by (rule populate_fill_unchanged)
next
  assume "\<not> (FontId xf > -1 \<and> FontId xf < xlsxFonts.Count (Fonts styles))"
  then show "populateFont E styles xf sty = Inr sty" by (rule populateFont_oob)
next
  fix r
  assume "\<not> (FontId xf > -1 \<and> FontId xf < xlsxFonts.Count (Fonts styles))"
    and "populateStyleFromXf E styles sty xf = Inr r"
  then show "Style.Font r = Style.Font sty" by (rule populate_font_unchanged)
next
  assume a: "\<not> (BorderId xf > -1 \<and> BorderId xf < xlsxBorders.Count (Borders styles))
      \<and> \<not> (FillId xf > -1 \<and> FillId xf < xlsxFills.Count (Fills styles))
      \<and> \<not> (FontId xf > -1 \<and> FontId xf < xlsxFonts.Count (Fonts styles))"
  then have "populateStyleFromXf E styles sty xf =
           Inr (populateAlignment xf
             (sty\<lparr>Style.ApplyBorder := xlsxXf.ApplyBorder xf, Style.ApplyFill := xlsxXf.ApplyFill xf,
                    Style.ApplyFont := xlsxXf.ApplyFont xf,
                    Style.ApplyAlignment := xlsxXf.ApplyAlignment xf\<rparr>))"
    by (intro populate_all_oob) simp_all
  then show "\<exists>r. populateStyleFromXf E styles sty xf = Inr r
           \<and> Style.Border r = Style.Border sty \<and> Style.Fill r = Style.Fill sty
           \<and> Style.Font r = Style.Font sty"
    by (simp add: populateAlignment_keeps)
qed

lemma populate_skips:
  assumes "countsConsistent styles" and "coloursResolve E styles"
  shows "\<exists>r. populateStyleFromXf E styles sty xf = Inr r
           \<and> (\<not> (BorderId xf > -1 \<and> BorderId xf < xlsxBorders.Count (Borders styles)) \<longrightarrow>
                Style.Border r = Style.Border sty)
           \<and> (\<not> (FillId xf > -1 \<and> FillId xf < xlsxFills.Count (Fills styles)) \<longrightarrow>
                Style.Fill r = Style.Fill sty)
           \<and> (\<not> (FontId xf > -1 \<and> FontId xf < xlsxFonts.Count (Fonts styles)) \<longrightarrow>
                Style.Font r = Style.Font sty)"
proof -
  from populateStyleFromXf_ok [OF assms] obtain r
    where r: "populateStyleFromXf E styles sty xf = Inr r"
    by blast
  with populate_border_unchanged [of xf styles E sty r] populate_fill_unchanged [of xf styles E sty r]
    populate_font_unchanged [of xf styles E sty r]
  show ?thesis
    by blast
qed

lemma getStyle_skips:
  assumes "countsConsistent styles" and "coloursResolve E styles"
    and "cacheLookup styles i = None" and "styleCache styles \<noteq> None"
    and "index_at (xlsxCellXfs.Xf (CellXfs styles)) i = Inr xf"
    and "\<forall>n. xlsxXf.XfId xf = Some n \<longrightarrow> 0 \<le> n"
  shows "\<exists>r styles'. getStyle E styles i = Inr (r, styles')
           \<and> (\<not> (BorderId xf > -1 \<and> BorderId xf < xlsxBorders.Count (Borders styles)) \<longrightarrow>
                Style.Border r = Style.Border zero_Style)
           \<and> (\<not> (FillId xf > -1 \<and> FillId xf < xlsxFills.Count (Fills styles)) \<longrightarrow>
                Style.Fill r = Style.Fill zero_Style)
           \<and> (\<not> (FontId xf > -1 \<and> FontId xf < xlsxFonts.Count (Fonts styles)) \<longrightarrow>
                Style.Font r = Style.Font zero_Style)"
proof -
  from populate_skips [OF assms(1,2), of zero_Style xf] obtain s1
    where pop: "populateStyleFromXf E styles zero_Style xf = Inr s1"
      and skips:
        "\<not> (BorderId xf > -1 \<and> BorderId xf < xlsxBorders.Count (Borders styles)) \<longrightarrow>
           Style.Border s1 = Style.Border zero_Style"
        "\<not> (FillId xf > -1 \<and> FillId xf < xlsxFills.Count (Fills styles)) \<longrightarrow>
           Style.Fill s1 = Style.Fill zero_Style"
        "\<not> (FontId xf > -1 \<and> FontId xf < xlsxFonts.Count (Fonts styles)) \<longrightarrow>
           Style.Font s1 = Style.Font zero_Style"
    by blast
  from getStyle_ok [OF assms(1,3,4,5,6) pop] obtain r styles'
    where "getStyle E styles i = Inr (r, styles')"
      and "Style.Border r = Style.Border s1" "Style.Fill r = Style.Fill s1"
      "Style.Font r = Style.Font s1"
    by blast
  with skips show ?thesis
    by simp
qed

text \<open>
  Claim C9, as the code has it.  A cell format whose \<open>borderId\<close>, \<open>fillId\<close> or \<open>fontId\<close> is
  negative or not below the \<open>Count\<close> of its table has that aspect skipped: the block of
  the aspect returns the style as it was, and whenever \<open>populateStyleFromXf\<close> returns a
  style, the border (fill, font) of that style is the one it started with.  Resolution
  returns a style when all three ids are out of bounds, and, whichever ids are, on a
  style sheet whose counts are the lengths of its tables and whose colours resolve;
  \<open>getStyle\<close> then returns, on a cache miss for the index of the cell format, a style
  whose skipped aspects have their defaults, provided the cache exists and the id of the
  named format, if there is one, is not negative.
\<close>

theorem populate_out_of_range:
  "(\<not> (BorderId xf > -1 \<and> BorderId xf < xlsxBorders.Count (Borders styles)) \<longrightarrow>
      populateBorder styles xf sty = Inr sty
      \<and> (\<forall>r. populateStyleFromXf E styles sty xf = Inr r \<longrightarrow> Style.Border r = Style.Border sty))
   \<and> (\<not> (FillId xf > -1 \<and> FillId xf < xlsxFills.Count (Fills styles)) \<longrightarrow>
      populateFill E styles xf sty = Inr sty
      \<and> (\<forall>r. populateStyleFromXf E styles sty xf = Inr r \<longrightarrow> Style.Fill r = Style.Fill sty))
   \<and> (\<not> (FontId xf > -1 \<and> FontId xf < xlsxFonts.Count (Fonts styles)) \<longrightarrow>
      populateFont E styles xf sty = Inr sty
      \<and> (\<forall>r. populateStyleFromXf E styles sty xf = Inr r \<longrightarrow> Style.Font r = Style.Font sty))
   \<and> (\<not> (BorderId xf > -1 \<and> BorderId xf < xlsxBorders.Count (Borders styles))
      \<and> \<not> (FillId xf > -1 \<and> FillId xf < xlsxFills.Count (Fills styles))
      \<and> \<not> (FontId xf > -1 \<and> FontId xf < xlsxFonts.Count (Fonts styles)) \<longrightarrow>
      (\<exists>r. populateStyleFromXf E styles sty xf = Inr r
           \<and> Style.Border r = Style.Border sty \<and> Style.Fill r = Style.Fill sty
           \<and> Style.Font r = Style.Font sty))
   \<and> (countsConsistent styles \<and> coloursResolve E styles \<longrightarrow>
      (\<exists>r. populateStyleFromXf E styles sty xf = Inr r
           \<and> (\<not> (BorderId xf > -1 \<and> BorderId xf < xlsxBorders.Count (Borders styles)) \<longrightarrow>
                Style.Border r = Style.Border sty)
           \<and> (\<not> (FillId xf > -1 \<and> FillId xf < xlsxFills.Count (Fills styles)) \<longrightarrow>
                Style.Fill r = Style.Fill sty)
           \<and> (\<not> (FontId xf > -1 \<and> FontId xf < xlsxFonts.Count (Fonts styles)) \<longrightarrow>
                Style.Font r = Style.Font sty)))
   \<and> (countsConsistent styles \<and> coloursResolve E styles
      \<and> cacheLookup styles i = None \<and> styleCache styles \<noteq> None
      \<and> index_at (xlsxCellXfs.Xf (CellXfs styles)) i = Inr xf
      \<and> (\<forall>n. xlsxXf.XfId xf = Some n \<longrightarrow> 0 \<le> n) \<longrightarrow>
      (\<exists>r styles'. getStyle E styles i = Inr (r, styles')
           \<and> (\<not> (BorderId xf > -1 \<and> BorderId xf < xlsxBorders.Count (Borders styles)) \<longrightarrow>
                Style.Border r = Style.Border zero_Style)
           \<and> (\<not> (FillId xf > -1 \<and> FillId xf < xlsxFills.Count (Fills styles)) \<longrightarrow>
                Style.Fill r = Style.Fill zero_Style)
           \<and> (\<not> (FontId xf > -1 \<and> FontId xf < xlsxFonts.Count (Fonts styles)) \<longrightarrow>
                Style.Font r = Style.Font zero_Style)))"
  (is "?a1 \<and> ?a2 \<and> ?a3 \<and> ?a4 \<and> ?b1 \<and> ?b2")
proof -
  have a: "?a1 \<and> ?a2 \<and> ?a3 \<and> ?a4"
    by (rule populate_blocks)
  have b1: ?b1
    using populate_skips [of styles E sty xf] by blast
  have b2: ?b2
    using getStyle_skips [of styles E i xf] by blast
  from a b1 b2 show ?thesis
    by (elim conjE) (intro conjI; assumption)
qed

text \<open>
  The scenario of the specification: the cell format with \<open>fontId = 5\<close> against a font
  table of size 3.  With every id out of bounds \<open>getStyle\<close> resolves it and every font
  field has its default; so it does on a reset sheet where the border and the fill of the
  cell format are resolved.
\<close>

theorem populate_out_of_range_witness:
  "xlsxFonts.Count (Fonts threeFontSheet) = 3
   \<and> length (xlsxFonts.Font (Fonts threeFontSheet)) = 3
   \<and> index_at (xlsxCellXfs.Xf (CellXfs threeFontSheet)) 0 = Inr fontId5
   \<and> FontId fontId5 = 5
   \<and> \<not> (FontId fontId5 > -1 \<and> FontId fontId5 < xlsxFonts.Count (Fonts threeFontSheet))
   \<and> \<not> (BorderId fontId5 > -1 \<and> BorderId fontId5 < xlsxBorders.Count (Borders threeFontSheet))
   \<and> \<not> (FillId fontId5 > -1 \<and> FillId fontId5 < xlsxFills.Count (Fills threeFontSheet))
   \<and> populateFont sampleExtern threeFontSheet fontId5 zero_Style = Inr zero_Style
   \<and> (\<exists>r. populateStyleFromXf sampleExtern threeFontSheet zero_Style fontId5 = Inr r
           \<and> Style.Border r = Style.Border zero_Style \<and> Style.Fill r = Style.Fill zero_Style
           \<and> Style.Font r = Style.Font zero_Style)
   \<and> map_sum id (\<lambda>p. Style.Font (fst p)) (getStyle sampleExtern threeFontSheet 0)
       = Inr (Style.Font zero_Style)
   \<and> countsConsistent threeFontReset \<and> coloursResolve sampleExtern threeFontReset
   \<and> xlsxFonts.Count (Fonts threeFontReset) = 3
   \<and> index_at (xlsxCellXfs.Xf (CellXfs threeFontReset)) 1 = Inr fontId5Only
   \<and> FontId fontId5Only = 5 \<and> BorderId fontId5Only = 0 \<and> FillId fontId5Only = 0
   \<and> (\<exists>r styles'. getStyle sampleExtern threeFontReset 1 = Inr (r, styles')
         \<and> Style.Font r = Style.Font zero_Style)
   \<and> map_sum id (\<lambda>p. (Style.Font (fst p), Fill.PatternType (Style.Fill (fst p))))
        (getStyle sampleExtern threeFontReset 1)
       = Inr (Style.Font zero_Style, ''none'')"
proof -
  have c: "xlsxFonts.Count (Fonts threeFontSheet) = 3"
    "length (xlsxFonts.Font (Fonts threeFontSheet)) = 3"
    "index_at (xlsxCellXfs.Xf (CellXfs threeFontSheet)) 0 = Inr fontId5"
    "FontId fontId5 = 5"
    by code_simp+
  have o: "\<not> (FontId fontId5 > -1 \<and> FontId fontId5 < xlsxFonts.Count (Fonts threeFontSheet))"
    "\<not> (BorderId fontId5 > -1 \<and> BorderId fontId5 < xlsxBorders.Count (Borders threeFontSheet))"
    "\<not> (FillId fontId5 > -1 \<and> FillId fontId5 < xlsxFills.Count (Fills threeFontSheet))"
    by code_simp+
  have g: "map_sum id (\<lambda>p. Style.Font (fst p)) (getStyle sampleExtern threeFontSheet 0)
       = Inr (Style.Font zero_Style)"
    by code_simp
  have r: "countsConsistent threeFontReset" "coloursResolve sampleExtern threeFontReset"
    "xlsxFonts.Count (Fonts threeFontReset) = 3"
    "index_at (xlsxCellXfs.Xf (CellXfs threeFontReset)) 1 = Inr fontId5Only"
    "FontId fontId5Only = 5" "BorderId fontId5Only = 0" "FillId fontId5Only = 0"
    by code_simp+
  have noId: "xlsxXf.XfId fontId5Only = None"
    by code_simp
  have m: "cacheLookup threeFontReset 1 = None" "styleCache threeFontReset \<noteq> None"
    "\<forall>n. xlsxXf.XfId fontId5Only = Some n \<longrightarrow> 0 \<le> n"
    "\<not> (FontId fontId5Only > -1 \<and> FontId fontId5Only < xlsxFonts.Count (Fonts threeFontReset))"
    by (code_simp, code_simp, simp add: noId, code_simp)
  have v: "map_sum id (\<lambda>p. (Style.Font (fst p), Fill.PatternType (Style.Fill (fst p))))
        (getStyle sampleExtern threeFontReset 1)
       = Inr (Style.Font zero_Style, ''none'')"
    by code_simp
  note old = populate_out_of_range [where xf = fontId5 and styles = threeFontSheet
      and sty = zero_Style and E = sampleExtern]
  have font: "populateFont sampleExtern threeFontSheet fontId5 zero_Style = Inr zero_Style"
    using old [THEN conjunct2, THEN conjunct2, THEN conjunct1, THEN mp, OF o(1), THEN conjunct1] .
  have all: "\<exists>r. populateStyleFromXf sampleExtern threeFontSheet zero_Style fontId5 = Inr r
           \<and> Style.Border r = Style.Border zero_Style \<and> Style.Fill r = Style.Fill zero_Style
           \<and> Style.Font r = Style.Font zero_Style"
    using old [THEN conjunct2, THEN conjunct2, THEN conjunct2, THEN conjunct1, THEN mp, OF conjI [OF o(2) conjI [OF o(3) o(1)]]] .
  have resolved: "\<exists>r styles'. getStyle sampleExtern threeFontReset 1 = Inr (r, styles')
         \<and> Style.Font r = Style.Font zero_Style"
    using populate_out_of_range [where xf = fontId5Only and styles = threeFontReset
        and E = sampleExtern and i = 1, THEN conjunct2, THEN conjunct2, THEN conjunct2, THEN conjunct2, THEN conjunct2, THEN mp,
        OF conjI [OF r(1) conjI [OF r(2) conjI [OF m(1) conjI [OF m(2) conjI [OF r(4) m(3)]]]]]]
      m(4)
    by blast
  show ?thesis
    by (intro conjI c o font all g r resolved v)
qed

text \<open>
  Claim C9 as stated fails: resolution need not succeed.  The ids are compared with the
  \<open>Count\<close> fields, and the slices are read without another test.  On a sheet whose table
  of borders claims one entry and holds none, the cell format with \<open>fontId = 5\<close> against
  three fonts has its border id 0 pass the comparison, and the read of the border
  panics.  On a sheet whose counts are the lengths of its tables, the cell format with
  \<open>fontId = 5\<close> against three fonts and the named format -1 makes \<open>getStyle\<close> panic on the
  read of the named format.
\<close>

theorem populate_out_of_range_counterexample:
  "xlsxFonts.Count (Fonts hollowSheet) = 3
   \<and> index_at (xlsxCellXfs.Xf (CellXfs hollowSheet)) 0 = Inr fontId5Only
   \<and> FontId fontId5Only = 5
   \<and> \<not> (FontId fontId5Only > -1 \<and> FontId fontId5Only < xlsxFonts.Count (Fonts hollowSheet))
   \<and> populateStyleFromXf sampleExtern hollowSheet zero_Style fontId5Only = Inl Panic
   \<and> getStyle sampleExtern hollowSheet 0 = Inl Panic
   \<and> countsConsistent minusSheet
   \<and> xlsxFonts.Count (Fonts minusSheet) = 3
   \<and> index_at (xlsxCellXfs.Xf (CellXfs minusSheet)) 2 = Inr fontId5Minus
   \<and> FontId fontId5Minus = 5 \<and> xlsxXf.XfId fontId5Minus = Some (- 1)
   \<and> getStyle sampleExtern minusSheet 2 = Inl Panic"
  by code_simp

text \<open>
  Claim C8, as the code has it.  On a cache miss, for an in-bounds style index whose cell
  format refers to a named format that is within the bounds of the table of named
  formats, and whose border, fill and font resolve without a panic, \<open>getStyle\<close> returns
  a style whose four apply-flags are the disjunction of the cell format's and the named
  format's flags, and which records the named format's index.  The vertical alignment of
  the style is always the cell format's own value, empty when that is absent: the
  alignment of the named format is never read.
\<close>

theorem getStyle_named_cascade:
  assumes "cacheLookup styles styleIndex = None"
    and "styleCache styles = Some c"
    and "styleIndex > -1" and "styleIndex < xlsxCellXfs.Count (CellXfs styles)"
    and "index_at (xlsxCellXfs.Xf (CellXfs styles)) styleIndex = Inr xf"
    and "xlsxXf.XfId xf = Some xfId" and "CellStyleXfs styles = Some sxfs"
    and "index_at (xlsxCellStyleXfs.Xf sxfs) xfId = Inr namedStyleXf"
    and "populateStyleFromXf E styles zero_Style xf = Inr style1"
  shows "\<exists>sty styles'. getStyle E styles styleIndex = Inr (sty, styles')
       \<and> Style.ApplyBorder sty = (xlsxXf.ApplyBorder xf \<or> xlsxXf.ApplyBorder namedStyleXf)
       \<and> Style.ApplyFill sty = (xlsxXf.ApplyFill xf \<or> xlsxXf.ApplyFill namedStyleXf)
       \<and> Style.ApplyFont sty = (xlsxXf.ApplyFont xf \<or> xlsxXf.ApplyFont namedStyleXf)
       \<and> Style.ApplyAlignment sty = (xlsxXf.ApplyAlignment xf \<or> xlsxXf.ApplyAlignment namedStyleXf)
       \<and> NamedStyleIndex sty = Some xfId
       \<and> Alignment.Vertical (Style.Alignment sty) = xlsxAlignment.Vertical (xlsxXf.Alignment xf)"
  using assms by (rule getStyle_named)

theorem getStyle_named_cascade_witness:
  "cacheLookup namedSheet 0 = None
   \<and> styleCache namedSheet = Some []
   \<and> index_at (xlsxCellXfs.Xf (CellXfs namedSheet)) 0 = Inr borderedXf
   \<and> xlsxXf.XfId borderedXf = Some 0
   \<and> index_at (styleXfTable namedSheet) 0 = Inr namedXf
   \<and> (\<exists>sty styles'. getStyle sampleExtern namedSheet 0 = Inr (sty, styles')
       \<and> Style.ApplyBorder sty = (xlsxXf.ApplyBorder borderedXf \<or> xlsxXf.ApplyBorder namedXf)
       \<and> Style.ApplyFill sty = (xlsxXf.ApplyFill borderedXf \<or> xlsxXf.ApplyFill namedXf)
       \<and> Style.ApplyFont sty = (xlsxXf.ApplyFont borderedXf \<or> xlsxXf.ApplyFont namedXf)
       \<and> Style.ApplyAlignment sty
            = (xlsxXf.ApplyAlignment borderedXf \<or> xlsxXf.ApplyAlignment namedXf)
       \<and> NamedStyleIndex sty = Some 0
       \<and> Alignment.Vertical (Style.Alignment sty)
            = xlsxAlignment.Vertical (xlsxXf.Alignment borderedXf))"
proof -
  have h: "cacheLookup namedSheet 0 = None" "styleCache namedSheet = Some []"
    "(0::int) > -1" "0 < xlsxCellXfs.Count (CellXfs namedSheet)"
    "index_at (xlsxCellXfs.Xf (CellXfs namedSheet)) 0 = Inr borderedXf"
    "xlsxXf.XfId borderedXf = Some 0"
    "CellStyleXfs namedSheet
       = Some \<lparr>xlsxCellStyleXfs.Count = 1, xlsxCellStyleXfs.Xf = [namedXf]\<rparr>"
    "index_at (xlsxCellStyleXfs.Xf \<lparr>xlsxCellStyleXfs.Count = 1, xlsxCellStyleXfs.Xf = [namedXf]\<rparr>) 0
       = Inr namedXf"
    "populateStyleFromXf sampleExtern namedSheet zero_Style borderedXf
       = Inr (zero_Style\<lparr>Style.ApplyBorder := True\<rparr>)"
    "index_at (styleXfTable namedSheet) 0 = Inr namedXf"
    by code_simp+
  show ?thesis
    using getStyle_named_cascade[OF h(1-9)] h by blast
qed

text \<open>
  Claim C8 as stated fails on its last part: the cell format has no vertical alignment,
  the named format it refers to is aligned to the top, and the resolved style has no
  vertical alignment.
\<close>

theorem getStyle_named_vertical_counterexample:
  "index_at (xlsxCellXfs.Xf (CellXfs namedSheet)) 0 = Inr borderedXf
   \<and> xlsxXf.XfId borderedXf = Some 0
   \<and> xlsxAlignment.Vertical (xlsxXf.Alignment borderedXf) = ''''
   \<and> index_at (styleXfTable namedSheet) 0 = Inr namedXf
   \<and> xlsxAlignment.Vertical (xlsxXf.Alignment namedXf) = ''top''
   \<and> map_sum id (\<lambda>p. Alignment.Vertical (Style.Alignment (fst p))) (getStyle sampleExtern namedSheet 0)
       = Inr ''''"
  by code_simp

text \<open>
  Claim C7, as the code has it.  A second \<open>getStyle\<close> of the same index on the style
  sheet left by the first returns the same style and leaves the sheet as it is; a
  successful call for an index within \<open>0 .. Count - 1\<close> of the cell formats leaves that
  style in the cache; and \<open>reset\<close> does not touch the cache, so that after \<open>reset\<close> a
  call for a cached index returns the cached style, not one computed from the tables
  \<open>reset\<close> has just rebuilt.
\<close>

theorem getStyle_cached:
  "(getStyle E styles i = Inr (sty, styles') \<longrightarrow> getStyle E styles' i = Inr (sty, styles'))
   \<and> (getStyle E styles i = Inr (sty, styles') \<and> i > -1 \<and> i < xlsxCellXfs.Count (CellXfs styles)
        \<longrightarrow> cacheLookup styles' i = Some sty)
   \<and> (cacheLookup styles i = Some sty \<longrightarrow> getStyle E (reset styles) i = Inr (sty, reset styles))"
  using getStyle_twice[of E styles i sty styles'] getStyle_populates[of E styles i sty styles']
    getStyle_after_reset[of styles i sty E]
  by blast

theorem getStyle_cached_witness:
  "getStyle sampleExtern namedSheet 0 = Inr (namedStyle, cachedNamedSheet)
   \<and> (0::int) > -1 \<and> 0 < xlsxCellXfs.Count (CellXfs namedSheet)
   \<and> getStyle sampleExtern cachedNamedSheet 0 = Inr (namedStyle, cachedNamedSheet)
   \<and> cacheLookup cachedNamedSheet 0 = Some namedStyle
   \<and> getStyle sampleExtern (reset cachedNamedSheet) 0 = Inr (namedStyle, reset cachedNamedSheet)"
proof -
  have h: "getStyle sampleExtern namedSheet 0 = Inr (namedStyle, cachedNamedSheet)"
    "(0::int) > -1" "0 < xlsxCellXfs.Count (CellXfs namedSheet)"
    by code_simp+
  show ?thesis
    using getStyle_cached[of sampleExtern namedSheet 0 namedStyle cachedNamedSheet]
      getStyle_cached[of sampleExtern cachedNamedSheet 0 namedStyle cachedNamedSheet] h
    by blast
qed

text \<open>
  Claim C7 as stated fails on its second part.  After \<open>reset\<close>, \<open>getStyle 0\<close> on the
  sheet that has the style of the bordered cell format in its cache still returns that
  style (border flag set, no font name), while the tables of the reset sheet resolve,
  once the cache is emptied by hand, to a style without the border flag and with the
  default font Arial.
\<close>

theorem getStyle_reset_counterexample:
  "cacheLookup cachedNamedSheet 0 = Some namedStyle
   \<and> map_sum id (\<lambda>p. (Style.ApplyBorder (fst p), Font.Name (Style.Font (fst p))))
        (getStyle sampleExtern (reset cachedNamedSheet) 0) = Inr (True, '''')
   \<and> map_sum id (\<lambda>p. (Style.ApplyBorder (fst p), Font.Name (Style.Font (fst p))))
        (getStyle sampleExtern ((reset cachedNamedSheet)\<lparr>styleCache := Some []\<rparr>) 0)
        = Inr (False, ''Arial'')"
  by code_simp

section \<open>Properties of number-format interning\<close>

declare allocNumFmtId.simps [simp del]

lemma allocNumFmtId_ge: "numFmtId \<le> allocNumFmtId tbl numFmtId"
proof (induction tbl numFmtId rule: allocNumFmtId.induct)
  case (1 tbl numFmtId)
  show ?case
  proof (cases "map_of tbl numFmtId \<noteq> None")
    case True
    with "1" have "numFmtId + 1 \<le> allocNumFmtId tbl (numFmtId + 1)" by simp
    with True show ?thesis by (subst allocNumFmtId.simps) simp
  next
    case False
    then show ?thesis by (subst allocNumFmtId.simps) simp
  qed
qed

lemma allocNumFmtId_unused: "map_of tbl (allocNumFmtId tbl numFmtId) = None"
proof (induction tbl numFmtId rule: allocNumFmtId.induct)
  case (1 tbl numFmtId)
  show ?case
  proof (cases "map_of tbl numFmtId \<noteq> None")
    case True
    with "1" show ?thesis by (subst allocNumFmtId.simps) simp
  next
    case False
    then show ?thesis by (subst allocNumFmtId.simps) simp
  qed
qed

lemma allocNumFmtId_least:
  "numFmtId \<le> k \<Longrightarrow> k < allocNumFmtId tbl numFmtId \<Longrightarrow> map_of tbl k \<noteq> None"
proof (induction tbl numFmtId rule: allocNumFmtId.induct)
  case (1 tbl numFmtId)
  show ?case
  proof (cases "map_of tbl numFmtId \<noteq> None")
    case True
    then have eq: "allocNumFmtId tbl numFmtId = allocNumFmtId tbl (numFmtId + 1)"
      by (subst allocNumFmtId.simps) simp
    show ?thesis
    proof (cases "k = numFmtId")
      case True
      with \<open>map_of tbl numFmtId \<noteq> None\<close> show ?thesis by simp
    next
      case False
      with "1.prems" have "numFmtId + 1 \<le> k" by simp
      with "1.IH"[OF True] "1.prems"(2) eq show ?thesis by simp
    qed
  next
    case False
    then have "allocNumFmtId tbl numFmtId = numFmtId" by (subst allocNumFmtId.simps) simp
    with "1.prems" show ?thesis by simp
  qed
qed

lemma map_of_swap_mem:
  "map_of (map (\<lambda>(k, v). (v, k)) xs) c = Some k \<Longrightarrow> (k, c) \<in> set xs"
  by (induction xs) (auto split: if_splits)

lemma builtInNumFmt_range: "(k, c) \<in> set builtInNumFmt \<Longrightarrow> 0 \<le> k \<and> k \<le> builtinNumFmtsCount"
proof -
  have "list_all (\<lambda>(k, c). 0 \<le> k \<and> k \<le> builtinNumFmtsCount) builtInNumFmt"
    by code_simp
  then show "(k, c) \<in> set builtInNumFmt \<Longrightarrow> 0 \<le> k \<and> k \<le> builtinNumFmtsCount"
    by (auto simp: list_all_iff)
qed

lemma builtInNumFmt_distinct: "distinct (map snd builtInNumFmt)"
  by code_simp

lemma find_append_new:
  "List.find p xs = None \<Longrightarrow> p v \<Longrightarrow> List.find p (xs @ [v]) = Some v"
  by (induction xs) (auto split: if_splits)

lemma find_Some_holds: "List.find p xs = Some x \<Longrightarrow> p x"
  by (induction xs) (auto split: if_splits)

lemma newNumFmt_general:
  "cmp code ''general'' \<Longrightarrow>
   newNumFmt cmp styles code = (\<lparr>xlsxNumFmt.NumFmtId = 0, FormatCode = ''general''\<rparr>, styles)"
  by (simp add: newNumFmt_def)

lemma newNumFmt_builtin:
  assumes "\<not> cmp code ''general''" and "map_of builtInNumFmtInv code = Some k"
  shows "newNumFmt cmp styles code = (\<lparr>xlsxNumFmt.NumFmtId = k, FormatCode = code\<rparr>, styles)
       \<and> 0 \<le> k \<and> k \<le> builtinNumFmtsCount \<and> (k, code) \<in> set builtInNumFmt"
proof -
  from assms(2) have "(k, code) \<in> set builtInNumFmt"
    unfolding builtInNumFmtInv_def by (rule map_of_swap_mem)
  with builtInNumFmt_range[OF this] assms show ?thesis
    by (simp add: newNumFmt_def)
qed

lemma newNumFmt_registered:
  assumes "\<not> cmp code ''general''" and "map_of builtInNumFmtInv code = None"
    and "registeredNumFmt styles code = Some nf"
  shows "newNumFmt cmp styles code = (nf, styles) \<and> FormatCode nf = code"
proof -
  from assms(3) have "FormatCode nf = code"
    by (auto simp: registeredNumFmt_def split: option.splits dest: find_Some_holds)
  with assms show ?thesis by (simp add: newNumFmt_def)
qed

lemma newNumFmt_fresh:
  assumes "\<not> cmp code ''general''" and "map_of builtInNumFmtInv code = None"
    and "registeredNumFmt styles code = None"
  defines "n \<equiv> allocNumFmtId (numFmtRefTable styles) (builtinNumFmtsCount + 1)"
  shows "fst (newNumFmt cmp styles code) = \<lparr>xlsxNumFmt.NumFmtId = n, FormatCode = code\<rparr>"
    and "snd (newNumFmt cmp styles code)
           = addNumFmt styles \<lparr>xlsxNumFmt.NumFmtId = n, FormatCode = code\<rparr>"
    and "164 \<le> n" and "map_of (numFmtRefTable styles) n = None"
    and "\<forall>k. 164 \<le> k \<and> k < n \<longrightarrow> map_of (numFmtRefTable styles) k \<noteq> None"
    and "registeredNumFmt (snd (newNumFmt cmp styles code)) code
           = Some \<lparr>xlsxNumFmt.NumFmtId = n, FormatCode = code\<rparr>"
    and "map_of (numFmtRefTable (snd (newNumFmt cmp styles code))) n
           = Some \<lparr>xlsxNumFmt.NumFmtId = n, FormatCode = code\<rparr>"
proof -
  show f: "fst (newNumFmt cmp styles code) = \<lparr>xlsxNumFmt.NumFmtId = n, FormatCode = code\<rparr>"
    using assms(1-3) by (simp add: newNumFmt_def n_def Let_def)
  show s: "snd (newNumFmt cmp styles code)
           = addNumFmt styles \<lparr>xlsxNumFmt.NumFmtId = n, FormatCode = code\<rparr>"
    using assms(1-3) by (simp add: newNumFmt_def n_def Let_def)
  show ge: "164 \<le> n"
    using allocNumFmtId_ge[of "builtinNumFmtsCount + 1" "numFmtRefTable styles"]
    by (simp add: n_def builtinNumFmtsCount_def)
  show un: "map_of (numFmtRefTable styles) n = None"
    unfolding n_def by (rule allocNumFmtId_unused)
  show "\<forall>k. 164 \<le> k \<and> k < n \<longrightarrow> map_of (numFmtRefTable styles) k \<noteq> None"
    using allocNumFmtId_least[of "builtinNumFmtsCount + 1" _ "numFmtRefTable styles"]
    by (simp add: n_def builtinNumFmtsCount_def)
  from ge have gt: "\<not> n \<le> builtinNumFmtsCount" by (simp add: builtinNumFmtsCount_def)
  show "registeredNumFmt (snd (newNumFmt cmp styles code)) code
           = Some \<lparr>xlsxNumFmt.NumFmtId = n, FormatCode = code\<rparr>"
    using assms(3) gt un unfolding s
    by (auto simp: addNumFmt_def registeredNumFmt_def Let_def find_append_new split: option.splits)
  show "map_of (numFmtRefTable (snd (newNumFmt cmp styles code))) n
           = Some \<lparr>xlsxNumFmt.NumFmtId = n, FormatCode = code\<rparr>"
    using gt un unfolding s by (simp add: addNumFmt_def Let_def)
qed

lemma addNumFmt_keeps_ok:
  assumes "customFormatsOk styles" and "map_of (numFmtRefTable styles) n = None"
    and "builtinNumFmtsCount < n"
  shows "customFormatsOk (addNumFmt styles \<lparr>xlsxNumFmt.NumFmtId = n, FormatCode = code\<rparr>)"
proof (cases "NumFmts styles")
  case None
  with assms show ?thesis
    by (simp add: customFormatsOk_def addNumFmt_def Let_def)
next
  case (Some nf)
  with assms(1) have
    a: "\<forall>x \<in> set (xlsxNumFmts.NumFmt nf). xlsxNumFmt.NumFmtId x > builtinNumFmtsCount
          \<and> map_of (numFmtRefTable styles) (xlsxNumFmt.NumFmtId x) \<noteq> None"
    and d: "distinct (map xlsxNumFmt.NumFmtId (xlsxNumFmts.NumFmt nf))"
    by (simp_all add: customFormatsOk_def)
  from a assms(2) have "n \<notin> xlsxNumFmt.NumFmtId ` set (xlsxNumFmts.NumFmt nf)" by auto
  with a d Some assms(2,3) show ?thesis
    by (auto simp: customFormatsOk_def addNumFmt_def Let_def)
qed

lemma newNumFmt_keeps_ok:
  assumes "customFormatsOk styles"
  shows "customFormatsOk (snd (newNumFmt cmp styles code))"
proof (cases "cmp code ''general''")
  case True
  with assms show ?thesis by (simp add: newNumFmt_def)
next
  case False
  show ?thesis
  proof (cases "map_of builtInNumFmtInv code")
    case (Some k)
    with False assms show ?thesis by (simp add: newNumFmt_def)
  next
    case None
    show ?thesis
    proof (cases "registeredNumFmt styles code")
      case (Some nf)
      with False None assms show ?thesis by (simp add: newNumFmt_def)
    next
      case reg: None
      from newNumFmt_fresh(2,3,4)[where cmp=cmp and code=code and styles=styles, OF False None reg]
        addNumFmt_keeps_ok[OF assms]
      show ?thesis by (simp add: builtinNumFmtsCount_def)
    qed
  qed
qed

lemma newNumFmt_again:
  "newNumFmt cmp (snd (newNumFmt cmp styles code)) code = newNumFmt cmp styles code"
proof (cases "cmp code ''general''")
  case True
  then show ?thesis by (simp add: newNumFmt_def)
next
  case False
  show ?thesis
  proof (cases "map_of builtInNumFmtInv code")
    case (Some k)
    with False show ?thesis by (simp add: newNumFmt_def)
  next
    case None
    show ?thesis
    proof (cases "registeredNumFmt styles code")
      case (Some nf)
      with False None show ?thesis by (simp add: newNumFmt_def)
    next
      case reg: None
      note fr = newNumFmt_fresh[where cmp=cmp and code=code and styles=styles, OF False None reg]
      have "newNumFmt cmp (snd (newNumFmt cmp styles code)) code
              = (fst (newNumFmt cmp styles code), snd (newNumFmt cmp styles code))"
        using False None fr(6) fr(1) by (simp add: newNumFmt_def)
      then show ?thesis by simp
    qed
  qed
qed

lemma registeredNumFmt_list:
  "registeredNumFmt styles code = List.find (\<lambda>numFmt. code = FormatCode numFmt) (numFmtList styles)"
  by (simp add: registeredNumFmt_def numFmtList_def split: option.splits)

lemma customFormatsOk_list:
  "customFormatsOk styles \<longleftrightarrow>
     (\<forall>x \<in> set (numFmtList styles).
         xlsxNumFmt.NumFmtId x > builtinNumFmtsCount
         \<and> map_of (numFmtRefTable styles) (xlsxNumFmt.NumFmtId x) \<noteq> None)
     \<and> distinct (map xlsxNumFmt.NumFmtId (numFmtList styles))"
  by (cases "NumFmts styles") (simp_all add: customFormatsOk_def numFmtList_def)

lemma find_append_keeps: "List.find p xs = Some x \<Longrightarrow> List.find p (xs @ ys) = Some x"
  by (induction xs) (auto split: if_splits)

lemma find_Some_mem: "List.find p xs = Some x \<Longrightarrow> x \<in> set xs"
  by (induction xs) (auto split: if_splits)

lemma addNumFmt_fresh:
  assumes "builtinNumFmtsCount < n" and "map_of (numFmtRefTable styles) n = None"
  shows "addNumFmt styles \<lparr>xlsxNumFmt.NumFmtId = n, FormatCode = code\<rparr>
     = styles
         \<lparr>NumFmts := Some
            \<lparr>xlsxNumFmts.Count =
               (case NumFmts styles of None \<Rightarrow> 0 | Some nf \<Rightarrow> xlsxNumFmts.Count nf) + 1,
             NumFmt = numFmtList styles @ [\<lparr>xlsxNumFmt.NumFmtId = n, FormatCode = code\<rparr>]\<rparr>,
          numFmtRefTable :=
            (n, \<lparr>xlsxNumFmt.NumFmtId = n, FormatCode = code\<rparr>) # numFmtRefTable styles\<rparr>"
  using assms by (cases "NumFmts styles") (simp_all add: addNumFmt_def numFmtList_def Let_def)

lemma newNumFmt_fresh_sheet:
  assumes "\<not> cmp code ''general''" and "map_of builtInNumFmtInv code = None"
    and "registeredNumFmt styles code = None"
  shows "snd (newNumFmt cmp styles code)
     = styles
         \<lparr>NumFmts := Some
            \<lparr>xlsxNumFmts.Count =
               (case NumFmts styles of None \<Rightarrow> 0 | Some nf \<Rightarrow> xlsxNumFmts.Count nf) + 1,
             NumFmt = numFmtList styles @ [fst (newNumFmt cmp styles code)]\<rparr>,
          numFmtRefTable :=
            (xlsxNumFmt.NumFmtId (fst (newNumFmt cmp styles code)), fst (newNumFmt cmp styles code))
              # numFmtRefTable styles\<rparr>"
proof -
  note fr = newNumFmt_fresh [where cmp = cmp and code = code and styles = styles, OF assms]
  from fr(3) have "builtinNumFmtsCount
      < allocNumFmtId (numFmtRefTable styles) (builtinNumFmtsCount + 1)"
    by (simp add: builtinNumFmtsCount_def)
  from addNumFmt_fresh [OF this fr(4), of code] show ?thesis
    by (simp add: fr(1) fr(2))
qed

lemma newNumFmt_extends:
  "\<exists>xs. numFmtList (snd (newNumFmt cmp styles code)) = numFmtList styles @ xs"
proof (cases "cmp code ''general''")
  case True
  then show ?thesis by (simp add: newNumFmt_def)
next
  case False
  show ?thesis
  proof (cases "map_of builtInNumFmtInv code")
    case (Some k)
    with False show ?thesis by (simp add: newNumFmt_def)
  next
    case None
    show ?thesis
    proof (cases "registeredNumFmt styles code")
      case (Some nf)
      with False None show ?thesis by (simp add: newNumFmt_def)
    next
      case reg: None
      show ?thesis
        unfolding newNumFmt_fresh_sheet [where cmp = cmp and code = code and styles = styles,
            OF False None reg] by (simp add: numFmtList_def)
    qed
  qed
qed

lemma newNumFmts_Nil [simp]: "newNumFmts cmp styles [] = styles"
  by (simp add: newNumFmts_def)

lemma newNumFmts_Cons [simp]:
  "newNumFmts cmp styles (code # codes) = newNumFmts cmp (snd (newNumFmt cmp styles code)) codes"
  by (simp add: newNumFmts_def)

lemma newNumFmts_extends:
  "\<exists>xs. numFmtList (newNumFmts cmp styles codes) = numFmtList styles @ xs"
proof (induction codes arbitrary: styles)
  case Nil
  show ?case by simp
next
  case (Cons code codes)
  from newNumFmt_extends [of cmp styles code] obtain xs
    where "numFmtList (snd (newNumFmt cmp styles code)) = numFmtList styles @ xs" ..
  moreover from Cons [of "snd (newNumFmt cmp styles code)"] obtain ys
    where "numFmtList (newNumFmts cmp (snd (newNumFmt cmp styles code)) codes)
        = numFmtList (snd (newNumFmt cmp styles code)) @ ys" ..
  ultimately show ?case by simp
qed

lemma registered_kept:
  assumes "registeredNumFmt styles code = Some nf"
  shows "registeredNumFmt (newNumFmts cmp styles codes) code = Some nf"
proof -
  from newNumFmts_extends [of cmp styles codes] obtain xs
    where "numFmtList (newNumFmts cmp styles codes) = numFmtList styles @ xs" ..
  with assms show ?thesis
    by (simp add: registeredNumFmt_list find_append_keeps)
qed

lemma newNumFmts_keeps_ok:
  "customFormatsOk styles \<Longrightarrow> customFormatsOk (newNumFmts cmp styles codes)"
  by (induction codes arbitrary: styles) (simp_all add: newNumFmt_keeps_ok)

lemma newNumFmt_custom:
  assumes "\<not> cmp code ''general''" and "map_of builtInNumFmtInv code = None"
  shows "registeredNumFmt (snd (newNumFmt cmp styles code)) code = Some (fst (newNumFmt cmp styles code))"
    and "FormatCode (fst (newNumFmt cmp styles code)) = code"
proof -
  show "registeredNumFmt (snd (newNumFmt cmp styles code)) code = Some (fst (newNumFmt cmp styles code))"
  proof (cases "registeredNumFmt styles code")
    case (Some nf)
    with assms show ?thesis by (simp add: newNumFmt_def)
  next
    case None
    note fr = newNumFmt_fresh [where cmp = cmp and code = code and styles = styles, OF assms None]
    from fr(6) show ?thesis by (simp add: fr(1))
  qed
  then show "FormatCode (fst (newNumFmt cmp styles code)) = code"
    by (auto simp: registeredNumFmt_list dest: find_Some_holds)
qed

lemma newNumFmt_stable:
  "fst (newNumFmt cmp (newNumFmts cmp (snd (newNumFmt cmp styles code)) codes) code)
   = fst (newNumFmt cmp styles code)"
proof (cases "cmp code ''general''")
  case True
  then show ?thesis by (simp add: newNumFmt_def)
next
  case False
  show ?thesis
  proof (cases "map_of builtInNumFmtInv code")
    case (Some k)
    with False show ?thesis by (simp add: newNumFmt_def)
  next
    case None
    from registered_kept [OF newNumFmt_custom(1)
        [where cmp = cmp and code = code and styles = styles, OF False None]]
    have "registeredNumFmt (newNumFmts cmp (snd (newNumFmt cmp styles code)) codes) code
        = Some (fst (newNumFmt cmp styles code))" .
    with False None show ?thesis
      by (simp add: newNumFmt_def)
  qed
qed

lemma newNumFmt_custom_id:
  assumes "customFormatsOk styles"
    and "\<not> cmp code ''general''" and "map_of builtInNumFmtInv code = None"
  shows "164 \<le> xlsxNumFmt.NumFmtId (fst (newNumFmt cmp styles code))"
proof -
  from newNumFmt_custom(1) [where cmp = cmp and code = code and styles = styles, OF assms(2,3)]
  have "fst (newNumFmt cmp styles code) \<in> set (numFmtList (snd (newNumFmt cmp styles code)))"
    by (auto simp: registeredNumFmt_list dest: find_Some_mem)
  moreover from assms(1) have "customFormatsOk (snd (newNumFmt cmp styles code))"
    by (rule newNumFmt_keeps_ok)
  ultimately show ?thesis
    by (auto simp: customFormatsOk_list builtinNumFmtsCount_def)
qed

lemma newNumFmt_fresh_id_new:
  assumes "customFormatsOk styles"
    and "\<not> cmp code ''general''" and "map_of builtInNumFmtInv code = None"
    and "registeredNumFmt styles code = None"
  shows "xlsxNumFmt.NumFmtId (fst (newNumFmt cmp styles code))
           \<notin> xlsxNumFmt.NumFmtId ` set (numFmtList styles)"
proof -
  note fr = newNumFmt_fresh [where cmp = cmp and code = code and styles = styles, OF assms(2-4)]
  from fr(4) assms(1) show ?thesis
    by (auto simp: customFormatsOk_list fr(1))
qed

lemma newNumFmt_distinct_ids:
  assumes ok: "customFormatsOk styles"
    and c1: "\<not> cmp code ''general''" "map_of builtInNumFmtInv code = None"
    and c2: "\<not> cmp code2 ''general''" "map_of builtInNumFmtInv code2 = None"
    and ne: "code2 \<noteq> code"
  shows "xlsxNumFmt.NumFmtId
           (fst (newNumFmt cmp (newNumFmts cmp (snd (newNumFmt cmp styles code)) codes) code2))
         \<noteq> xlsxNumFmt.NumFmtId (fst (newNumFmt cmp styles code))"
proof -
  define nf1 where "nf1 = fst (newNumFmt cmp styles code)"
  define s2 where "s2 = newNumFmts cmp (snd (newNumFmt cmp styles code)) codes"
  have ok2: "customFormatsOk s2"
    unfolding s2_def using ok by (intro newNumFmts_keeps_ok newNumFmt_keeps_ok)
  have reg1: "registeredNumFmt s2 code = Some nf1"
    unfolding s2_def nf1_def by (rule registered_kept)
      (rule newNumFmt_custom(1) [where cmp = cmp and code = code and styles = styles, OF c1])
  then have mem1: "nf1 \<in> set (numFmtList s2)"
    by (auto simp: registeredNumFmt_list dest: find_Some_mem)
  have code1: "FormatCode nf1 = code"
    unfolding nf1_def by (rule newNumFmt_custom(2) [where cmp = cmp and code = code and styles = styles, OF c1])
  show ?thesis
  proof (cases "registeredNumFmt s2 code2")
    case (Some nf2)
    then have mem2: "nf2 \<in> set (numFmtList s2)" and code2: "FormatCode nf2 = code2"
      by (auto simp: registeredNumFmt_list dest: find_Some_mem find_Some_holds)
    from code1 code2 ne have "nf2 \<noteq> nf1" by auto
    moreover from ok2 have "inj_on xlsxNumFmt.NumFmtId (set (numFmtList s2))"
      by (simp add: customFormatsOk_list distinct_map)
    ultimately have "xlsxNumFmt.NumFmtId nf2 \<noteq> xlsxNumFmt.NumFmtId nf1"
      using mem1 mem2 by (auto dest: inj_onD)
    moreover from Some c2 have "fst (newNumFmt cmp s2 code2) = nf2"
      by (simp add: newNumFmt_def)
    ultimately show ?thesis
      by (simp add: s2_def [symmetric] nf1_def [symmetric])
  next
    case None
    from newNumFmt_fresh_id_new [where cmp = cmp and code = code2 and styles = s2, OF ok2 c2 None]
      mem1 show ?thesis
      by (auto simp: s2_def [symmetric] nf1_def [symmetric])
  qed
qed

lemma reset_customFormatsOk: "customFormatsOk (reset styles)"
  by (simp add: customFormatsOk_def reset_def Let_def)

lemma newNumFmt_cases:
  "(cmp code ''general'' \<longrightarrow>
      newNumFmt cmp styles code = (\<lparr>xlsxNumFmt.NumFmtId = 0, FormatCode = ''general''\<rparr>, styles))
   \<and> (\<not> cmp code ''general'' \<and> map_of builtInNumFmtInv code = Some k \<longrightarrow>
      newNumFmt cmp styles code = (\<lparr>xlsxNumFmt.NumFmtId = k, FormatCode = code\<rparr>, styles)
      \<and> 0 \<le> k \<and> k \<le> 163 \<and> (k, code) \<in> set builtInNumFmt)
   \<and> (\<not> cmp code ''general'' \<and> map_of builtInNumFmtInv code = None
      \<and> registeredNumFmt styles code = Some nf \<longrightarrow>
      newNumFmt cmp styles code = (nf, styles) \<and> FormatCode nf = code)
   \<and> (\<not> cmp code ''general'' \<and> map_of builtInNumFmtInv code = None
      \<and> registeredNumFmt styles code = None \<longrightarrow>
      FormatCode (fst (newNumFmt cmp styles code)) = code
      \<and> 164 \<le> xlsxNumFmt.NumFmtId (fst (newNumFmt cmp styles code))
      \<and> map_of (numFmtRefTable styles) (xlsxNumFmt.NumFmtId (fst (newNumFmt cmp styles code))) = None
      \<and> (\<forall>j. 164 \<le> j \<and> j < xlsxNumFmt.NumFmtId (fst (newNumFmt cmp styles code))
              \<longrightarrow> map_of (numFmtRefTable styles) j \<noteq> None)
      \<and> registeredNumFmt (snd (newNumFmt cmp styles code)) code
           = Some (fst (newNumFmt cmp styles code))
      \<and> map_of (numFmtRefTable (snd (newNumFmt cmp styles code)))
            (xlsxNumFmt.NumFmtId (fst (newNumFmt cmp styles code)))
           = Some (fst (newNumFmt cmp styles code)))
   \<and> (customFormatsOk styles \<longrightarrow> customFormatsOk (snd (newNumFmt cmp styles code)))
   \<and> newNumFmt cmp (snd (newNumFmt cmp styles code)) code = newNumFmt cmp styles code"
proof (intro conjI impI)
  assume "cmp code ''general''"
  then show "newNumFmt cmp styles code
               = (\<lparr>xlsxNumFmt.NumFmtId = 0, FormatCode = ''general''\<rparr>, styles)"
    by (rule newNumFmt_general)
next
  assume a: "\<not> cmp code ''general'' \<and> map_of builtInNumFmtInv code = Some k"
  note b = newNumFmt_builtin[where cmp=cmp and code=code and k=k and styles=styles]
  from a b show "newNumFmt cmp styles code
                   = (\<lparr>xlsxNumFmt.NumFmtId = k, FormatCode = code\<rparr>, styles)"
    by blast
  from a b show "0 \<le> k" by blast
  from a b show "k \<le> 163" by (simp add: builtinNumFmtsCount_def)
  from a b show "(k, code) \<in> set builtInNumFmt" by blast
next
  assume a: "\<not> cmp code ''general'' \<and> map_of builtInNumFmtInv code = None
      \<and> registeredNumFmt styles code = Some nf"
  note b = newNumFmt_registered[where cmp=cmp and code=code and nf=nf and styles=styles]
  from a b show "newNumFmt cmp styles code = (nf, styles)" by blast
  from a b show "FormatCode nf = code" by blast
next
  assume a: "\<not> cmp code ''general'' \<and> map_of builtInNumFmtInv code = None
      \<and> registeredNumFmt styles code = None"
  then have a1: "\<not> cmp code ''general''" and a2: "map_of builtInNumFmtInv code = None"
    and a3: "registeredNumFmt styles code = None" by simp_all
  note fr = newNumFmt_fresh[where cmp=cmp and code=code and styles=styles, OF a1 a2 a3]
  show "FormatCode (fst (newNumFmt cmp styles code)) = code"
    by (simp add: fr(1))
  show "164 \<le> xlsxNumFmt.NumFmtId (fst (newNumFmt cmp styles code))"
    using fr(3) by (simp add: fr(1))
  show "map_of (numFmtRefTable styles) (xlsxNumFmt.NumFmtId (fst (newNumFmt cmp styles code))) = None"
    using fr(4) by (simp add: fr(1))
  show "\<forall>j. 164 \<le> j \<and> j < xlsxNumFmt.NumFmtId (fst (newNumFmt cmp styles code))
              \<longrightarrow> map_of (numFmtRefTable styles) j \<noteq> None"
    using fr(5) by (simp add: fr(1))
  show "registeredNumFmt (snd (newNumFmt cmp styles code)) code
           = Some (fst (newNumFmt cmp styles code))"
    using fr(6) by (simp add: fr(1))
  show "map_of (numFmtRefTable (snd (newNumFmt cmp styles code)))
            (xlsxNumFmt.NumFmtId (fst (newNumFmt cmp styles code)))
           = Some (fst (newNumFmt cmp styles code))"
    using fr(7) by (simp add: fr(1))
next
  assume "customFormatsOk styles"
  then show "customFormatsOk (snd (newNumFmt cmp styles code))"
    by (rule newNumFmt_keeps_ok)
next
  show "newNumFmt cmp (snd (newNumFmt cmp styles code)) code = newNumFmt cmp styles code"
    by (rule newNumFmt_again)
qed

text \<open>
  Claim C3, as the code has it.  \<open>newNumFmt\<close> returns id 0 for a code that
  \<open>compareFormatString\<close> equates with "general"; otherwise the id of the built-in table,
  within 0 .. 163 and without registering anything, when the code is a built-in format
  string; otherwise the first listed format with exactly this code; otherwise it appends
  the code to the list, under the least id from 164 upwards that the reference table
  does not hold, enters it in the reference table and returns it.  A listed format stays
  the one found for its code after any further calls, so that a later call with the same
  string returns the same format.  Which ids are in use is read from the reference
  table alone: on a style sheet whose listed formats all have ids above 163, pairwise
  different and held by the reference table, as \<open>reset\<close> leaves it, this remains so after
  any calls, an id that is registered is new to the list, and two different strings that
  are neither "general" nor built-in are never given the same id.
\<close>

theorem newNumFmt_spec:
  "(cmp code ''general'' \<longrightarrow>
      newNumFmt cmp styles code = (\<lparr>xlsxNumFmt.NumFmtId = 0, FormatCode = ''general''\<rparr>, styles))
   \<and> (\<not> cmp code ''general'' \<and> map_of builtInNumFmtInv code = Some k \<longrightarrow>
      newNumFmt cmp styles code = (\<lparr>xlsxNumFmt.NumFmtId = k, FormatCode = code\<rparr>, styles)
      \<and> 0 \<le> k \<and> k \<le> 163 \<and> (k, code) \<in> set builtInNumFmt)
   \<and> (\<not> cmp code ''general'' \<and> map_of builtInNumFmtInv code = None
      \<and> registeredNumFmt styles code = Some nf \<longrightarrow>
      newNumFmt cmp styles code = (nf, styles) \<and> FormatCode nf = code)
   \<and> (\<not> cmp code ''general'' \<and> map_of builtInNumFmtInv code = None
      \<and> registeredNumFmt styles code = None \<longrightarrow>
      FormatCode (fst (newNumFmt cmp styles code)) = code
      \<and> 164 \<le> xlsxNumFmt.NumFmtId (fst (newNumFmt cmp styles code))
      \<and> map_of (numFmtRefTable styles) (xlsxNumFmt.NumFmtId (fst (newNumFmt cmp styles code))) = None
      \<and> (\<forall>j. 164 \<le> j \<and> j < xlsxNumFmt.NumFmtId (fst (newNumFmt cmp styles code))
              \<longrightarrow> map_of (numFmtRefTable styles) j \<noteq> None)
      \<and> registeredNumFmt (snd (newNumFmt cmp styles code)) code
           = Some (fst (newNumFmt cmp styles code))
      \<and> map_of (numFmtRefTable (snd (newNumFmt cmp styles code)))
            (xlsxNumFmt.NumFmtId (fst (newNumFmt cmp styles code)))
           = Some (fst (newNumFmt cmp styles code)))
   \<and> (customFormatsOk styles \<longrightarrow> customFormatsOk (snd (newNumFmt cmp styles code)))
   \<and> newNumFmt cmp (snd (newNumFmt cmp styles code)) code = newNumFmt cmp styles code
   \<and> (\<not> cmp code ''general'' \<and> map_of builtInNumFmtInv code = None
      \<and> registeredNumFmt styles code = None \<longrightarrow>
      snd (newNumFmt cmp styles code)
        = styles
            \<lparr>NumFmts := Some
               \<lparr>xlsxNumFmts.Count =
                  (case NumFmts styles of None \<Rightarrow> 0 | Some nf \<Rightarrow> xlsxNumFmts.Count nf) + 1,
                NumFmt = numFmtList styles @ [fst (newNumFmt cmp styles code)]\<rparr>,
             numFmtRefTable :=
               (xlsxNumFmt.NumFmtId (fst (newNumFmt cmp styles code)),
                fst (newNumFmt cmp styles code)) # numFmtRefTable styles\<rparr>)
   \<and> (registeredNumFmt styles code1 = Some nf1 \<longrightarrow>
      registeredNumFmt (newNumFmts cmp styles codes) code1 = Some nf1)
   \<and> fst (newNumFmt cmp (newNumFmts cmp (snd (newNumFmt cmp styles code)) codes) code)
       = fst (newNumFmt cmp styles code)
   \<and> (customFormatsOk styles \<longrightarrow> customFormatsOk (newNumFmts cmp styles codes))
   \<and> (customFormatsOk styles \<and> \<not> cmp code ''general'' \<and> map_of builtInNumFmtInv code = None \<longrightarrow>
      164 \<le> xlsxNumFmt.NumFmtId (fst (newNumFmt cmp styles code)))
   \<and> (customFormatsOk styles \<and> \<not> cmp code ''general'' \<and> map_of builtInNumFmtInv code = None
      \<and> registeredNumFmt styles code = None \<longrightarrow>
      xlsxNumFmt.NumFmtId (fst (newNumFmt cmp styles code))
        \<notin> xlsxNumFmt.NumFmtId ` set (numFmtList styles))
   \<and> (customFormatsOk styles \<and> \<not> cmp code ''general'' \<and> map_of builtInNumFmtInv code = None
      \<and> \<not> cmp code2 ''general'' \<and> map_of builtInNumFmtInv code2 = None \<and> code2 \<noteq> code \<longrightarrow>
      xlsxNumFmt.NumFmtId
          (fst (newNumFmt cmp (newNumFmts cmp (snd (newNumFmt cmp styles code)) codes) code2))
        \<noteq> xlsxNumFmt.NumFmtId (fst (newNumFmt cmp styles code)))
   \<and> customFormatsOk (reset styles)"
  (is "?a1 \<and> ?a2 \<and> ?a3 \<and> ?a4 \<and> ?a5 \<and> ?a6 \<and> ?b1 \<and> ?b2 \<and> ?b3 \<and> ?b4 \<and> ?b5 \<and> ?b6 \<and> ?b7 \<and> ?b8")
proof -
  have a: "?a1 \<and> ?a2 \<and> ?a3 \<and> ?a4 \<and> ?a5 \<and> ?a6"
    by (rule newNumFmt_cases)
  have b1: ?b1
    using newNumFmt_fresh_sheet [where cmp = cmp and code = code and styles = styles] by blast
  have b2: ?b2
    using registered_kept [where styles = styles and code = code1 and nf = nf1] by blast
  have b3: ?b3
    by (rule newNumFmt_stable)
  have b4: ?b4
    using newNumFmts_keeps_ok [where styles = styles] by blast
  have b5: ?b5
    using newNumFmt_custom_id [where cmp = cmp and code = code and styles = styles] by blast
  have b6: ?b6
    using newNumFmt_fresh_id_new [where cmp = cmp and code = code and styles = styles] by blast
  have b7: ?b7
    using newNumFmt_distinct_ids [where cmp = cmp and code = code and styles = styles
        and ?code2.0 = code2 and codes = codes] by blast
  have b8: ?b8
    by (rule reset_customFormatsOk)
  from b1 b2 b3 b4 b5 b6 b7 b8 have b: "?b1 \<and> ?b2 \<and> ?b3 \<and> ?b4 \<and> ?b5 \<and> ?b6 \<and> ?b7 \<and> ?b8"
    by (intro conjI)
  from a b show ?thesis
    by (elim conjE) (intro conjI; assumption)
qed

text \<open>
  On a reset sheet where "yyyy" has been registered: "GENERAL" is format 0, "0.00" the
  built-in 2, "yyyy" the registered 164, and the new "0.0 kg" is appended as 165.  After
  further calls "yyyy" is still 164, and "0.0 kg" is given another id than "yyyy".
\<close>

theorem newNumFmt_spec_witness:
  "compareFoldCase ''GENERAL'' ''general''
   \<and> fst (newNumFmt compareFoldCase sheetWithYear ''GENERAL'')
       = \<lparr>xlsxNumFmt.NumFmtId = 0, FormatCode = ''general''\<rparr>
   \<and> \<not> compareFoldCase ''0.00'' ''general'' \<and> map_of builtInNumFmtInv ''0.00'' = Some 2
   \<and> newNumFmt compareFoldCase sheetWithYear ''0.00''
       = (\<lparr>xlsxNumFmt.NumFmtId = 2, FormatCode = ''0.00''\<rparr>, sheetWithYear)
   \<and> \<not> compareFoldCase ''yyyy'' ''general'' \<and> map_of builtInNumFmtInv ''yyyy'' = None
   \<and> registeredNumFmt sheetWithYear ''yyyy''
       = Some \<lparr>xlsxNumFmt.NumFmtId = 164, FormatCode = ''yyyy''\<rparr>
   \<and> newNumFmt compareFoldCase sheetWithYear ''yyyy''
       = (\<lparr>xlsxNumFmt.NumFmtId = 164, FormatCode = ''yyyy''\<rparr>, sheetWithYear)
   \<and> \<not> compareFoldCase ''0.0 kg'' ''general'' \<and> map_of builtInNumFmtInv ''0.0 kg'' = None
   \<and> registeredNumFmt sheetWithYear ''0.0 kg'' = None
   \<and> fst (newNumFmt compareFoldCase sheetWithYear ''0.0 kg'')
       = \<lparr>xlsxNumFmt.NumFmtId = 165, FormatCode = ''0.0 kg''\<rparr>
   \<and> map_of (numFmtRefTable sheetWithYear) 165 = None
   \<and> numFmtList (snd (newNumFmt compareFoldCase sheetWithYear ''0.0 kg''))
       = [\<lparr>xlsxNumFmt.NumFmtId = 164, FormatCode = ''yyyy''\<rparr>,
          \<lparr>xlsxNumFmt.NumFmtId = 165, FormatCode = ''0.0 kg''\<rparr>]
   \<and> customFormatsOk sheetWithYear
   \<and> customFormatsOk (snd (newNumFmt compareFoldCase sheetWithYear ''0.0 kg''))
   \<and> newNumFmt compareFoldCase (snd (newNumFmt compareFoldCase sheetWithYear ''0.0 kg'')) ''0.0 kg''
       = newNumFmt compareFoldCase sheetWithYear ''0.0 kg''
   \<and> registeredNumFmt (newNumFmts compareFoldCase sheetWithYear [''0.0 kg'', ''0.00'']) ''yyyy''
       = Some \<lparr>xlsxNumFmt.NumFmtId = 164, FormatCode = ''yyyy''\<rparr>
   \<and> fst (newNumFmt compareFoldCase
            (newNumFmts compareFoldCase (snd (newNumFmt compareFoldCase freshSheet ''yyyy''))
               [''0.0 kg'', ''0.00'']) ''yyyy'')
       = \<lparr>xlsxNumFmt.NumFmtId = 164, FormatCode = ''yyyy''\<rparr>
   \<and> customFormatsOk freshSheet
   \<and> customFormatsOk (newNumFmts compareFoldCase freshSheet [''yyyy'', ''0.0 kg'', ''0.00''])
   \<and> xlsxNumFmt.NumFmtId
        (fst (newNumFmt compareFoldCase
           (newNumFmts compareFoldCase (snd (newNumFmt compareFoldCase freshSheet ''yyyy''))
              [''0.00'']) ''0.0 kg'')) \<noteq> 164"
proof -
  have h: "compareFoldCase ''GENERAL'' ''general''"
    "\<not> compareFoldCase ''0.00'' ''general''" "map_of builtInNumFmtInv ''0.00'' = Some 2"
    "\<not> compareFoldCase ''yyyy'' ''general''" "map_of builtInNumFmtInv ''yyyy'' = None"
    "registeredNumFmt sheetWithYear ''yyyy''
       = Some \<lparr>xlsxNumFmt.NumFmtId = 164, FormatCode = ''yyyy''\<rparr>"
    "\<not> compareFoldCase ''0.0 kg'' ''general''" "map_of builtInNumFmtInv ''0.0 kg'' = None"
    "registeredNumFmt sheetWithYear ''0.0 kg'' = None"
    by code_simp+
  have v: "fst (newNumFmt compareFoldCase sheetWithYear ''0.0 kg'')
       = \<lparr>xlsxNumFmt.NumFmtId = 165, FormatCode = ''0.0 kg''\<rparr>"
    by code_simp
  have y: "fst (newNumFmt compareFoldCase freshSheet ''yyyy'')
       = \<lparr>xlsxNumFmt.NumFmtId = 164, FormatCode = ''yyyy''\<rparr>"
    by code_simp
  have l: "numFmtList sheetWithYear = [\<lparr>xlsxNumFmt.NumFmtId = 164, FormatCode = ''yyyy''\<rparr>]"
    by code_simp
  have "''0.0 kg'' \<noteq> ''yyyy''"
    by simp
  note ne = this
  have general: "fst (newNumFmt compareFoldCase sheetWithYear ''GENERAL'')
       = \<lparr>xlsxNumFmt.NumFmtId = 0, FormatCode = ''general''\<rparr>"
    using newNumFmt_spec [where cmp = compareFoldCase and styles = sheetWithYear
        and code = "''GENERAL''", THEN conjunct1, THEN mp, OF h(1)]
    by simp
  have builtin: "newNumFmt compareFoldCase sheetWithYear ''0.00''
       = (\<lparr>xlsxNumFmt.NumFmtId = 2, FormatCode = ''0.00''\<rparr>, sheetWithYear)"
    using newNumFmt_spec [where cmp = compareFoldCase and styles = sheetWithYear
        and code = "''0.00''" and k = 2, THEN conjunct2, THEN conjunct1, THEN mp,
        OF conjI [OF h(2) h(3)], THEN conjunct1] .
  have registered: "newNumFmt compareFoldCase sheetWithYear ''yyyy''
       = (\<lparr>xlsxNumFmt.NumFmtId = 164, FormatCode = ''yyyy''\<rparr>, sheetWithYear)"
    using newNumFmt_spec [where cmp = compareFoldCase and styles = sheetWithYear
        and code = "''yyyy''" and nf = "\<lparr>xlsxNumFmt.NumFmtId = 164, FormatCode = ''yyyy''\<rparr>",
        THEN conjunct2, THEN conjunct2, THEN conjunct1, THEN mp, OF conjI [OF h(4) conjI [OF h(5) h(6)]], THEN conjunct1] .
  note fresh = conjI [OF h(7) conjI [OF h(8) h(9)]]
  have unused: "map_of (numFmtRefTable sheetWithYear) 165 = None"
    using newNumFmt_spec [where cmp = compareFoldCase and styles = sheetWithYear
        and code = "''0.0 kg''", THEN conjunct2, THEN conjunct2, THEN conjunct2, THEN conjunct1, THEN mp, OF fresh,
        THEN conjunct2, THEN conjunct2, THEN conjunct1]
    by (simp add: v)
  have appended: "numFmtList (snd (newNumFmt compareFoldCase sheetWithYear ''0.0 kg''))
       = [\<lparr>xlsxNumFmt.NumFmtId = 164, FormatCode = ''yyyy''\<rparr>,
          \<lparr>xlsxNumFmt.NumFmtId = 165, FormatCode = ''0.0 kg''\<rparr>]"
  proof -
    have "numFmtList (snd (newNumFmt compareFoldCase sheetWithYear ''0.0 kg''))
        = numFmtList sheetWithYear @ [fst (newNumFmt compareFoldCase sheetWithYear ''0.0 kg'')]"
      using newNumFmt_spec [where cmp = compareFoldCase and styles = sheetWithYear
          and code = "''0.0 kg''", THEN conjunct2, THEN conjunct2, THEN conjunct2, THEN conjunct2, THEN conjunct2,
        THEN conjunct2, THEN conjunct1, THEN mp, OF fresh]
      by (simp add: numFmtList_def)
    then show ?thesis
      by (simp add: v l)
  qed
  have ok0: "customFormatsOk freshSheet"
    unfolding freshSheet_def
    using newNumFmt_spec [where styles = "newXlsxStyleSheet None", THEN conjunct2, THEN conjunct2, THEN conjunct2, THEN conjunct2, THEN conjunct2,
        THEN conjunct2, THEN conjunct2, THEN conjunct2, THEN conjunct2, THEN conjunct2,
        THEN conjunct2, THEN conjunct2, THEN conjunct2] .
  have ok1: "customFormatsOk sheetWithYear"
    unfolding sheetWithYear_def
    using newNumFmt_spec [where cmp = compareFoldCase and styles = freshSheet
        and code = "''yyyy''", THEN conjunct2, THEN conjunct2, THEN conjunct2, THEN conjunct2, THEN conjunct1, THEN mp, OF ok0] .
  have ok2: "customFormatsOk (snd (newNumFmt compareFoldCase sheetWithYear ''0.0 kg''))"
    using newNumFmt_spec [where cmp = compareFoldCase and styles = sheetWithYear
        and code = "''0.0 kg''", THEN conjunct2, THEN conjunct2, THEN conjunct2, THEN conjunct2, THEN conjunct1, THEN mp, OF ok1] .
  have again: "newNumFmt compareFoldCase (snd (newNumFmt compareFoldCase sheetWithYear ''0.0 kg'')) ''0.0 kg''
       = newNumFmt compareFoldCase sheetWithYear ''0.0 kg''"
    using newNumFmt_spec [where cmp = compareFoldCase and styles = sheetWithYear
        and code = "''0.0 kg''", THEN conjunct2, THEN conjunct2, THEN conjunct2, THEN conjunct2, THEN conjunct2,
        THEN conjunct1] .
  have kept: "registeredNumFmt (newNumFmts compareFoldCase sheetWithYear [''0.0 kg'', ''0.00'']) ''yyyy''
       = Some \<lparr>xlsxNumFmt.NumFmtId = 164, FormatCode = ''yyyy''\<rparr>"
    using newNumFmt_spec [where cmp = compareFoldCase and styles = sheetWithYear
        and ?code1.0 = "''yyyy''" and ?nf1.0 = "\<lparr>xlsxNumFmt.NumFmtId = 164, FormatCode = ''yyyy''\<rparr>"
        and codes = "[''0.0 kg'', ''0.00'']", THEN conjunct2, THEN conjunct2, THEN conjunct2, THEN conjunct2, THEN conjunct2,
        THEN conjunct2, THEN conjunct2, THEN conjunct1, THEN mp, OF h(6)] .
  have stable: "fst (newNumFmt compareFoldCase
            (newNumFmts compareFoldCase (snd (newNumFmt compareFoldCase freshSheet ''yyyy''))
               [''0.0 kg'', ''0.00'']) ''yyyy'')
       = \<lparr>xlsxNumFmt.NumFmtId = 164, FormatCode = ''yyyy''\<rparr>"
    using newNumFmt_spec [where cmp = compareFoldCase and styles = freshSheet
        and code = "''yyyy''" and codes = "[''0.0 kg'', ''0.00'']", THEN conjunct2, THEN conjunct2, THEN conjunct2, THEN conjunct2, THEN conjunct2,
        THEN conjunct2, THEN conjunct2, THEN conjunct2, THEN conjunct1]
    by (simp only: y)
  have ok3: "customFormatsOk (newNumFmts compareFoldCase freshSheet [''yyyy'', ''0.0 kg'', ''0.00''])"
    using newNumFmt_spec [where cmp = compareFoldCase and styles = freshSheet
        and codes = "[''yyyy'', ''0.0 kg'', ''0.00'']", THEN conjunct2, THEN conjunct2, THEN conjunct2, THEN conjunct2, THEN conjunct2,
        THEN conjunct2, THEN conjunct2, THEN conjunct2, THEN conjunct2, THEN conjunct1, THEN mp, OF ok0] .
  have other: "xlsxNumFmt.NumFmtId
        (fst (newNumFmt compareFoldCase
           (newNumFmts compareFoldCase (snd (newNumFmt compareFoldCase freshSheet ''yyyy''))
              [''0.00'']) ''0.0 kg'')) \<noteq> 164"
    using newNumFmt_spec [where cmp = compareFoldCase and styles = freshSheet
        and code = "''yyyy''" and ?code2.0 = "''0.0 kg''" and codes = "[''0.00'']",
        THEN conjunct2, THEN conjunct2, THEN conjunct2, THEN conjunct2, THEN conjunct2,
        THEN conjunct2, THEN conjunct2, THEN conjunct2, THEN conjunct2, THEN conjunct2,
        THEN conjunct2, THEN conjunct2, THEN conjunct1, THEN mp,
        OF conjI [OF ok0 conjI [OF h(4) conjI [OF h(5) conjI [OF h(7) conjI [OF h(8) ne]]]]]]
    by (simp add: y)
  show ?thesis
    by (intro conjI h general builtin registered v unused appended ok1 ok2 again kept stable
        ok0 ok3 other)
qed

text \<open>
  Claim C3 as stated fails on the uniqueness of the ids.  On a sheet that lists "yyyy" as
  format 164 and whose reference table is empty, the new code "0.0 kg" is registered as
  format 164 too: the list then holds the id 164 twice.
\<close>

theorem newNumFmt_spec_counterexample:
  "numFmtList listedOnlySheet = [\<lparr>xlsxNumFmt.NumFmtId = 164, FormatCode = ''yyyy''\<rparr>]
   \<and> numFmtRefTable listedOnlySheet = []
   \<and> fst (newNumFmt compareFoldCase listedOnlySheet ''0.0 kg'')
       = \<lparr>xlsxNumFmt.NumFmtId = 164, FormatCode = ''0.0 kg''\<rparr>
   \<and> numFmtList (snd (newNumFmt compareFoldCase listedOnlySheet ''0.0 kg''))
       = [\<lparr>xlsxNumFmt.NumFmtId = 164, FormatCode = ''yyyy''\<rparr>,
          \<lparr>xlsxNumFmt.NumFmtId = 164, FormatCode = ''0.0 kg''\<rparr>]"
  by code_simp


section \<open>Properties of marshalling\<close>






lemma countedElement_open:
  "subs \<noteq> [] \<Longrightarrow>
   countedElement tag subs
     = ''<'' @ tag @ '' count='' @ dq @ itoa (int (length subs)) @ dq @ ''>''
       @ concat subs @ ''</'' @ tag @ ''>''"
  by (simp add: countedElement_def)













section \<open>Properties of the cell record\<close>









lemma length_intToBytes [simp]: "length (intToBytes k n) = k"
  by (induction k arbitrary: n) simp_all































section \<open>Properties of the Redis cell store\<close>

lemma client_setSheetName [simp]: "client (setSheetName cs s) = client cs"
  by (simp add: setSheetName_def split: option.splits)

lemma HGET_cong: "map_of db' key = map_of db key \<Longrightarrow> HGET key field db' = HGET key field db"
  by (simp add: HGET_def)

lemma HDEL_other:
  assumes "HDEL a field db = Inr db'" and "a \<noteq> b"
  shows "map_of db' b = map_of db b"
  using assms
  by (auto simp: HDEL_def Let_def update_conv' split: option.splits rvalue.splits if_splits)

lemma HSET_other:
  assumes "HSET a field v db = Inr db'" and "a \<noteq> b"
  shows "map_of db' b = map_of db b"
  using assms by (auto simp: HSET_def update_conv' split: option.splits rvalue.splits)

lemma ZADDString_other:
  assumes "ZADDString a score member db = Inr db'" and "a \<noteq> b"
  shows "map_of db' b = map_of db b"
  using assms by (auto simp: ZADDString_def update_conv' split: option.splits rvalue.splits)

lemma HDEL_gone:
  assumes "HDEL a field db = Inr db'"
  shows "HGET a field db' = Inr None"
proof (cases "map_of db a")
  case None
  with assms show ?thesis
    by (simp add: HDEL_def HGET_def)
next
  case (Some v)
  show ?thesis
  proof (cases v)
    case (Hash h)
    have "map_of (AList.delete field h) field = None"
      by (simp add: delete_conv')
    with assms Some Hash show ?thesis
      by (auto simp: HDEL_def HGET_def Let_def update_conv' delete_conv' split: if_splits)
  next
    case (ZSet z)
    with assms Some show ?thesis
      by (simp add: HDEL_def)
  qed
qed

lemma removeCells_other:
  "removeCells cells field db = (e, db') \<Longrightarrow> b \<notin> set cells \<Longrightarrow> map_of db' b = map_of db b"
proof (induction cells arbitrary: db)
  case Nil
  then show ?case by simp
next
  case (Cons cell cells)
  show ?case
  proof (cases "HDEL cell field db")
    case (Inl err)
    with Cons.prems show ?thesis by simp
  next
    case (Inr db1)
    with Cons.prems have "removeCells cells field db1 = (e, db')" and "b \<notin> set cells"
      and "cell \<noteq> b"
      by auto
    with Cons.IH [of db1] HDEL_other [OF Inr] show ?thesis
      by simp
  qed
qed

lemma RemoveRow_parts:
  assumes "Split CHR '':'' key = [k0, k1]" and "RemoveRow K key cs = (None, cs')"
  obtains db1 db2 where "removeCells (columnKeys K k0 (client cs)) k1 (client cs) = (None, db1)"
    and "HDEL k0 k1 db1 = Inr db2" and "cs' = cs\<lparr>client := db2\<rparr>"
  using assms
  by (auto simp: RemoveRow_def Let_def split: prod.splits option.splits sum.splits)

lemma ReadRow_cong:
  assumes "map_of (client cs') (makeSheetRowsStore K (Name sh))
           = map_of (client cs) (makeSheetRowsStore K (Name sh))"
  shows "fst (ReadRow P K key (Some sh) cs') = fst (ReadRow P K key (Some sh) cs)"
  using HGET_cong [OF assms]
  by (simp add: ReadRow_def Let_def split: sum.splits option.splits prod.splits)

lemma ReadRow_absent:
  assumes "Split CHR '':'' key = [k0, k1]"
    and "HGET (makeSheetRowsStore K (Name sh)) k1 (client cs) = Inr None"
  shows "fst (ReadRow P K key (Some sh) cs) = Inl (RowNotFoundError key ''no such row'')"
  using assms by (simp add: ReadRow_def Let_def)

lemma RemoveRow_removes_when_names_agree:
  assumes "Split CHR '':'' key = [k0, k1]" and "Name sh = k0"
    and "makeSheetRowsStore K k0 = k0"
    and "RemoveRow K key cs = (None, cs')"
  shows "fst (ReadRow P K key (Some sh) cs') = Inl (RowNotFoundError key ''no such row'')"
proof -
  from assms(1,4) obtain db1 db2 where "HDEL k0 k1 db1 = Inr db2" and "cs' = cs\<lparr>client := db2\<rparr>"
    by (rule RemoveRow_parts)
  with HDEL_gone [of k0 k1 db1 db2] assms(2,3)
  have "HGET (makeSheetRowsStore K (Name sh)) k1 (client cs') = Inr None"
    by simp
  with assms(1) show ?thesis
    by (rule ReadRow_absent)
qed

text \<open>
  Claim C5, as the code has it.  \<open>RemoveRow\<close> deletes the field of the row from the hash
  named by the first part of the key, where \<open>ReadRow\<close>, \<open>WriteRow\<close> and \<open>MoveRow\<close> keep the
  rows of a sheet in the hash that \<open>makeSheetRowsStore\<close> names.  Whenever the two names
  differ, and the hash of the rows is not listed among the keys of the columns, a row
  that could be read before a successful \<open>RemoveRow\<close> of its key is read, unchanged, after
  it: the second read does not fail with \<open>RowNotFoundError\<close>.
\<close>

theorem RemoveRow_leaves_row:
  assumes "Split CHR '':'' key = [k0, k1]" and "Name sh = k0"
    and "makeSheetRowsStore K k0 \<noteq> k0"
    and "makeSheetRowsStore K k0 \<notin> set (columnKeys K k0 (client cs))"
    and "RemoveRow K key cs = (None, cs')"
    and "fst (ReadRow P K key (Some sh) cs) = Inr row"
  shows "fst (ReadRow P K key (Some sh) cs') = Inr row"
proof -
  from assms(1,5) obtain db1 db2
    where cells: "removeCells (columnKeys K k0 (client cs)) k1 (client cs) = (None, db1)"
      and row: "HDEL k0 k1 db1 = Inr db2" and cs': "cs' = cs\<lparr>client := db2\<rparr>"
    by (rule RemoveRow_parts)
  have "map_of db1 (makeSheetRowsStore K k0) = map_of (client cs) (makeSheetRowsStore K k0)"
    using cells assms(4) by (rule removeCells_other)
  moreover have "map_of db2 (makeSheetRowsStore K k0) = map_of db1 (makeSheetRowsStore K k0)"
    using row assms(3) by (simp add: HDEL_other)
  ultimately have "map_of (client cs') (makeSheetRowsStore K (Name sh))
      = map_of (client cs) (makeSheetRowsStore K (Name sh))"
    by (simp add: cs' assms(2))
  from ReadRow_cong [OF this] assms(6) show ?thesis
    by simp
qed

lemma storeWithRows_removed:
  "fst (RemoveRow (sampleKeyspace :: string keyspace) ''Test:3'' storeWithRows) = None"
  by code_simp

lemma storeWithRows_read:
  "fst (ReadRow samplePrimitives sampleKeyspace ''Test:3'' (Some testSheet) storeWithRows)
   = Inr testRow"
  by code_simp

lemma storeWithRows_columns:
  "columnKeys (sampleKeyspace :: string keyspace) ''Test'' (client storeWithRows) = []"
  by code_simp

theorem RemoveRow_leaves_row_witness:
  "fst (WriteRow samplePrimitives sampleKeyspace sampleHelpers emptyStore testRow) = None
   \<and> fst (RemoveRow (sampleKeyspace :: string keyspace) ''Test:3'' storeWithRows) = None
   \<and> fst (ReadRow samplePrimitives sampleKeyspace ''Test:3'' (Some testSheet)
        (snd (RemoveRow (sampleKeyspace :: string keyspace) ''Test:3'' storeWithRows)))
     = Inr testRow"
proof -
  have written: "fst (WriteRow samplePrimitives sampleKeyspace sampleHelpers emptyStore testRow) = None"
    by code_simp
  have key: "Split CHR '':'' ''Test:3'' = [''Test'', ''3'']"
    by code_simp
  have name: "Name testSheet = ''Test''"
    by (simp add: testSheet_def)
  have names: "makeSheetRowsStore (sampleKeyspace :: string keyspace) ''Test'' \<noteq> ''Test''"
    by (simp add: sampleKeyspace_def)
  have columns: "makeSheetRowsStore (sampleKeyspace :: string keyspace) ''Test''
      \<notin> set (columnKeys (sampleKeyspace :: string keyspace) ''Test'' (client storeWithRows))"
    by (simp add: storeWithRows_columns)
  have removed: "RemoveRow (sampleKeyspace :: string keyspace) ''Test:3'' storeWithRows
      = (None, snd (RemoveRow (sampleKeyspace :: string keyspace) ''Test:3'' storeWithRows))"
    using storeWithRows_removed by (simp add: prod_eq_iff)
  from RemoveRow_leaves_row [OF key name names columns removed storeWithRows_read] written
    storeWithRows_removed
  show ?thesis
    by simp
qed

lemma flushCell_other:
  assumes "flushCell K H r cell db = (e, db')" and "Sheet r = Some sh"
    and "makeCellKeyPrefix K r (Cell.num cell) \<noteq> b" and "makeSheetCellsStore K (Name sh) \<noteq> b"
  shows "map_of db' b = map_of db b"
proof (cases "writeCell H cell")
  case (Pair err buf)
  show ?thesis
  proof (cases err)
    case (Some x)
    with assms(1) Pair show ?thesis
      by (simp add: flushCell_def)
  next
    case None
    show ?thesis
    proof (cases "ZADDString (makeSheetCellsStore K (Name sh)) (Cell.num cell)
                    (makeCellKeyPrefix K r (Cell.num cell)) db")
      case (Inl x)
      with assms(1,2) Pair None show ?thesis
        by (simp add: flushCell_def)
    next
      case (Inr db1)
      note zadd = ZADDString_other [OF Inr assms(4)]
      show ?thesis
      proof (cases "HSET (makeCellKeyPrefix K r (Cell.num cell)) (makeRowNum K r) buf db1")
        case (Inl x)
        with assms(1,2) Pair None Inr zadd show ?thesis
          by (simp add: flushCell_def)
      next
        case hset: (Inr db2)
        from HSET_other [OF hset assms(3)] assms(1,2) Pair None Inr zadd hset show ?thesis
          by (simp add: flushCell_def)
      qed
    qed
  qed
qed

text \<open>
  Claim C6.  For a row of a sheet and a destination index under which the hash of the
  sheet's rows already holds a row, \<open>MoveRow\<close> returns the error "Target index for row
  ... would overwrite a row already exists" and leaves the row as it was, and every key
  reads afterwards the row it read before: the entry under the old row number has not
  been deleted.  The current cell of the row, if it has one, is first stored; this is
  taken to succeed, and the keys of its column and of the sheet's columns to differ
  from the key of the sheet's rows.
\<close>

theorem MoveRow_conflict:
  assumes "Sheet r = Some sh" and "cellStoreRow r = Some rr"
    and "HGET (makeSheetRowsStore K (Name sh)) (itoa (sint index)) (client cs) = Inr (Some other)"
    and "\<forall>cell. currentCell rr = Some cell \<longrightarrow>
           makeCellKeyPrefix K r (Cell.num cell) \<noteq> makeSheetRowsStore K (Name sh)
           \<and> makeSheetCellsStore K (Name sh) \<noteq> makeSheetRowsStore K (Name sh)
           \<and> fst (flushCell K H r cell (client cs)) = None"
  shows "fst (MoveRow K H cs r index)
           = Some (Errorf (''Target index for row ('' @ itoa (sint index)
                           @ '') would overwrite a row already exists''))
         \<and> fst (snd (MoveRow K H cs r index)) = r
         \<and> fst (ReadRow P K key (Some sh) (snd (snd (MoveRow K H cs r index))))
           = fst (ReadRow P K key (Some sh) cs)"
proof -
  define rows where "rows = makeSheetRowsStore K (Name sh)"
  define flushed where "flushed =
    (case currentCell rr of None \<Rightarrow> (None, client (setSheetName cs (Some sh)))
     | Some cell \<Rightarrow> flushCell K H r cell (client (setSheetName cs (Some sh))))"
  have ok: "fst flushed = None"
    using assms(4) by (simp add: flushed_def split: option.splits)
  have kept: "map_of (snd flushed) rows = map_of (client cs) rows"
  proof (cases "currentCell rr")
    case None
    then show ?thesis
      by (simp add: flushed_def)
  next
    case (Some cell)
    with assms(4) have k: "makeCellKeyPrefix K r (Cell.num cell) \<noteq> rows"
      and c: "makeSheetCellsStore K (Name sh) \<noteq> rows"
      by (simp_all add: rows_def)
    have "flushCell K H r cell (client cs) = (fst flushed, snd flushed)"
      by (simp add: flushed_def Some)
    from flushCell_other [OF this assms(1) k c] show ?thesis .
  qed
  from ok obtain db1 where flushed: "flushed = (None, db1)"
    by (cases flushed) auto
  with kept have db1: "map_of db1 rows = map_of (client cs) rows"
    by simp
  have occupied: "HGET (makeSheetRowsStore K (Name sh)) (itoa (sint index)) db1 = Inr (Some other)"
    using HGET_cong [OF db1] assms(3) by (simp add: rows_def)
  have result: "MoveRow K H cs r index
      = (Some (Errorf (''Target index for row ('' @ itoa (sint index)
                       @ '') would overwrite a row already exists'')),
         r, (setSheetName cs (Some sh))\<lparr>client := db1\<rparr>)"
    unfolding MoveRow_def Let_def assms(1) assms(2) option.case
      flushed [unfolded flushed_def] prod.case occupied sum.case
    by (rule refl)
  have "map_of (client ((setSheetName cs (Some sh))\<lparr>client := db1\<rparr>))
          (makeSheetRowsStore K (Name sh))
      = map_of (client cs) (makeSheetRowsStore K (Name sh))"
    using db1 by (simp add: rows_def)
  from ReadRow_cong [OF this] result show ?thesis
    by simp
qed

lemma rowWithCell_flushed:
  "fst (flushCell sampleKeyspace sampleHelpers rowWithCell testCell (client storeWithRows)) = None"
  by code_simp

lemma storeWithRows_occupied:
  "HGET (makeSheetRowsStore (sampleKeyspace :: string keyspace) (Name testSheet)) (itoa (sint (5 :: int64)))
     (client storeWithRows)
   = Inr (Some [0, 51, 51, 51, 51, 51, 51, 68, 64, 2, 0, 0, 0, 0, 0, 0, 0, 1, 5, 0, 0, 0, 0, 0,
                0, 0, 255, 255, 255, 255, 255, 255, 255, 255, 30])"
  by code_simp

theorem MoveRow_conflict_witness:
  "fst (MoveRow sampleKeyspace sampleHelpers storeWithRows rowWithCell 5)
     = Some (Errorf ''Target index for row (5) would overwrite a row already exists'')
   \<and> fst (ReadRow samplePrimitives sampleKeyspace ''Test:3'' (Some testSheet)
        (snd (snd (MoveRow sampleKeyspace sampleHelpers storeWithRows rowWithCell 5))))
     = Inr testRow"
proof -
  have sheet: "Sheet rowWithCell = Some testSheet"
    by (simp add: rowWithCell_def testRow_def)
  have rr: "cellStoreRow rowWithCell = Some \<lparr>maxCol = 0, currentCell = Some testCell\<rparr>"
    by (simp add: rowWithCell_def)
  have keys: "makeCellKeyPrefix sampleKeyspace rowWithCell (Cell.num testCell)
        \<noteq> makeSheetRowsStore (sampleKeyspace :: string keyspace) (Name testSheet)
      \<and> makeSheetCellsStore (sampleKeyspace :: string keyspace) (Name testSheet)
        \<noteq> makeSheetRowsStore (sampleKeyspace :: string keyspace) (Name testSheet)"
    by code_simp
  have five: "itoa (sint (5 :: int64)) = ''5''"
    by code_simp
  have flush: "\<forall>cell. currentCell \<lparr>maxCol = 0, currentCell = Some testCell\<rparr> = Some cell \<longrightarrow>
      makeCellKeyPrefix sampleKeyspace rowWithCell (Cell.num cell)
        \<noteq> makeSheetRowsStore (sampleKeyspace :: string keyspace) (Name testSheet)
      \<and> makeSheetCellsStore (sampleKeyspace :: string keyspace) (Name testSheet)
        \<noteq> makeSheetRowsStore (sampleKeyspace :: string keyspace) (Name testSheet)
      \<and> fst (flushCell sampleKeyspace sampleHelpers rowWithCell cell (client storeWithRows)) = None"
    using keys rowWithCell_flushed by simp
  from MoveRow_conflict [OF sheet rr storeWithRows_occupied flush,
      where P = samplePrimitives and key = "''Test:3''"]
    storeWithRows_read five
  show ?thesis
    by simp
qed

end
